theory Spec2Isabelle
  imports Main
begin

unbundle bit_operations_syntax

section \<open>Data model\<close>

text \<open>
  The kernel of elastix: \<^verbatim>\<open>ElastixMain\<close> (src/Core/Kernel/elxElastixMain.cxx) creates the
  components that a parameter file names, and \<^verbatim>\<open>ElastixTemplate\<close>
  (src/src/Core/Kernel/elxElastixTemplate.hxx) drives them through the registration.
  Objects live in a store and are referred to by address; \<open>None\<close> is the null pointer.
  Timers and informational output (\<^verbatim>\<open>elxout\<close>) are left out; calls into components,
  error messages and files are recorded, in order, in \<open>trace\<close>.
\<close>

type_synonym addr = nat

type_synonym DataObject = nat

datatype role =
    Registration | Transform | ImageSampler | Metric | Interpolator | Optimizer
  | FixedImagePyramid | MovingImagePyramid | ResampleInterpolator | Resampler

fun role_name :: "role \<Rightarrow> string" where
  "role_name Registration = ''Registration''"
| "role_name Transform = ''Transform''"
| "role_name ImageSampler = ''ImageSampler''"
| "role_name Metric = ''Metric''"
| "role_name Interpolator = ''Interpolator''"
| "role_name Optimizer = ''Optimizer''"
| "role_name FixedImagePyramid = ''FixedImagePyramid''"
| "role_name MovingImagePyramid = ''MovingImagePyramid''"
| "role_name ResampleInterpolator = ''ResampleInterpolator''"
| "role_name Resampler = ''Resampler''"

text \<open>The member functions of components that the kernel calls.\<close>

datatype member_function =
    Component_BeforeAllBase | Component_BeforeAll
  | Component_BeforeRegistrationBase | Component_BeforeRegistration
  | Component_BeforeEachResolutionBase | Component_BeforeEachResolution
  | Component_AfterEachIterationBase | Component_AfterEachIteration
  | Component_AfterEachResolutionBase | Component_AfterEachResolution
  | Component_AfterRegistrationBase | Component_AfterRegistration
  | Component_BeforeAllTransformixBase | Component_BeforeAllTransformix
  | ReadFromFile | WriteToFile | TransformPoints
  | SetTransformParametersFileName string
  | WriteResultImage string

datatype callee = OnConfiguration | OnElastix | OnComponent role nat

datatype event =
    Call callee member_function
  | LogError string
  | WriteHeaders
  | ItNr nat
  | OpenFile string
  | GenerateImageContainer string
  | EnterStartRegistration

datatype error = ExceptionObject string | NullPointerDereference | IndexOutOfRange

text \<open>
  A component as the kernel sees it (\<^verbatim>\<open>BaseComponentSE\<close>): the name it was created
  under, the label \<^verbatim>\<open>SetComponentLabel\<close> gave it and the back-reference
  \<^verbatim>\<open>SetElastix\<close> gave it. A container of components holds addresses of components and
  no null pointer: \<^verbatim>\<open>CreateComponents\<close>, which fills the containers, stores what
  \<^verbatim>\<open>CreateComponent\<close> returns, and that is never null.
\<close>

record component =
  ComponentDescription :: string
  ComponentLabel :: "(string \<times> nat) option"
  Elastix :: "addr option"

record world =
  heap :: "addr \<Rightarrow> component"
  next_addr :: addr
  trace :: "event list"

definition emit :: "event \<Rightarrow> world \<Rightarrow> world" where
  "emit ev w = w\<lparr>trace := trace w @ [ev]\<rparr>"

subsection \<open>The configuration\<close>

text \<open>
  Modelled from the spec: the class \<^verbatim>\<open>Configuration\<close> is not among the sources. The
  spec describes it as typed key/value lookups addressed by key and entry index that
  return a found/not-found status plus a value, and a lookup of command-line flags. A
  lookup that finds nothing leaves the caller's variable as it was.
\<close>

record Configuration =
  IsInitialized :: bool
  CommandLineArguments :: "(string \<times> string) list"
  StringParameters :: "((string \<times> nat) \<times> string) list"
  UIntParameters :: "((string \<times> nat) \<times> nat) list"
  BoolParameters :: "((string \<times> nat) \<times> bool) list"
  ElastixLevel :: nat
  ConfigurationLabel :: "(string \<times> nat) option"

definition GetCommandLineArgument :: "Configuration \<Rightarrow> string \<Rightarrow> string" where
  "GetCommandLineArgument c key =
     (case map_of (CommandLineArguments c) key of None \<Rightarrow> [] | Some v \<Rightarrow> v)"

definition ReadParameter ::
  "((string \<times> nat) \<times> 'v) list \<Rightarrow> 'v \<Rightarrow> string \<Rightarrow> nat \<Rightarrow> bool \<times> 'v" where
  "ReadParameter tbl param name entry_nr =
     (case map_of tbl (name, entry_nr) of None \<Rightarrow> (False, param) | Some v \<Rightarrow> (True, v))"

subsection \<open>Printing unsigned numbers\<close>

text \<open>\<^verbatim>\<open>ostream << n\<close> for an unsigned \<open>n\<close>: its decimal digits, no padding.\<close>

definition digit_char :: "nat \<Rightarrow> char" where
  "digit_char d = ''0123456789'' ! d"

function show_nat :: "nat \<Rightarrow> string" where
  "show_nat n = (if n < 10 then [digit_char n] else show_nat (n div 10) @ [digit_char (n mod 10)])"
  by pat_completeness auto
termination
  by (relation "measure (\<lambda>n. n)") auto

declare show_nat.simps [simp del]

subsection \<open>The state of ElastixBase / ElastixTemplate\<close>

text \<open>
  One container of component addresses for each role, the image and mask containers with
  the file names to load them from, the final and initial transform, and the iteration
  counter.

  Modelled from the spec: the declaration of \<^verbatim>\<open>m_IterationCounter\<close> (elxElastixBase.h) is
  not among the sources; the spec's data model gives it as a non-negative integer. The
  source compares it with an \<^verbatim>\<open>unsigned int\<close> and increments it with \<^verbatim>\<open>++\<close>, so it is kept
  as a natural number and the increment is written as that of a 32-bit \<^verbatim>\<open>unsigned int\<close>:
  it wraps at \<open>2 ^ 32\<close>.
\<close>

record ElastixBase =
  elx_Configuration :: Configuration
  DBIndex :: nat
  RegistrationContainer :: "addr list"
  TransformContainer :: "addr list"
  ImageSamplerContainer :: "addr list"
  MetricContainer :: "addr list"
  InterpolatorContainer :: "addr list"
  OptimizerContainer :: "addr list"
  FixedImagePyramidContainer :: "addr list"
  MovingImagePyramidContainer :: "addr list"
  ResampleInterpolatorContainer :: "addr list"
  ResamplerContainer :: "addr list"
  FixedImageContainer :: "DataObject list"
  MovingImageContainer :: "DataObject list"
  FixedMaskContainer :: "DataObject list"
  MovingMaskContainer :: "DataObject list"
  ResultImageContainer :: "DataObject list"
  FixedImageFileNameContainer :: "string list"
  MovingImageFileNameContainer :: "string list"
  FixedMaskFileNameContainer :: "string list"
  MovingMaskFileNameContainer :: "string list"
  FinalTransform :: "addr option"
  InitialTransform :: "addr option"
  OriginalFixedImageDirectionFlat :: "int list"
  TransformParametersMap :: "(string \<times> string list) list"
  m_IterationCounter :: nat
  m_CurrentTransformParameterFileName :: string

text \<open>
  The constructor of \<^verbatim>\<open>ElastixTemplate\<close>: counter 0, file name empty, nothing set; the
  configuration is the one \<^verbatim>\<open>SetConfiguration\<close> hands over before anything else happens.
\<close>

definition ElastixTemplate_New :: "Configuration \<Rightarrow> ElastixBase" where
  "ElastixTemplate_New c =
     \<lparr> elx_Configuration = c, DBIndex = 0,
       RegistrationContainer = [], TransformContainer = [], ImageSamplerContainer = [],
       MetricContainer = [], InterpolatorContainer = [], OptimizerContainer = [],
       FixedImagePyramidContainer = [], MovingImagePyramidContainer = [],
       ResampleInterpolatorContainer = [], ResamplerContainer = [],
       FixedImageContainer = [], MovingImageContainer = [],
       FixedMaskContainer = [], MovingMaskContainer = [], ResultImageContainer = [],
       FixedImageFileNameContainer = [], MovingImageFileNameContainer = [],
       FixedMaskFileNameContainer = [], MovingMaskFileNameContainer = [],
       FinalTransform = None, InitialTransform = None,
       OriginalFixedImageDirectionFlat = [], TransformParametersMap = [],
       m_IterationCounter = 0, m_CurrentTransformParameterFileName = [] \<rparr>"

fun GetContainer :: "ElastixBase \<Rightarrow> role \<Rightarrow> addr list" where
  "GetContainer e Registration = RegistrationContainer e"
| "GetContainer e Transform = TransformContainer e"
| "GetContainer e ImageSampler = ImageSamplerContainer e"
| "GetContainer e Metric = MetricContainer e"
| "GetContainer e Interpolator = InterpolatorContainer e"
| "GetContainer e Optimizer = OptimizerContainer e"
| "GetContainer e FixedImagePyramid = FixedImagePyramidContainer e"
| "GetContainer e MovingImagePyramid = MovingImagePyramidContainer e"
| "GetContainer e ResampleInterpolator = ResampleInterpolatorContainer e"
| "GetContainer e Resampler = ResamplerContainer e"

definition GetNumberOf :: "ElastixBase \<Rightarrow> role \<Rightarrow> nat" where
  "GetNumberOf e r = length (GetContainer e r)"

text \<open>
  \<^verbatim>\<open>GetElx<Role>Base(idx)\<close>: the component at \<open>idx\<close>, or the null pointer when \<open>idx\<close> is
  not below the container's size.
\<close>

definition GetElxBase :: "ElastixBase \<Rightarrow> role \<Rightarrow> nat \<Rightarrow> addr option" where
  "GetElxBase e r idx = (if idx < GetNumberOf e r then Some (GetContainer e r ! idx) else None)"

text \<open>\<^verbatim>\<open>GetFixedImage(idx)\<close> and its siblings, at the default index 0.\<close>

definition GetImage :: "DataObject list \<Rightarrow> DataObject option" where
  "GetImage c = (if 0 < length c then Some (c ! 0) else None)"

subsection \<open>What the kernel does not own\<close>

text \<open>
  The stream of ITK events that the registration and the optimizer raise while
  \<^verbatim>\<open>StartRegistration\<close> runs.
\<close>

datatype itk_event =
    RegistrationIterationEvent nat
  | OptimizerIterationEvent
  | OptimizerEndEvent
  | RegistrationException string

text \<open>
  Modelled from the spec: the component database, the concrete components, the image
  loader and the image reader are not among the sources, so they are parameters.
  \<open>HandlerResult\<close> is what a component's member function returns; \<open>ImageLoader\<close> is
  \<^verbatim>\<open>GenerateImageContainer\<close>; \<open>RegistrationEvents\<close> is what the registration component's
  internal multi-resolution loop raises (an iteration event of the registration at the
  start of a level, carrying the level that \<^verbatim>\<open>GetCurrentLevel\<close> then returns; an iteration
  event of the optimizer after each step; an end event of the optimizer when a level is
  done); \<open>GetIndex\<close> and \<open>GetCreator\<close> are the database (index 0: not found; no creator:
  \<open>None\<close>; a creator yields an object or a null pointer); \<open>GetNumberOfDimensions\<close> reads
  an image header.
\<close>

record environment =
  HandlerResult :: "callee \<Rightarrow> member_function \<Rightarrow> int"
  ImageLoader :: "string list \<Rightarrow> string \<Rightarrow> error + DataObject list"
  RegistrationEvents :: "itk_event list"
  TransformPointsException :: "string option"
  GetIndex :: "string \<Rightarrow> nat \<Rightarrow> string \<Rightarrow> nat \<Rightarrow> nat"
  GetCreator :: "string \<Rightarrow> nat \<Rightarrow> component option option"
  IsElastixLibrary :: bool
  GetNumberOfDimensions :: "string \<Rightarrow> error + nat"

subsection \<open>Failing steps in sequence\<close>

definition and_then ::
  "(error + 'a) \<times> 's \<Rightarrow> ('a \<Rightarrow> 's \<Rightarrow> (error + 'b) \<times> 's) \<Rightarrow> (error + 'b) \<times> 's" where
  "and_then r f = (case r of (Inl x, s) \<Rightarrow> (Inl x, s) | (Inr v, s) \<Rightarrow> f v s)"

text \<open>Following a pointer: the null pointer ends the program.\<close>

definition deref :: "addr option \<Rightarrow> 's \<Rightarrow> (error + addr) \<times> 's" where
  "deref p s = (case p of None \<Rightarrow> (Inl NullPointerDereference, s) | Some a \<Rightarrow> (Inr a, s))"

section \<open>ElastixTemplate\<close>

subsection \<open>CallInEachComponent, CallInEachComponentInt\<close>

text \<open>\<^verbatim>\<open>for (i = 0; i < n; ++i) { (*GetElx<Role>Base(i)).*func)(); }\<close>\<close>

function CallLoop :: "member_function \<Rightarrow> role \<Rightarrow> nat \<Rightarrow> nat \<Rightarrow> world \<Rightarrow> world" where
  "CallLoop func r i n w =
     (if i < n then CallLoop func r (Suc i) n (emit (Call (OnComponent r i) func) w) else w)"
  by pat_completeness auto
termination
  by (relation "measure (\<lambda>(func, r, i, n, w). n - i)") auto

declare CallLoop.simps [simp del]

definition CallInEachComponent :: "member_function \<Rightarrow> ElastixBase \<Rightarrow> world \<Rightarrow> world" where
  "CallInEachComponent func e w =
     (let w = emit (Call OnConfiguration func) w;
          w = CallLoop func Registration 0 (GetNumberOf e Registration) w;
          w = CallLoop func Transform 0 (GetNumberOf e Transform) w;
          w = CallLoop func ImageSampler 0 (GetNumberOf e ImageSampler) w;
          w = CallLoop func Metric 0 (GetNumberOf e Metric) w;
          w = CallLoop func Interpolator 0 (GetNumberOf e Interpolator) w;
          w = CallLoop func Optimizer 0 (GetNumberOf e Optimizer) w;
          w = CallLoop func FixedImagePyramid 0 (GetNumberOf e FixedImagePyramid) w;
          w = CallLoop func MovingImagePyramid 0 (GetNumberOf e MovingImagePyramid) w;
          w = CallLoop func ResampleInterpolator 0 (GetNumberOf e ResampleInterpolator) w;
          w = CallLoop func Resampler 0 (GetNumberOf e Resampler) w
      in w)"

text \<open>\<^verbatim>\<open>returndummy |= (...)();\<close> in the same loops.\<close>

function CallLoopInt ::
  "environment \<Rightarrow> member_function \<Rightarrow> role \<Rightarrow> nat \<Rightarrow> nat \<Rightarrow> int \<times> world \<Rightarrow> int \<times> world" where
  "CallLoopInt env func r i n (returndummy, w) =
     (if i < n
      then CallLoopInt env func r (Suc i) n
             (returndummy OR HandlerResult env (OnComponent r i) func,
              emit (Call (OnComponent r i) func) w)
      else (returndummy, w))"
  by pat_completeness auto
termination
  by (relation "measure (\<lambda>(env, func, r, i, n, s). n - i)") auto

declare CallLoopInt.simps [simp del]

definition CallInEachComponentInt ::
  "environment \<Rightarrow> member_function \<Rightarrow> ElastixBase \<Rightarrow> world \<Rightarrow> int \<times> world" where
  "CallInEachComponentInt env func e w =
     (let s = (0 OR HandlerResult env OnConfiguration func, emit (Call OnConfiguration func) w);
          s = CallLoopInt env func Registration 0 (GetNumberOf e Registration) s;
          s = CallLoopInt env func Transform 0 (GetNumberOf e Transform) s;
          s = CallLoopInt env func ImageSampler 0 (GetNumberOf e ImageSampler) s;
          s = CallLoopInt env func Metric 0 (GetNumberOf e Metric) s;
          s = CallLoopInt env func Interpolator 0 (GetNumberOf e Interpolator) s;
          s = CallLoopInt env func Optimizer 0 (GetNumberOf e Optimizer) s;
          s = CallLoopInt env func FixedImagePyramid 0 (GetNumberOf e FixedImagePyramid) s;
          s = CallLoopInt env func MovingImagePyramid 0 (GetNumberOf e MovingImagePyramid) s;
          s = CallLoopInt env func ResampleInterpolator 0 (GetNumberOf e ResampleInterpolator) s;
          s = CallLoopInt env func Resampler 0 (GetNumberOf e Resampler) s
      in s)"

subsection \<open>ConfigureComponents\<close>

text \<open>
  \<^verbatim>\<open>for (i = 0; i < n; ++i) { GetElx<Role>Base(i)->SetComponentLabel(label, i);
  GetElx<Role>Base(i)->SetElastix(This); }\<close> over the container \<open>c\<close> of one role.
\<close>

function ConfigureLoop :: "addr option \<Rightarrow> role \<Rightarrow> addr list \<Rightarrow> nat \<Rightarrow> world \<Rightarrow> world" where
  "ConfigureLoop This r c i w =
     (if i < length c
      then ConfigureLoop This r c (Suc i)
             (w\<lparr>heap := (heap w)(c ! i := (heap w (c ! i))
                   \<lparr>ComponentLabel := Some (role_name r, i), Elastix := This\<rparr>)\<rparr>)
      else w)"
  by pat_completeness auto
termination
  by (relation "measure (\<lambda>(This, r, c, i, w). length c - i)") auto

declare ConfigureLoop.simps [simp del]

definition ConfigureComponents ::
  "addr option \<Rightarrow> ElastixBase \<times> world \<Rightarrow> ElastixBase \<times> world" where
  "ConfigureComponents This st =
     (case st of (e, w) \<Rightarrow>
       (let e = e\<lparr>elx_Configuration :=
                   (elx_Configuration e)\<lparr>ConfigurationLabel := Some (''Configuration'', 0)\<rparr>\<rparr>;
            w = ConfigureLoop This Registration (GetContainer e Registration) 0 w;
            w = ConfigureLoop This Transform (GetContainer e Transform) 0 w;
            w = ConfigureLoop This ImageSampler (GetContainer e ImageSampler) 0 w;
            w = ConfigureLoop This Metric (GetContainer e Metric) 0 w;
            w = ConfigureLoop This Interpolator (GetContainer e Interpolator) 0 w;
            w = ConfigureLoop This Optimizer (GetContainer e Optimizer) 0 w;
            w = ConfigureLoop This FixedImagePyramid (GetContainer e FixedImagePyramid) 0 w;
            w = ConfigureLoop This MovingImagePyramid (GetContainer e MovingImagePyramid) 0 w;
            w = ConfigureLoop This ResampleInterpolator (GetContainer e ResampleInterpolator) 0 w;
            w = ConfigureLoop This Resampler (GetContainer e Resampler) 0 w
        in (e, w)))"

subsection \<open>BeforeAll, BeforeAllTransformix, BeforeRegistration\<close>

text \<open>
  \<^verbatim>\<open>this->BeforeAllBase()\<close> and its siblings are member functions of \<^verbatim>\<open>ElastixBase\<close>, which
  is not among the sources: each is recorded as a call on the elastix object itself.
\<close>

definition BeforeAll :: "environment \<Rightarrow> ElastixBase \<Rightarrow> world \<Rightarrow> int \<times> world" where
  "BeforeAll env e w =
     (let returndummy = 0;
          returndummy = returndummy OR HandlerResult env OnElastix Component_BeforeAllBase;
          w = emit (Call OnElastix Component_BeforeAllBase) w;
          (d, w) = CallInEachComponentInt env Component_BeforeAllBase e w;
          returndummy = returndummy OR d;
          (d, w) = CallInEachComponentInt env Component_BeforeAll e w;
          returndummy = returndummy OR d
      in (returndummy, w))"



definition BeforeRegistration :: "ElastixBase \<Rightarrow> world \<Rightarrow> world" where
  "BeforeRegistration e w =
     (let w = emit (Call OnElastix Component_BeforeRegistrationBase) w;
          w = CallInEachComponent Component_BeforeRegistrationBase e w;
          w = CallInEachComponent Component_BeforeRegistration e w
      in w)"

subsection \<open>CreateTransformParameterFile, OpenIterationInfoFile\<close>

text \<open>
  Opening a file is recorded with its name; whether the file system lets it open is not
  modelled. \<open>ToLog\<close> only selects informational output.
\<close>

definition CreateTransformParameterFile ::
  "string \<Rightarrow> bool \<Rightarrow> ElastixBase \<times> world \<Rightarrow> (error + unit) \<times> ElastixBase \<times> world" where
  "CreateTransformParameterFile FileName ToLog st =
     (case st of (e, w) \<Rightarrow>
       (let e = e\<lparr>m_CurrentTransformParameterFileName := FileName\<rparr> in
        and_then (deref (GetElxBase e Transform 0) (e, w)) (\<lambda>_ (e, w).
          (let w = emit (Call (OnComponent Transform 0) (SetTransformParametersFileName FileName)) w;
               w = emit (OpenFile FileName) w
           in and_then (deref (GetElxBase e Optimizer 0) (e, w)) (\<lambda>_ (e, w).
          (let w = emit (Call (OnComponent Transform 0) WriteToFile) w
           in and_then (deref (GetElxBase e ResampleInterpolator 0) (e, w)) (\<lambda>_ (e, w).
          (let w = emit (Call (OnComponent ResampleInterpolator 0) WriteToFile) w
           in and_then (deref (GetElxBase e Resampler 0) (e, w)) (\<lambda>_ (e, w).
          (Inr (), e, emit (Call (OnComponent Resampler 0) WriteToFile) w))))))))))"

definition OpenIterationInfoFile ::
  "nat \<Rightarrow> ElastixBase \<times> world \<Rightarrow> (error + unit) \<times> ElastixBase \<times> world" where
  "OpenIterationInfoFile CurrentLevel st =
     (case st of (e, w) \<Rightarrow>
       and_then (deref (GetElxBase e Registration 0) (e, w)) (\<lambda>_ (e, w).
         (let FileName = GetCommandLineArgument (elx_Configuration e) ''-out''
                @ ''IterationInfo.''
                @ show_nat (ElastixLevel (elx_Configuration e))
                @ ''.R'' @ show_nat CurrentLevel
                @ ''.txt''
          in (Inr (), e, emit (OpenFile FileName) w))))"

subsection \<open>The callbacks of the registration loop\<close>

text \<open>
  \<open>CurrentLevel\<close> is what \<^verbatim>\<open>GetElxRegistrationBase()->GetAsITKBaseType()->GetCurrentLevel()\<close>
  returns when the callback runs.
\<close>

definition BeforeEachResolution ::
  "nat \<Rightarrow> ElastixBase \<times> world \<Rightarrow> (error + unit) \<times> ElastixBase \<times> world" where
  "BeforeEachResolution CurrentLevel st =
     (case st of (e, w) \<Rightarrow>
       and_then (deref (GetElxBase e Registration 0) (e, w)) (\<lambda>_ (e, w).
         (let e = e\<lparr>m_IterationCounter := 0\<rparr>
          in and_then (OpenIterationInfoFile CurrentLevel (e, w)) (\<lambda>_ (e, w).
         (let w = emit (Call OnElastix Component_BeforeEachResolutionBase) w;
              w = CallInEachComponent Component_BeforeEachResolutionBase e w;
              w = CallInEachComponent Component_BeforeEachResolution e w
          in (Inr (), e, w))))))"

definition AfterEachResolution ::
  "nat \<Rightarrow> ElastixBase \<times> world \<Rightarrow> (error + unit) \<times> ElastixBase \<times> world" where
  "AfterEachResolution CurrentLevel st =
     (case st of (e, w) \<Rightarrow>
       and_then (deref (GetElxBase e Registration 0) (e, w)) (\<lambda>_ (e, w).
         (let w = emit (Call OnElastix Component_AfterEachResolutionBase) w;
              w = CallInEachComponent Component_AfterEachResolutionBase e w;
              w = CallInEachComponent Component_AfterEachResolution e w;
              writeTransformParameterEachResolution = False;
              (found, writeTransformParameterEachResolution) =
                 ReadParameter (BoolParameters (elx_Configuration e))
                   writeTransformParameterEachResolution
                   ''WriteTransformParametersEachResolution'' 0
          in if writeTransformParameterEachResolution
             then and_then (deref (GetElxBase e Registration 0) (e, w)) (\<lambda>_ (e, w).
                    (let FileName = GetCommandLineArgument (elx_Configuration e) ''-out''
                           @ ''TransformParameters.''
                           @ show_nat (ElastixLevel (elx_Configuration e))
                           @ ''.R'' @ show_nat CurrentLevel
                           @ ''.txt''
                     in CreateTransformParameterFile FileName False (e, w)))
             else (Inr (), e, w))))"

text \<open>
  The loop that puts zeros before the iteration number:
  \<^verbatim>\<open>border = 1000000; while (border > 1) { if (counter < border) { s << "0"; border /= 10; }
  else { border = 1; } }\<close>
\<close>

function ZeroPadLoop :: "nat \<Rightarrow> nat \<Rightarrow> string \<Rightarrow> string" where
  "ZeroPadLoop counter border s =
     (if border > 1
      then (if counter < border
            then ZeroPadLoop counter (border div 10) (s @ ''0'')
            else ZeroPadLoop counter 1 s)
      else s)"
  by pat_completeness auto
termination
  by (relation "measure (\<lambda>(counter, border, s). border)") auto

declare ZeroPadLoop.simps [simp del]

definition makeIterationString :: "nat \<Rightarrow> string" where
  "makeIterationString counter = ZeroPadLoop counter 1000000 [] @ show_nat counter"

definition AfterEachIteration ::
  "nat \<Rightarrow> ElastixBase \<times> world \<Rightarrow> (error + unit) \<times> ElastixBase \<times> world" where
  "AfterEachIteration CurrentLevel st =
     (case st of (e, w) \<Rightarrow>
       (let w = (if m_IterationCounter e = 0 then emit WriteHeaders w else w);
            w = emit (Call OnElastix Component_AfterEachIterationBase) w;
            w = CallInEachComponent Component_AfterEachIterationBase e w;
            w = CallInEachComponent Component_AfterEachIteration e w;
            w = emit (ItNr (m_IterationCounter e)) w;
            writeTansformParametersThisIteration = False;
            (found, writeTansformParametersThisIteration) =
               ReadParameter (BoolParameters (elx_Configuration e))
                 writeTansformParametersThisIteration
                 ''WriteTransformParametersEachIteration'' 0
        in and_then
             (if writeTansformParametersThisIteration
              then and_then (deref (GetElxBase e Registration 0) (e, w)) (\<lambda>_ (e, w).
                     (let tpFileName = GetCommandLineArgument (elx_Configuration e) ''-out''
                            @ ''TransformParameters.''
                            @ show_nat (ElastixLevel (elx_Configuration e))
                            @ ''.R'' @ show_nat CurrentLevel
                            @ ''.It'' @ makeIterationString (m_IterationCounter e)
                            @ ''.txt''
                      in CreateTransformParameterFile tpFileName False (e, w)))
              else (Inr (), e, w))
             (\<lambda>_ (e, w).
                (Inr (), e\<lparr>m_IterationCounter := (m_IterationCounter e + 1) mod 2 ^ 32\<rparr>, w))))"

definition AfterRegistration ::
  "ElastixBase \<times> world \<Rightarrow> (error + unit) \<times> ElastixBase \<times> world" where
  "AfterRegistration st =
     (case st of (e, w) \<Rightarrow>
       (let FileName = GetCommandLineArgument (elx_Configuration e) ''-out''
              @ ''TransformParameters.''
              @ show_nat (ElastixLevel (elx_Configuration e)) @ ''.txt''
        in and_then (CreateTransformParameterFile FileName True (e, w)) (\<lambda>_ (e, w).
          (let w = emit (Call OnElastix Component_AfterRegistrationBase) w;
               w = CallInEachComponent Component_AfterRegistrationBase e w;
               w = CallInEachComponent Component_AfterRegistration e w
           in (Inr (), e, w)))))"

subsection \<open>StartRegistration\<close>

text \<open>
  \<^verbatim>\<open>Run\<close> observes the registration's iteration event with \<^verbatim>\<open>BeforeEachResolution\<close>, the
  optimizer's iteration event with \<^verbatim>\<open>AfterEachIteration\<close> and the optimizer's end event
  with \<^verbatim>\<open>AfterEachResolution\<close>; \<open>StartRegistration\<close> hands each raised event to its
  observer. An exception of the registration ends it.
\<close>

fun StartRegistration ::
  "itk_event list \<Rightarrow> nat \<Rightarrow> ElastixBase \<times> world \<Rightarrow> (error + unit) \<times> ElastixBase \<times> world" where
  "StartRegistration [] CurrentLevel st = (Inr (), st)"
| "StartRegistration (RegistrationIterationEvent l # evs) CurrentLevel st =
     (case BeforeEachResolution l st of
        (Inl x, st') \<Rightarrow> (Inl x, st')
      | (Inr _, st') \<Rightarrow> StartRegistration evs l st')"
| "StartRegistration (OptimizerIterationEvent # evs) CurrentLevel st =
     (case AfterEachIteration CurrentLevel st of
        (Inl x, st') \<Rightarrow> (Inl x, st')
      | (Inr _, st') \<Rightarrow> StartRegistration evs CurrentLevel st')"
| "StartRegistration (OptimizerEndEvent # evs) CurrentLevel st =
     (case AfterEachResolution CurrentLevel st of
        (Inl x, st') \<Rightarrow> (Inl x, st')
      | (Inr _, st') \<Rightarrow> StartRegistration evs CurrentLevel st')"
| "StartRegistration (RegistrationException d # evs) CurrentLevel st =
     (Inl (ExceptionObject d), st)"

subsection \<open>Run\<close>

definition GenerateIfAbsent ::
  "environment \<Rightarrow> DataObject list \<Rightarrow> string list \<Rightarrow> string \<Rightarrow> world
     \<Rightarrow> (error + DataObject list) \<times> world" where
  "GenerateIfAbsent env c names label w =
     (if GetImage c = None
      then (case ImageLoader env names label of
              Inl x \<Rightarrow> (Inl x, emit (GenerateImageContainer label) w)
            | Inr imgs \<Rightarrow> (Inr imgs, emit (GenerateImageContainer label) w))
      else (Inr c, w))"

definition ReadImagesAndMasks ::
  "environment \<Rightarrow> ElastixBase \<times> world \<Rightarrow> (error + unit) \<times> ElastixBase \<times> world" where
  "ReadImagesAndMasks env st =
     (case st of (e, w) \<Rightarrow>
       (case GenerateIfAbsent env (FixedImageContainer e) (FixedImageFileNameContainer e)
               ''Fixed Image'' w of
          (Inl x, w) \<Rightarrow> (Inl x, e, w)
        | (Inr c, w) \<Rightarrow>
       (let e = e\<lparr>FixedImageContainer := c\<rparr> in
        case GenerateIfAbsent env (MovingImageContainer e) (MovingImageFileNameContainer e)
               ''Moving Image'' w of
          (Inl x, w) \<Rightarrow> (Inl x, e, w)
        | (Inr c, w) \<Rightarrow>
       (let e = e\<lparr>MovingImageContainer := c\<rparr> in
        case GenerateIfAbsent env (FixedMaskContainer e) (FixedMaskFileNameContainer e)
               ''Fixed Mask'' w of
          (Inl x, w) \<Rightarrow> (Inl x, e, w)
        | (Inr c, w) \<Rightarrow>
       (let e = e\<lparr>FixedMaskContainer := c\<rparr> in
        case GenerateIfAbsent env (MovingMaskContainer e) (MovingMaskFileNameContainer e)
               ''Moving Mask'' w of
          (Inl x, w) \<Rightarrow> (Inl x, e, w)
        | (Inr c, w) \<Rightarrow> (Inr (), e\<lparr>MovingMaskContainer := c\<rparr>, w))))))"

text \<open>
  \<open>This\<close> is the address of the elastix object itself. The result is the value \<^verbatim>\<open>Run\<close>
  returns, or the exception or fault that ends it, with the state reached.
\<close>

definition ElastixTemplate_Run ::
  "environment \<Rightarrow> addr \<Rightarrow> ElastixBase \<times> world \<Rightarrow> (error + int) \<times> ElastixBase \<times> world" where
  "ElastixTemplate_Run env This st =
     (case ConfigureComponents (Some This) st of (e, w) \<Rightarrow>
      (case BeforeAll env e w of (dummy, w) \<Rightarrow>
       if dummy \<noteq> 0 then (Inr dummy, e, w)
       else
         and_then (deref (GetElxBase e Registration 0) (e, w)) (\<lambda>_ st.
         and_then (deref (GetElxBase e Optimizer 0) st) (\<lambda>_ st.
         and_then (ReadImagesAndMasks env st) (\<lambda>_ (e, w).
           (let w = BeforeRegistration e w in
            case StartRegistration (RegistrationEvents env) 0 (e, emit EnterStartRegistration w) of
              (Inl (ExceptionObject d), st) \<Rightarrow>
                 (Inl (ExceptionObject
                    (d @ [CHR 0x0A] @ ''Error occured during actual registration.'' @ [CHR 0x0A])), st)
            | (Inl x, st) \<Rightarrow> (Inl x, st)
            | (Inr _, st) \<Rightarrow>
                and_then (AfterRegistration st) (\<lambda>_ (e, w).
                  (case TransformContainer e of
                     [] \<Rightarrow> (Inl IndexOutOfRange, e, w)
                   | t # _ \<Rightarrow>
                       (case ConfigureComponents None (e\<lparr>FinalTransform := Some t\<rparr>, w) of
                          (e, w) \<Rightarrow> (Inr 0, e, w))))))))))"

subsection \<open>ApplyTransform\<close>



section \<open>ElastixMain\<close>

text \<open>
  \<open>m_Elastix\<close> owns the elastix object: its address together with its state.
\<close>

record ElastixMain =
  m_Configuration :: Configuration
  m_FixedImagePixelType :: string
  m_FixedImageDimension :: nat
  m_MovingImagePixelType :: string
  m_MovingImageDimension :: nat
  m_DBIndex :: nat
  m_Elastix :: "(addr \<times> ElastixBase) option"
  m_FinalTransform :: "addr option"
  m_InitialTransform :: "addr option"
  m_FixedImageContainer :: "DataObject list"
  m_MovingImageContainer :: "DataObject list"
  m_FixedMaskContainer :: "DataObject list"
  m_MovingMaskContainer :: "DataObject list"
  m_ResultImageContainer :: "DataObject list"
  m_OriginalFixedImageDirection :: "int list"
  m_TransformParametersMap :: "(string \<times> string list) list"

definition ElastixMain_New :: "Configuration \<Rightarrow> ElastixMain" where
  "ElastixMain_New c =
     \<lparr> m_Configuration = c,
       m_FixedImagePixelType = [], m_FixedImageDimension = 0,
       m_MovingImagePixelType = [], m_MovingImageDimension = 0,
       m_DBIndex = 0, m_Elastix = None, m_FinalTransform = None, m_InitialTransform = None,
       m_FixedImageContainer = [], m_MovingImageContainer = [],
       m_FixedMaskContainer = [], m_MovingMaskContainer = [], m_ResultImageContainer = [],
       m_OriginalFixedImageDirection = [], m_TransformParametersMap = [] \<rparr>"

definition SetInitialTransform :: "addr option \<Rightarrow> ElastixMain \<Rightarrow> ElastixMain" where
  "SetInitialTransform t m = m\<lparr>m_InitialTransform := t\<rparr>"

definition GetFinalTransform :: "ElastixMain \<Rightarrow> addr option" where
  "GetFinalTransform m = m_FinalTransform m"

subsection \<open>InitDBIndex\<close>

definition GetImageInformationFromFile :: "environment \<Rightarrow> string \<Rightarrow> nat \<Rightarrow> error + nat" where
  "GetImageInformationFromFile env filename imageDimension =
     (if filename \<noteq> [] then GetNumberOfDimensions env filename else Inr imageDimension)"

text \<open>
  The block \<^verbatim>\<open>if (m_FixedImageDimension == 0) { ... }\<close>: \<open>Some rc\<close> when it leaves
  \<^verbatim>\<open>InitDBIndex\<close> with \<^verbatim>\<open>return rc\<close>, \<open>None\<close> when \<^verbatim>\<open>InitDBIndex\<close> goes on. Error messages
  are cut to their first line.
\<close>

definition InitFixedImageDimension ::
  "environment \<Rightarrow> ElastixMain \<times> world \<Rightarrow> int option \<times> ElastixMain \<times> world" where
  "InitFixedImageDimension env st =
     (case st of (m, w) \<Rightarrow>
       if m_FixedImageDimension m = 0
       then (case
              (if \<not> IsElastixLibrary env
               then (let fixedImageFileName = GetCommandLineArgument (m_Configuration m) ''-f'';
                         fixedImageFileName =
                           (if fixedImageFileName = []
                            then GetCommandLineArgument (m_Configuration m) ''-f0''
                            else fixedImageFileName)
                     in if fixedImageFileName = []
                        then (Some 1, m, emit (LogError ''ERROR: could not read fixed image.'') w)
                        else (case GetImageInformationFromFile env fixedImageFileName
                                     (m_FixedImageDimension m) of
                                Inl err \<Rightarrow>
                                  (Some 1, m, emit (LogError ''ERROR: could not read fixed image.'') w)
                              | Inr d \<Rightarrow>
                                  (let m = m\<lparr>m_FixedImageDimension := d\<rparr>;
                                       fixDimParameterFile = 0;
                                       (foundInParameterFile, fixDimParameterFile) =
                                          ReadParameter (UIntParameters (m_Configuration m))
                                            fixDimParameterFile ''FixedImageDimension'' 0
                                   in if foundInParameterFile
                                         \<and> fixDimParameterFile \<noteq> m_FixedImageDimension m
                                      then (Some 1, m, emit (LogError
                                              ''ERROR: problem defining fixed image dimension.'') w)
                                      else (None, m, w))))
               else (None,
                     m\<lparr>m_FixedImageDimension :=
                         snd (ReadParameter (UIntParameters (m_Configuration m))
                                (m_FixedImageDimension m) ''FixedImageDimension'' 0)\<rparr>,
                     w)) of
               (Some rc, m, w) \<Rightarrow> (Some rc, m, w)
             | (None, m, w) \<Rightarrow>
                 if m_FixedImageDimension m = 0
                 then (Some 1, m, emit (LogError ''ERROR: The FixedImageDimension is not given.'') w)
                 else (None, m, w))
       else (None, m, w))"

definition InitMovingImageDimension ::
  "environment \<Rightarrow> ElastixMain \<times> world \<Rightarrow> int option \<times> ElastixMain \<times> world" where
  "InitMovingImageDimension env st =
     (case st of (m, w) \<Rightarrow>
       if m_MovingImageDimension m = 0
       then (case
              (if \<not> IsElastixLibrary env
               then (let movingImageFileName = GetCommandLineArgument (m_Configuration m) ''-m'';
                         movingImageFileName =
                           (if movingImageFileName = []
                            then GetCommandLineArgument (m_Configuration m) ''-m0''
                            else movingImageFileName)
                     in if movingImageFileName = []
                        then (Some 1, m, emit (LogError ''ERROR: could not read moving image.'') w)
                        else (case GetImageInformationFromFile env movingImageFileName
                                     (m_MovingImageDimension m) of
                                Inl err \<Rightarrow>
                                  (Some 1, m, emit (LogError ''ERROR: could not read moving image.'') w)
                              | Inr d \<Rightarrow>
                                  (let m = m\<lparr>m_MovingImageDimension := d\<rparr>;
                                       movDimParameterFile = 0;
                                       (foundInParameterFile, movDimParameterFile) =
                                          ReadParameter (UIntParameters (m_Configuration m))
                                            movDimParameterFile ''MovingImageDimension'' 0
                                   in if foundInParameterFile
                                         \<and> movDimParameterFile \<noteq> m_MovingImageDimension m
                                      then (Some 1, m, emit (LogError
                                              ''ERROR: problem defining moving image dimension.'') w)
                                      else (None, m, w))))
               else (None,
                     m\<lparr>m_MovingImageDimension :=
                         snd (ReadParameter (UIntParameters (m_Configuration m))
                                (m_MovingImageDimension m) ''MovingImageDimension'' 0)\<rparr>,
                     w)) of
               (Some rc, m, w) \<Rightarrow> (Some rc, m, w)
             | (None, m, w) \<Rightarrow>
                 if m_MovingImageDimension m = 0
                 then (Some 1, m, emit (LogError ''ERROR: The MovingImageDimension is not given.'') w)
                 else (None, m, w))
       else (None, m, w))"

definition InitDBIndex :: "environment \<Rightarrow> ElastixMain \<times> world \<Rightarrow> int \<times> ElastixMain \<times> world" where
  "InitDBIndex env st =
     (case st of (m, w) \<Rightarrow>
       if IsInitialized (m_Configuration m)
       then
         (let m = (if m_FixedImagePixelType m = []
                   then m\<lparr>m_FixedImagePixelType :=
                            snd (ReadParameter (StringParameters (m_Configuration m))
                                   ''float'' ''FixedInternalImagePixelType'' 0)\<rparr>
                   else m)
          in case InitFixedImageDimension env (m, w) of
               (Some rc, m, w) \<Rightarrow> (rc, m, w)
             | (None, m, w) \<Rightarrow>
         (let m = (if m_MovingImagePixelType m = []
                   then m\<lparr>m_MovingImagePixelType :=
                            snd (ReadParameter (StringParameters (m_Configuration m))
                                   ''float'' ''MovingInternalImagePixelType'' 0)\<rparr>
                   else m)
          in case InitMovingImageDimension env (m, w) of
               (Some rc, m, w) \<Rightarrow> (rc, m, w)
             | (None, m, w) \<Rightarrow>
         (let m = m\<lparr>m_DBIndex :=
                      GetIndex env (m_FixedImagePixelType m) (m_FixedImageDimension m)
                        (m_MovingImagePixelType m) (m_MovingImageDimension m)\<rparr>
          in if m_DBIndex m = 0
             then (1, m, emit (LogError ''ERROR: Something went wrong in the ComponentDatabase'') w)
             else (0, m, w))))
       else (1, m, emit (LogError ''ERROR: The configuration object has not been initialized.'') w))"

subsection \<open>CreateComponent, CreateComponents\<close>

text \<open>A created object gets the next free address of the store.\<close>

definition CreateComponent ::
  "environment \<Rightarrow> ElastixMain \<Rightarrow> string \<Rightarrow> world \<Rightarrow> (error + addr) \<times> world" where
  "CreateComponent env m name w =
     (let creator = GetCreator env name (m_DBIndex m);
          component = (case creator of None \<Rightarrow> None | Some new \<Rightarrow> new)
      in case component of
           None \<Rightarrow>
             (Inl (ExceptionObject (''The following component could not be created: '' @ name)), w)
         | Some obj \<Rightarrow>
             (Inr (next_addr w),
              w\<lparr>heap := (heap w)(next_addr w := obj), next_addr := Suc (next_addr w)\<rparr>))"

text \<open>
  \<^verbatim>\<open>objectContainer->CreateElementAt(i) = x\<close>: the element at \<open>i\<close> becomes \<open>x\<close>, and a
  container of size \<open>i\<close> grows by one. (Beyond the size the real container would also put
  null pointers in between; \<^verbatim>\<open>CreateComponents\<close> calls it at the size only.) The
  right-hand side is evaluated first, so when \<^verbatim>\<open>CreateComponent\<close> throws the container is
  as it was.
\<close>

definition CreateElementAt :: "addr list \<Rightarrow> nat \<Rightarrow> addr \<Rightarrow> addr list" where
  "CreateElementAt c i x = (if i < length c then c[i := x] else c @ [x])"

definition CreationError :: "string \<Rightarrow> nat \<Rightarrow> error \<Rightarrow> event" where
  "CreationError key componentnr excp =
     LogError (''ERROR: error occurred while creating '' @ key @ '' '' @ show_nat componentnr
       @ ''.'' @ [CHR 0x0A] @ (case excp of ExceptionObject d \<Rightarrow> d | _ \<Rightarrow> []))"

text \<open>The largest entry index of a parameter table: the probing of entries ends there.\<close>

definition max_entry :: "((string \<times> nat) \<times> 'v) list \<Rightarrow> nat" where
  "max_entry tbl = fold max (map (\<lambda>kv. snd (fst kv)) tbl) 0"

lemma fold_max_ge: "(a::nat) \<le> fold max xs a"
  by (induction xs arbitrary: a) (auto intro: order_trans [OF max.cobounded2])

lemma fold_max_mem: "(x::nat) \<in> set xs \<Longrightarrow> x \<le> fold max xs a"
proof (induction xs arbitrary: a)
  case Nil
  then show ?case by simp
next
  case (Cons y ys)
  show ?case
  proof (cases "x = y")
    case True
    have "x \<le> max y a" using True by simp
    also have "\<dots> \<le> fold max ys (max y a)" by (rule fold_max_ge)
    finally show ?thesis by simp
  next
    case False
    then have "x \<in> set ys" using Cons.prems by simp
    then show ?thesis using Cons.IH by simp
  qed
qed

lemma ReadParameter_found_le:
  "ReadParameter tbl param name nr = (True, v) \<Longrightarrow> nr \<le> max_entry tbl"
proof -
  assume a: "ReadParameter tbl param name nr = (True, v)"
  then obtain v' where "map_of tbl (name, nr) = Some v'"
    by (auto simp: ReadParameter_def split: option.splits)
  then have "((name, nr), v') \<in> set tbl" by (rule map_of_SomeD)
  then have "nr \<in> set (map (\<lambda>kv. snd (fst kv)) tbl)" by force
  then show ?thesis unfolding max_entry_def by (rule fold_max_mem)
qed

text \<open>
  The loop \<^verbatim>\<open>while (found) { ++componentnr; found = ReadParameter(...); if (found) { ... } }\<close>
  of \<^verbatim>\<open>CreateComponents\<close>.
\<close>

function CreateComponentsLoop ::
  "environment \<Rightarrow> ElastixMain \<Rightarrow> string \<Rightarrow> bool \<Rightarrow> string \<Rightarrow> nat
     \<Rightarrow> addr list \<times> int \<times> world \<Rightarrow> addr list \<times> int \<times> world" where
  "CreateComponentsLoop env m key found componentName componentnr (objectContainer, errorcode, w) =
     (if found
      then (case ReadParameter (StringParameters (m_Configuration m)) componentName key
                   (componentnr + 1) of
              (True, componentName') \<Rightarrow>
                (case CreateComponent env m componentName' w of
                   (Inl excp, w') \<Rightarrow>
                     (objectContainer, 1, emit (CreationError key (componentnr + 1) excp) w')
                 | (Inr x, w') \<Rightarrow>
                     CreateComponentsLoop env m key True componentName' (componentnr + 1)
                       (CreateElementAt objectContainer (componentnr + 1) x, errorcode, w'))
            | (False, componentName') \<Rightarrow>
                CreateComponentsLoop env m key False componentName' (componentnr + 1)
                  (objectContainer, errorcode, w))
      else (objectContainer, errorcode, w))"
  by pat_completeness auto
termination
  apply (relation "measure (\<lambda>(env, m, key, found, componentName, componentnr, s).
           (if found then 1 else 0)
           + (Suc (max_entry (StringParameters (m_Configuration m))) - componentnr))")
    apply simp
   apply (auto dest!: ReadParameter_found_le [OF sym])
  done

declare CreateComponentsLoop.simps [simp del]

definition CreateComponents ::
  "environment \<Rightarrow> ElastixMain \<Rightarrow> string \<Rightarrow> string \<Rightarrow> int \<Rightarrow> bool \<Rightarrow> world
     \<Rightarrow> addr list \<times> int \<times> world" where
  "CreateComponents env m key defaultComponentName errorcode mandatoryComponent w =
     (let componentName = defaultComponentName;
          componentnr = 0;
          objectContainer = [];
          (found, componentName) =
             ReadParameter (StringParameters (m_Configuration m)) componentName key componentnr
      in if \<not> found \<and> defaultComponentName = []
         then (if mandatoryComponent
               then (objectContainer, 1,
                     emit (LogError (''ERROR: the following component has not been specified: ''
                                       @ key)) w)
               else (objectContainer, 0, w))
         else (case CreateComponent env m componentName w of
                 (Inl excp, w) \<Rightarrow>
                   (objectContainer, 1, emit (CreationError key componentnr excp) w)
               | (Inr x, w) \<Rightarrow>
                   CreateComponentsLoop env m key found componentName componentnr
                     (CreateElementAt objectContainer componentnr x, errorcode, w)))"

subsection \<open>Run\<close>

text \<open>
  The ten calls of \<^verbatim>\<open>CreateComponents\<close> in \<^verbatim>\<open>Run\<close>, in the order of the source, all on the
  one variable \<open>errorCode\<close>. Only ImageSampler is created with \<open>mandatoryComponent\<close> false.
\<close>

definition PopulateComponentContainers ::
  "environment \<Rightarrow> ElastixMain \<Rightarrow> ElastixBase \<times> int \<times> world \<Rightarrow> ElastixBase \<times> int \<times> world" where
  "PopulateComponentContainers env m s =
     (case s of (e, errorCode, w) \<Rightarrow>
       (let (c, errorCode, w) =
               CreateComponents env m ''Registration'' ''MultiResolutionRegistration'' errorCode True w;
            e = e\<lparr>RegistrationContainer := c\<rparr>;
            (c, errorCode, w) =
               CreateComponents env m ''FixedImagePyramid'' ''FixedSmoothingImagePyramid'' errorCode True w;
            e = e\<lparr>FixedImagePyramidContainer := c\<rparr>;
            (c, errorCode, w) =
               CreateComponents env m ''MovingImagePyramid'' ''MovingSmoothingImagePyramid'' errorCode True w;
            e = e\<lparr>MovingImagePyramidContainer := c\<rparr>;
            (c, errorCode, w) = CreateComponents env m ''ImageSampler'' [] errorCode False w;
            e = e\<lparr>ImageSamplerContainer := c\<rparr>;
            (c, errorCode, w) =
               CreateComponents env m ''Interpolator'' ''BSplineInterpolator'' errorCode True w;
            e = e\<lparr>InterpolatorContainer := c\<rparr>;
            (c, errorCode, w) = CreateComponents env m ''Metric'' [] errorCode True w;
            e = e\<lparr>MetricContainer := c\<rparr>;
            (c, errorCode, w) = CreateComponents env m ''Optimizer'' [] errorCode True w;
            e = e\<lparr>OptimizerContainer := c\<rparr>;
            (c, errorCode, w) =
               CreateComponents env m ''ResampleInterpolator'' ''FinalBSplineInterpolator'' errorCode True w;
            e = e\<lparr>ResampleInterpolatorContainer := c\<rparr>;
            (c, errorCode, w) =
               CreateComponents env m ''Resampler'' ''DefaultResampler'' errorCode True w;
            e = e\<lparr>ResamplerContainer := c\<rparr>;
            (c, errorCode, w) = CreateComponents env m ''Transform'' [] errorCode True w;
            e = e\<lparr>TransformContainer := c\<rparr>
        in (e, errorCode, w)))"

text \<open>
  What \<^verbatim>\<open>Run\<close> does once the components exist: hand the images, masks and the initial
  transform to the elastix object, run it (an exception it throws is caught and makes
  the error code 1; a fault is not an exception), and take the results back.
\<close>

definition RunElastix ::
  "environment \<Rightarrow> addr \<Rightarrow> ElastixMain \<Rightarrow> ElastixBase \<times> world
     \<Rightarrow> (error + int) \<times> ElastixMain \<times> world" where
  "RunElastix env This m st =
     (case st of (e, w) \<Rightarrow>
       (let e = e\<lparr>FixedImageContainer := m_FixedImageContainer m,
                  MovingImageContainer := m_MovingImageContainer m,
                  FixedMaskContainer := m_FixedMaskContainer m,
                  MovingMaskContainer := m_MovingMaskContainer m,
                  ResultImageContainer := m_ResultImageContainer m,
                  InitialTransform := m_InitialTransform m,
                  OriginalFixedImageDirectionFlat := m_OriginalFixedImageDirection m\<rparr>;
            take_back = (\<lambda>e. m\<lparr>m_Elastix := Some (This, e),
                              m_FinalTransform := FinalTransform e,
                              m_TransformParametersMap := TransformParametersMap e,
                              m_FixedImageContainer := FixedImageContainer e,
                              m_MovingImageContainer := MovingImageContainer e,
                              m_FixedMaskContainer := FixedMaskContainer e,
                              m_MovingMaskContainer := MovingMaskContainer e,
                              m_ResultImageContainer := ResultImageContainer e,
                              m_OriginalFixedImageDirection := OriginalFixedImageDirectionFlat e\<rparr>)
        in case ElastixTemplate_Run env This (e, w) of
             (Inr errorCode, e, w) \<Rightarrow> (Inr errorCode, take_back e, w)
           | (Inl (ExceptionObject excp1), e, w) \<Rightarrow> (Inr 1, take_back e, emit (LogError excp1) w)
           | (Inl fault, e, w) \<Rightarrow> (Inl fault, m\<lparr>m_Elastix := Some (This, e)\<rparr>, w)))"

text \<open>
  \<^verbatim>\<open>ElastixMain::Run()\<close>. \<^verbatim>\<open>SetProcessPriority\<close> and \<^verbatim>\<open>SetMaximumNumberOfThreads\<close> touch
  nothing that is modelled. The object created under the key \<^verbatim>\<open>"Elastix"\<close> is the
  elastix object, so the cast of \<^verbatim>\<open>GetElastixBase\<close> succeeds.
\<close>

definition ElastixMain_Run ::
  "environment \<Rightarrow> ElastixMain \<times> world \<Rightarrow> (error + int) \<times> ElastixMain \<times> world" where
  "ElastixMain_Run env st =
     (case InitDBIndex env st of (errorCode, m, w) \<Rightarrow>
       if errorCode \<noteq> 0 then (Inr errorCode, m, w)
       else
         (case CreateComponent env m ''Elastix'' w of
            (Inl (ExceptionObject excp), w) \<Rightarrow> (Inr 1, m, emit (LogError excp) w)
          | (Inl fault, w) \<Rightarrow> (Inl fault, m, w)
          | (Inr This, w) \<Rightarrow>
              (let elastixBase = ElastixTemplate_New (m_Configuration m);
                   elastixBase = elastixBase\<lparr>DBIndex := m_DBIndex m\<rparr>;
                   m = m\<lparr>m_Elastix := Some (This, elastixBase)\<rparr>
               in case PopulateComponentContainers env m (elastixBase, errorCode, w) of
                    (elastixBase, errorCode, w) \<Rightarrow>
                      if errorCode \<noteq> 0
                      then (Inr 1, m\<lparr>m_Elastix := Some (This, elastixBase)\<rparr>,
                            emit (LogError ''ERROR: One or more components could not be created.'') w)
                      else RunElastix env This m (elastixBase, w))))"

section \<open>Notions used in the statements\<close>

text \<open>
  The events a run adds to the trace, the order in which the spec says a stage visits
  the components (the configuration, then the roles in the traversal order, each role by
  increasing index), the file names the kernel composes, and the conditions under which
  the callbacks do not follow a null pointer.
\<close>

definition emits :: "event list \<Rightarrow> world \<Rightarrow> world" where
  "emits evs w = w\<lparr>trace := trace w @ evs\<rparr>"

definition role_traversal_order :: "role list" where
  "role_traversal_order =
     [Registration, Transform, ImageSampler, Metric, Interpolator, Optimizer,
      FixedImagePyramid, MovingImagePyramid, ResampleInterpolator, Resampler]"

definition dispatch_order :: "ElastixBase \<Rightarrow> callee list" where
  "dispatch_order e =
     OnConfiguration #
     concat (map (\<lambda>r. map (OnComponent r) [0..<GetNumberOf e r]) role_traversal_order)"

definition pass :: "ElastixBase \<Rightarrow> member_function \<Rightarrow> event list" where
  "pass e func = map (\<lambda>c. Call c func) (dispatch_order e)"

definition has_drivers :: "ElastixBase \<Rightarrow> bool" where
  "has_drivers e =
     (RegistrationContainer e \<noteq> [] \<and> TransformContainer e \<noteq> [] \<and> OptimizerContainer e \<noteq> []
      \<and> ResampleInterpolatorContainer e \<noteq> [] \<and> ResamplerContainer e \<noteq> [])"

definition file_events :: "string \<Rightarrow> event list" where
  "file_events FileName =
     [Call (OnComponent Transform 0) (SetTransformParametersFileName FileName),
      OpenFile FileName,
      Call (OnComponent Transform 0) WriteToFile,
      Call (OnComponent ResampleInterpolator 0) WriteToFile,
      Call (OnComponent Resampler 0) WriteToFile]"

definition iteration_info_name :: "ElastixBase \<Rightarrow> nat \<Rightarrow> string" where
  "iteration_info_name e CurrentLevel =
     GetCommandLineArgument (elx_Configuration e) ''-out'' @ ''IterationInfo.''
       @ show_nat (ElastixLevel (elx_Configuration e)) @ ''.R'' @ show_nat CurrentLevel @ ''.txt''"

definition iteration_file_name :: "ElastixBase \<Rightarrow> nat \<Rightarrow> string" where
  "iteration_file_name e CurrentLevel =
     GetCommandLineArgument (elx_Configuration e) ''-out'' @ ''TransformParameters.''
       @ show_nat (ElastixLevel (elx_Configuration e)) @ ''.R'' @ show_nat CurrentLevel
       @ ''.It'' @ makeIterationString (m_IterationCounter e) @ ''.txt''"

definition WriteEachIteration :: "ElastixBase \<Rightarrow> bool" where
  "WriteEachIteration e =
     snd (ReadParameter (BoolParameters (elx_Configuration e)) False
            ''WriteTransformParametersEachIteration'' 0)"

definition iteration_events :: "ElastixBase \<Rightarrow> nat \<Rightarrow> event list" where
  "iteration_events e CurrentLevel =
     (if m_IterationCounter e = 0 then [WriteHeaders] else [])
     @ [Call OnElastix Component_AfterEachIterationBase]
     @ pass e Component_AfterEachIterationBase
     @ pass e Component_AfterEachIteration
     @ [ItNr (m_IterationCounter e)]
     @ (if WriteEachIteration e then file_events (iteration_file_name e CurrentLevel) else [])"

definition resolution_file_name :: "ElastixBase \<Rightarrow> nat \<Rightarrow> string" where
  "resolution_file_name e CurrentLevel =
     GetCommandLineArgument (elx_Configuration e) ''-out'' @ ''TransformParameters.''
       @ show_nat (ElastixLevel (elx_Configuration e)) @ ''.R'' @ show_nat CurrentLevel @ ''.txt''"

definition WriteEachResolution :: "ElastixBase \<Rightarrow> bool" where
  "WriteEachResolution e =
     snd (ReadParameter (BoolParameters (elx_Configuration e)) False
            ''WriteTransformParametersEachResolution'' 0)"

definition final_file_name :: "ElastixBase \<Rightarrow> string" where
  "final_file_name e =
     GetCommandLineArgument (elx_Configuration e) ''-out'' @ ''TransformParameters.''
       @ show_nat (ElastixLevel (elx_Configuration e)) @ ''.txt''"

fun stage_handler :: "member_function \<Rightarrow> bool" where
  "stage_handler Component_BeforeAllBase = True"
| "stage_handler Component_BeforeAll = True"
| "stage_handler Component_BeforeRegistrationBase = True"
| "stage_handler Component_BeforeRegistration = True"
| "stage_handler Component_BeforeEachResolutionBase = True"
| "stage_handler Component_BeforeEachResolution = True"
| "stage_handler Component_AfterEachIterationBase = True"
| "stage_handler Component_AfterEachIteration = True"
| "stage_handler Component_AfterEachResolutionBase = True"
| "stage_handler Component_AfterEachResolution = True"
| "stage_handler Component_AfterRegistrationBase = True"
| "stage_handler Component_AfterRegistration = True"
| "stage_handler _ = False"

fun is_dispatch :: "event \<Rightarrow> bool" where
  "is_dispatch (Call OnElastix func) = False"
| "is_dispatch (Call c func) = stage_handler func"
| "is_dispatch _ = False"

definition dispatched :: "world \<Rightarrow> world \<Rightarrow> event list" where
  "dispatched w w' = filter is_dispatch (drop (length (trace w)) (trace w'))"

definition ItNrs :: "event list \<Rightarrow> nat list" where
  "ItNrs evs = concat (map (\<lambda>ev. case ev of ItNr n \<Rightarrow> [n] | _ \<Rightarrow> []) evs)"


definition new_events :: "world \<Rightarrow> world \<Rightarrow> event list" where
  "new_events w w' = drop (length (trace w)) (trace w')"


definition declared :: "ElastixMain \<Rightarrow> string \<Rightarrow> nat \<Rightarrow> string option" where
  "declared m key i = map_of (StringParameters (m_Configuration m)) (key, i)"

definition creatable :: "environment \<Rightarrow> ElastixMain \<Rightarrow> string \<Rightarrow> bool" where
  "creatable env m name =
     (case GetCreator env name (m_DBIndex m) of Some (Some obj) \<Rightarrow> True | _ \<Rightarrow> False)"

definition created :: "environment \<Rightarrow> ElastixMain \<Rightarrow> string \<Rightarrow> component" where
  "created env m name = the (the (GetCreator env name (m_DBIndex m)))"

definition alloc :: "component \<Rightarrow> world \<Rightarrow> world" where
  "alloc obj w = w\<lparr>heap := (heap w)(next_addr w := obj), next_addr := Suc (next_addr w)\<rparr>"

fun alloc_all :: "component list \<Rightarrow> world \<Rightarrow> world" where
  "alloc_all [] w = w"
| "alloc_all (obj # objs) w = alloc_all objs (alloc obj w)"

definition not_specified :: "string \<Rightarrow> string" where
  "not_specified key = ''ERROR: the following component has not been specified: '' @ key"

definition while_creating :: "string \<Rightarrow> string" where
  "while_creating key = ''ERROR: error occurred while creating '' @ key @ '' ''"

definition creation_failure :: "string \<Rightarrow> event \<Rightarrow> bool" where
  "creation_failure key ev =
     (case ev of
        LogError msg \<Rightarrow>
          msg = not_specified key \<or> take (length (while_creating key)) msg = while_creating key
      | _ \<Rightarrow> False)"

definition later_roles :: "string list" where
  "later_roles =
     [''Interpolator'', ''Metric'', ''Optimizer'', ''ResampleInterpolator'', ''Resampler'',
      ''Transform'']"

text \<open>The elastix object as \<^verbatim>\<open>Run\<close> sets it up before it creates the components.\<close>

definition fresh_elastix :: "ElastixMain \<Rightarrow> ElastixBase" where
  "fresh_elastix m = (ElastixTemplate_New (m_Configuration m))\<lparr>DBIndex := m_DBIndex m\<rparr>"

definition labelled :: "ElastixBase \<Rightarrow> ElastixBase" where
  "labelled e =
     e\<lparr>elx_Configuration :=
         (elx_Configuration e)\<lparr>ConfigurationLabel := Some (''Configuration'', 0)\<rparr>\<rparr>"

text \<open>
  The events that belong to the registration: a call of a stage function (on the elastix
  object, the configuration or a component), the start of the registration, and the
  iteration table.
\<close>

fun registration_event :: "event \<Rightarrow> bool" where
  "registration_event (Call c func) = stage_handler func"
| "registration_event EnterStartRegistration = True"
| "registration_event WriteHeaders = True"
| "registration_event (ItNr n) = True"
| "registration_event _ = False"

definition registration_events :: "event list \<Rightarrow> event list" where
  "registration_events evs = filter registration_event evs"





definition result_name :: "ElastixBase \<Rightarrow> string" where
  "result_name e =
     GetCommandLineArgument (elx_Configuration e) ''-out'' @ ''result.''
       @ snd (ReadParameter (StringParameters (elx_Configuration e)) ''mhd''
                ''ResultImageFormat'' 0)"

definition has_appliers :: "ElastixBase \<Rightarrow> bool" where
  "has_appliers e =
     (ResampleInterpolatorContainer e \<noteq> [] \<and> ResamplerContainer e \<noteq> []
      \<and> TransformContainer e \<noteq> [])"




text \<open>The second world continues the trace of the first with no event of the registration.\<close>

definition quiet :: "world \<Rightarrow> world \<Rightarrow> bool" where
  "quiet w w' =
     (take (length (trace w)) (trace w') = trace w
      \<and> registration_events (drop (length (trace w)) (trace w')) = [])"

text \<open>
  What a run of the elastix object leaves as it was: the ten containers of components and
  the initial transform.
\<close>

definition kept :: "ElastixBase \<Rightarrow> ElastixBase \<Rightarrow> bool" where
  "kept e e' =
     (InitialTransform e' = InitialTransform e
      \<and> RegistrationContainer e' = RegistrationContainer e
      \<and> TransformContainer e' = TransformContainer e
      \<and> ImageSamplerContainer e' = ImageSamplerContainer e
      \<and> MetricContainer e' = MetricContainer e
      \<and> InterpolatorContainer e' = InterpolatorContainer e
      \<and> OptimizerContainer e' = OptimizerContainer e
      \<and> FixedImagePyramidContainer e' = FixedImagePyramidContainer e
      \<and> MovingImagePyramidContainer e' = MovingImagePyramidContainer e
      \<and> ResampleInterpolatorContainer e' = ResampleInterpolatorContainer e
      \<and> ResamplerContainer e' = ResamplerContainer e)"

text \<open>No component in a container of the elastix object refers to an elastix object.\<close>

definition decoupled :: "ElastixBase \<Rightarrow> world \<Rightarrow> bool" where
  "decoupled e w =
     (\<forall>r\<in>set role_traversal_order. \<forall>a\<in>set (GetContainer e r). Elastix (heap w a) = None)"

text \<open>
  The state in which \<^verbatim>\<open>Run\<close> returns 0: the first transform is the final transform and
  the components are decoupled.
\<close>

definition finished :: "ElastixBase \<Rightarrow> world \<Rightarrow> bool" where
  "finished e w =
     (TransformContainer e \<noteq> [] \<and> FinalTransform e = Some (hd (TransformContainer e))
      \<and> decoupled e w)"

text \<open>The registration raises no exception.\<close>

fun regular :: "itk_event list \<Rightarrow> bool" where
  "regular [] = True"
| "regular (RegistrationException d # evs) = False"
| "regular (_ # evs) = regular evs"

text \<open>
  The three roles that \<^verbatim>\<open>Run\<close> creates before ImageSampler, each with its default name, and
  the name that \<^verbatim>\<open>CreateComponents\<close> creates first for a key.
\<close>

definition earlier_roles :: "(string \<times> string) list" where
  "earlier_roles =
     [(''Registration'', ''MultiResolutionRegistration''),
      (''FixedImagePyramid'', ''FixedSmoothingImagePyramid''),
      (''MovingImagePyramid'', ''MovingSmoothingImagePyramid'')]"

definition first_name :: "ElastixMain \<Rightarrow> string \<Rightarrow> string \<Rightarrow> string" where
  "first_name m key defaultComponentName =
     (case declared m key 0 of Some name \<Rightarrow> name | None \<Rightarrow> defaultComponentName)"

text \<open>
  The ten calls of \<^verbatim>\<open>CreateComponents\<close> in \<^verbatim>\<open>Run\<close> in two parts: the three before
  ImageSampler, and the seven from ImageSampler on.
\<close>

definition CreateEarlierRoles ::
  "environment \<Rightarrow> ElastixMain \<Rightarrow> ElastixBase \<times> int \<times> world \<Rightarrow> ElastixBase \<times> int \<times> world" where
  "CreateEarlierRoles env m s =
     (case s of (e, errorCode, w) \<Rightarrow>
       (let (c, errorCode, w) =
               CreateComponents env m ''Registration'' ''MultiResolutionRegistration'' errorCode True w;
            e = e\<lparr>RegistrationContainer := c\<rparr>;
            (c, errorCode, w) =
               CreateComponents env m ''FixedImagePyramid'' ''FixedSmoothingImagePyramid'' errorCode True w;
            e = e\<lparr>FixedImagePyramidContainer := c\<rparr>;
            (c, errorCode, w) =
               CreateComponents env m ''MovingImagePyramid'' ''MovingSmoothingImagePyramid'' errorCode True w;
            e = e\<lparr>MovingImagePyramidContainer := c\<rparr>
        in (e, errorCode, w)))"

definition CreateSamplerAndLaterRoles ::
  "environment \<Rightarrow> ElastixMain \<Rightarrow> ElastixBase \<times> int \<times> world \<Rightarrow> ElastixBase \<times> int \<times> world" where
  "CreateSamplerAndLaterRoles env m s =
     (case s of (e, errorCode, w) \<Rightarrow>
       (let (c, errorCode, w) = CreateComponents env m ''ImageSampler'' [] errorCode False w;
            e = e\<lparr>ImageSamplerContainer := c\<rparr>;
            (c, errorCode, w) =
               CreateComponents env m ''Interpolator'' ''BSplineInterpolator'' errorCode True w;
            e = e\<lparr>InterpolatorContainer := c\<rparr>;
            (c, errorCode, w) = CreateComponents env m ''Metric'' [] errorCode True w;
            e = e\<lparr>MetricContainer := c\<rparr>;
            (c, errorCode, w) = CreateComponents env m ''Optimizer'' [] errorCode True w;
            e = e\<lparr>OptimizerContainer := c\<rparr>;
            (c, errorCode, w) =
               CreateComponents env m ''ResampleInterpolator'' ''FinalBSplineInterpolator'' errorCode True w;
            e = e\<lparr>ResampleInterpolatorContainer := c\<rparr>;
            (c, errorCode, w) =
               CreateComponents env m ''Resampler'' ''DefaultResampler'' errorCode True w;
            e = e\<lparr>ResamplerContainer := c\<rparr>;
            (c, errorCode, w) = CreateComponents env m ''Transform'' [] errorCode True w;
            e = e\<lparr>TransformContainer := c\<rparr>
        in (e, errorCode, w)))"
subsection \<open>A concrete configuration and run\<close>

definition demo_configuration :: Configuration where
  "demo_configuration =
     \<lparr> IsInitialized = True,
       CommandLineArguments = [(''-f'', ''fixed.mhd''), (''-m'', ''moving.mhd''), (''-out'', ''out/'')],
       StringParameters =
         [((''Transform'', 0), ''BSplineTransform''),
          ((''Transform'', 1), ''AffineTransform''),
          ((''Transform'', 3), ''EulerTransform''),
          ((''Metric'', 0), ''AdvancedMattesMutualInformation''),
          ((''Optimizer'', 0), ''AdaptiveStochasticGradientDescent'')],
       UIntParameters = [],
       BoolParameters = [((''WriteTransformParametersEachIteration'', 0), True)],
       ElastixLevel = 0,
       ConfigurationLabel = None \<rparr>"

definition demo_elastix :: ElastixBase where
  "demo_elastix =
     (ElastixTemplate_New demo_configuration)
       \<lparr> RegistrationContainer := [1], TransformContainer := [9, 10],
         MetricContainer := [5], InterpolatorContainer := [4], OptimizerContainer := [6],
         FixedImagePyramidContainer := [2], MovingImagePyramidContainer := [3],
         ResampleInterpolatorContainer := [7], ResamplerContainer := [8] \<rparr>"

definition demo_world :: world where
  "demo_world =
     \<lparr> heap = (\<lambda>a. \<lparr>ComponentDescription = [], ComponentLabel = None, Elastix = None\<rparr>),
       next_addr = 11, trace = [] \<rparr>"

definition demo_level :: "itk_event list" where
  "demo_level =
     [OptimizerIterationEvent, OptimizerIterationEvent, OptimizerIterationEvent, OptimizerEndEvent]"


definition demo_database :: "string list" where
  "demo_database =
     [''Elastix'', ''MultiResolutionRegistration'', ''FixedSmoothingImagePyramid'',
      ''MovingSmoothingImagePyramid'', ''BSplineInterpolator'', ''FinalBSplineInterpolator'',
      ''DefaultResampler'', ''BSplineTransform'', ''AffineTransform'', ''EulerTransform'',
      ''AdvancedMattesMutualInformation'', ''AdaptiveStochasticGradientDescent'']"

definition demo_environment :: environment where
  "demo_environment =
     \<lparr> HandlerResult = (\<lambda>c func. 0),
       ImageLoader = (\<lambda>names label. Inr [0]),
       RegistrationEvents =
         RegistrationIterationEvent 0 # demo_level @ RegistrationIterationEvent 1 # demo_level,
       TransformPointsException = None,
       GetIndex = (\<lambda>fixedPixelType fixedDimension movingPixelType movingDimension.
         if fixedPixelType = ''float'' \<and> movingPixelType = ''float''
            \<and> fixedDimension = movingDimension \<and> (fixedDimension = 2 \<or> fixedDimension = 3)
         then fixedDimension - 1 else 0),
       GetCreator = (\<lambda>name index.
         if index \<noteq> 0 \<and> name \<in> set demo_database
         then Some (Some \<lparr>ComponentDescription = name, ComponentLabel = None, Elastix = None\<rparr>)
         else None),
       IsElastixLibrary = False,
       GetNumberOfDimensions = (\<lambda>filename. Inr 3) \<rparr>"

definition demo_main :: ElastixMain where
  "demo_main = (ElastixMain_New demo_configuration)\<lparr>m_DBIndex := 2\<rparr>"

definition broken_main :: ElastixMain where
  "broken_main =
     (ElastixMain_New
        (demo_configuration\<lparr>StringParameters :=
           [((''Transform'', 0), ''BSplineTransform''),
            ((''Transform'', 1), ''NoSuchTransform'')]\<rparr>))\<lparr>m_DBIndex := 2\<rparr>"

definition short_main :: ElastixMain where
  "short_main =
     (ElastixMain_New
        (demo_configuration\<lparr>StringParameters :=
           [((''Transform'', 0), ''BSplineTransform''),
            ((''Transform'', 1), ''AffineTransform'')]\<rparr>))\<lparr>m_DBIndex := 2\<rparr>"

definition no_images_main :: ElastixMain where
  "no_images_main =
     ElastixMain_New (demo_configuration\<lparr>CommandLineArguments := [(''-out'', ''out/'')]\<rparr>)"

definition four_dimensional :: environment where
  "four_dimensional = demo_environment\<lparr>GetNumberOfDimensions := (\<lambda>filename. Inr 4)\<rparr>"

definition bogus_main :: ElastixMain where
  "bogus_main =
     ElastixMain_New
       (demo_configuration\<lparr>StringParameters :=
          ((''Registration'', 0), ''NoSuchRegistration'') # StringParameters demo_configuration\<rparr>)"

definition bogus_ready :: ElastixMain where
  "bogus_ready =
     bogus_main\<lparr>m_FixedImagePixelType := ''float'', m_FixedImageDimension := 3,
                m_MovingImagePixelType := ''float'', m_MovingImageDimension := 3,
                m_DBIndex := 2\<rparr>"

definition elastix_object :: component where
  "elastix_object = \<lparr>ComponentDescription = ''Elastix'', ComponentLabel = None, Elastix = None\<rparr>"


text \<open>
  Two runs one after the other, the second with the final transform of the first as its
  initial transform, in the world the first has left.
\<close>

definition first_main :: ElastixMain where
  "first_main = ElastixMain_New demo_configuration"

definition first_run :: "(error + int) \<times> ElastixMain \<times> world" where
  "first_run = ElastixMain_Run demo_environment (first_main, demo_world)"

definition second_main :: ElastixMain where
  "second_main =
     SetInitialTransform (GetFinalTransform (fst (snd first_run)))
       (ElastixMain_New demo_configuration)"

definition second_run :: "(error + int) \<times> ElastixMain \<times> world" where
  "second_run = ElastixMain_Run demo_environment (second_main, snd (snd first_run))"

section \<open>Properties of the embedding\<close>

lemma and_then_Inl [simp]: "and_then (Inl x, s) f = (Inl x, s)"
  by (simp add: and_then_def)

lemma and_then_Inr [simp]: "and_then (Inr v, s) f = f v s"
  by (simp add: and_then_def)

lemma deref_Some [simp]: "deref (Some a) s = (Inr a, s)"
  by (simp add: deref_def)

lemma deref_None [simp]: "deref None s = (Inl NullPointerDereference, s)"
  by (simp add: deref_def)

lemma show_nat_small: "n < 10 \<Longrightarrow> show_nat n = [digit_char n]"
  by (simp add: show_nat.simps)

lemma show_nat_large: "10 \<le> n \<Longrightarrow> show_nat n = show_nat (n div 10) @ [digit_char (n mod 10)]"
  by (subst show_nat.simps) simp

lemma length_show_nat:
  "n < 10 ^ Suc k \<Longrightarrow> k = 0 \<or> 10 ^ k \<le> n \<Longrightarrow> length (show_nat n) = Suc k"
proof (induction k arbitrary: n)
  case 0
  then show ?case by (simp add: show_nat_small)
next
  case (Suc k)
  from Suc.prems have ge: "10 * 10 ^ k \<le> n" by simp
  have "(1::nat) \<le> 10 ^ k" by simp
  with ge have n10: "10 \<le> n" by linarith
  from Suc.prems have "n div 10 < 10 ^ Suc k" by (simp add: less_mult_imp_div_less mult.commute)
  moreover from ge have "10 ^ k \<le> n div 10" by (simp add: less_eq_div_iff_mult_less_eq mult.commute)
  ultimately have "length (show_nat (n div 10)) = Suc k" using Suc.IH by blast
  then show ?case by (simp add: show_nat_large [OF n10])
qed

lemma length_show_nat_le: "n < 10 ^ Suc k \<Longrightarrow> length (show_nat n) \<le> Suc k"
proof (induction k)
  case 0
  then show ?case by (simp add: show_nat_small)
next
  case (Suc k)
  show ?case
  proof (cases "n < 10 ^ Suc k")
    case True
    then show ?thesis using Suc.IH by simp
  next
    case False
    then have "10 ^ Suc k \<le> n" by simp
    then show ?thesis using length_show_nat [OF Suc.prems] by simp
  qed
qed

lemma length_show_nat_pos: "0 < length (show_nat n)"
  by (subst show_nat.simps) simp

lemma ZeroPadLoop_pow:
  "n < 10 ^ Suc k \<Longrightarrow>
   ZeroPadLoop n (10 ^ k) s = s @ replicate (Suc k - length (show_nat n)) CHR ''0''"
proof (induction k arbitrary: s)
  case 0
  then show ?case by (simp add: ZeroPadLoop.simps show_nat_small)
next
  case (Suc k)
  have p: "(1::nat) \<le> 10 ^ k" by simp
  have big: "(1::nat) < 10 ^ Suc k" unfolding power_Suc using p by linarith
  show ?case
  proof (cases "n < 10 ^ Suc k")
    case True
    have le: "length (show_nat n) \<le> Suc k" using True by (rule length_show_nat_le)
    have "ZeroPadLoop n (10 ^ Suc k) s = ZeroPadLoop n (10 ^ k) (s @ ''0'')"
      using True big by (subst ZeroPadLoop.simps) simp
    also have "\<dots> = (s @ ''0'') @ replicate (Suc k - length (show_nat n)) CHR ''0''"
      using True by (rule Suc.IH)
    also have "\<dots> = s @ replicate (Suc (Suc k) - length (show_nat n)) CHR ''0''"
      using le by (simp add: Suc_diff_le)
    finally show ?thesis .
  next
    case False
    then have ge: "10 ^ Suc k \<le> n" by simp
    have len: "length (show_nat n) = Suc (Suc k)"
      using Suc.prems ge by (intro length_show_nat) simp_all
    have "ZeroPadLoop n (10 ^ Suc k) s = ZeroPadLoop n 1 s"
      using False big by (subst ZeroPadLoop.simps) simp
    also have "\<dots> = s" by (subst ZeroPadLoop.simps) simp
    finally show ?thesis using len by simp
  qed
qed

lemma makeIterationString_padded:
  assumes "n < 10000000"
  shows "makeIterationString n = replicate (7 - length (show_nat n)) CHR ''0'' @ show_nat n"
    and "length (makeIterationString n) = 7"
proof -
  have n: "n < 10 ^ Suc 6" using assms by simp
  have "ZeroPadLoop n (10 ^ 6) [] = [] @ replicate (Suc 6 - length (show_nat n)) CHR ''0''"
    using n by (rule ZeroPadLoop_pow)
  then show eq: "makeIterationString n = replicate (7 - length (show_nat n)) CHR ''0'' @ show_nat n"
    by (simp add: makeIterationString_def)
  have "length (show_nat n) \<le> Suc 6" using n by (rule length_show_nat_le)
  then show "length (makeIterationString n) = 7" unfolding eq by simp
qed

lemma emit_emits: "emit ev w = emits [ev] w"
  by (simp add: emit_def emits_def)

lemma emits_emits [simp]: "emits b (emits a w) = emits (a @ b) w"
  by (simp add: emits_def)

lemma emits_Nil [simp]: "emits [] w = w"
  by (simp add: emits_def)

lemma trace_emits [simp]: "trace (emits evs w) = trace w @ evs"
  by (simp add: emits_def)

lemma heap_emits [simp]: "heap (emits evs w) = heap w"
  by (simp add: emits_def)

lemma next_addr_emits [simp]: "next_addr (emits evs w) = next_addr w"
  by (simp add: emits_def)

lemma CallLoop_emits:
  "CallLoop func r i n w = emits (map (\<lambda>j. Call (OnComponent r j) func) [i..<n]) w"
proof (induction func r i n w rule: CallLoop.induct)
  case (1 func r i n w)
  show ?case
  proof (cases "i < n")
    case True
    then show ?thesis
      using "1" by (subst CallLoop.simps) (simp add: emit_emits upt_conv_Cons)
  next
    case False
    then show ?thesis by (subst CallLoop.simps) simp
  qed
qed

lemma CallInEachComponent_emits:
  "CallInEachComponent func e w = emits (pass e func) w"
  by (simp add: CallInEachComponent_def CallLoop_emits emit_emits pass_def dispatch_order_def
      role_traversal_order_def Let_def)

lemma CallLoopInt_snd:
  "snd (CallLoopInt env func r i n s) =
   emits (map (\<lambda>j. Call (OnComponent r j) func) [i..<n]) (snd s)"
proof (induction env func r i n s rule: CallLoopInt.induct)
  case (1 env func r i n returndummy w)
  show ?case
  proof (cases "i < n")
    case True
    then show ?thesis
      using "1" by (subst CallLoopInt.simps) (simp add: emit_emits upt_conv_Cons)
  next
    case False
    then show ?thesis by (subst CallLoopInt.simps) simp
  qed
qed

lemma CallInEachComponentInt_snd:
  "snd (CallInEachComponentInt env func e w) = emits (pass e func) w"
  by (simp add: CallInEachComponentInt_def CallLoopInt_snd emit_emits pass_def dispatch_order_def
      role_traversal_order_def Let_def)

lemma CallLoopInt_fst:
  "fst (CallLoopInt env func r i n s) =
   fold (\<lambda>j d. d OR HandlerResult env (OnComponent r j) func) [i..<n] (fst s)"
proof (induction env func r i n s rule: CallLoopInt.induct)
  case (1 env func r i n returndummy w)
  show ?case
  proof (cases "i < n")
    case True
    then show ?thesis
      using "1" by (subst CallLoopInt.simps) (simp add: upt_conv_Cons)
  next
    case False
    then show ?thesis by (subst CallLoopInt.simps) simp
  qed
qed

lemma CallInEachComponentInt_fst:
  "fst (CallInEachComponentInt env func e w) =
   fold (\<lambda>c d. d OR HandlerResult env c func) (dispatch_order e) 0"
  by (simp add: CallInEachComponentInt_def CallLoopInt_fst dispatch_order_def
      role_traversal_order_def Let_def fold_map comp_def)

lemma GetElxBase_nonempty [simp]:
  "GetContainer e r \<noteq> [] \<Longrightarrow> GetElxBase e r 0 = Some (hd (GetContainer e r))"
  by (cases "GetContainer e r") (simp_all add: GetElxBase_def GetNumberOf_def)

lemma GetElxBase_empty [simp]:
  "GetContainer e r = [] \<Longrightarrow> GetElxBase e r 0 = None"
  by (simp add: GetElxBase_def GetNumberOf_def)

lemma GetContainer_counter [simp]:
  "GetContainer (e\<lparr>m_IterationCounter := x\<rparr>) r = GetContainer e r"
  by (cases r) simp_all

lemma GetContainer_file_name [simp]:
  "GetContainer (e\<lparr>m_CurrentTransformParameterFileName := x\<rparr>) r = GetContainer e r"
  by (cases r) simp_all

lemma pass_counter [simp]: "pass (e\<lparr>m_IterationCounter := x\<rparr>) func = pass e func"
  by (simp add: pass_def dispatch_order_def GetNumberOf_def)

lemma pass_file_name [simp]:
  "pass (e\<lparr>m_CurrentTransformParameterFileName := x\<rparr>) func = pass e func"
  by (simp add: pass_def dispatch_order_def GetNumberOf_def)

lemma CreateTransformParameterFile_ok:
  "has_drivers e \<Longrightarrow>
   CreateTransformParameterFile FileName ToLog (e, w) =
     (Inr (), e\<lparr>m_CurrentTransformParameterFileName := FileName\<rparr>, emits (file_events FileName) w)"
  by (simp add: CreateTransformParameterFile_def has_drivers_def emit_emits file_events_def)

lemma BeforeEachResolution_ok:
  "RegistrationContainer e \<noteq> [] \<Longrightarrow>
   BeforeEachResolution CurrentLevel (e, w) =
     (Inr (), e\<lparr>m_IterationCounter := 0\<rparr>,
      emits ([OpenFile (iteration_info_name e CurrentLevel),
              Call OnElastix Component_BeforeEachResolutionBase]
             @ pass e Component_BeforeEachResolutionBase
             @ pass e Component_BeforeEachResolution) w)"
  by (simp add: BeforeEachResolution_def OpenIterationInfoFile_def emit_emits
      CallInEachComponent_emits iteration_info_name_def)

lemma BeforeEachResolution_null:
  "RegistrationContainer e = [] \<Longrightarrow>
   BeforeEachResolution CurrentLevel (e, w) = (Inl NullPointerDereference, e, w)"
  by (simp add: BeforeEachResolution_def)

lemma AfterEachIteration_ok:
  assumes d: "has_drivers e"
  shows "AfterEachIteration CurrentLevel (e, w) =
     (Inr (),
      (if WriteEachIteration e
       then e\<lparr>m_CurrentTransformParameterFileName := iteration_file_name e CurrentLevel\<rparr>
       else e)\<lparr>m_IterationCounter := (m_IterationCounter e + 1) mod 2 ^ 32\<rparr>,
      emits (iteration_events e CurrentLevel) w)"
proof -
  have r: "RegistrationContainer e \<noteq> []" using d by (simp add: has_drivers_def)
  obtain found flag where rp:
    "ReadParameter (BoolParameters (elx_Configuration e)) False
       ''WriteTransformParametersEachIteration'' 0 = (found, flag)"
    by (cases "ReadParameter (BoolParameters (elx_Configuration e)) False
       ''WriteTransformParametersEachIteration'' 0")
  have f: "WriteEachIteration e = flag" by (simp add: WriteEachIteration_def rp)
  show ?thesis
  proof (cases flag)
    case True
    then show ?thesis
      unfolding AfterEachIteration_def
      by (simp add: rp f r emit_emits CallInEachComponent_emits
          CreateTransformParameterFile_ok [OF d] iteration_events_def iteration_file_name_def)
  next
    case False
    then show ?thesis
      unfolding AfterEachIteration_def
      by (simp add: rp f emit_emits CallInEachComponent_emits iteration_events_def)
  qed
qed

lemma has_drivers_counter [simp]: "has_drivers (e\<lparr>m_IterationCounter := x\<rparr>) = has_drivers e"
  by (simp add: has_drivers_def)

lemma has_drivers_file_name [simp]:
  "has_drivers (e\<lparr>m_CurrentTransformParameterFileName := x\<rparr>) = has_drivers e"
  by (simp add: has_drivers_def)

lemma BeforeRegistration_emits:
  "BeforeRegistration e w =
     emits ([Call OnElastix Component_BeforeRegistrationBase]
            @ pass e Component_BeforeRegistrationBase @ pass e Component_BeforeRegistration) w"
  by (simp add: BeforeRegistration_def emit_emits CallInEachComponent_emits)

lemma BeforeAll_snd:
  "snd (BeforeAll env e w) =
     emits ([Call OnElastix Component_BeforeAllBase]
            @ pass e Component_BeforeAllBase @ pass e Component_BeforeAll) w"
  by (simp add: BeforeAll_def Let_def case_prod_beta emit_emits CallInEachComponentInt_snd)

lemma AfterEachResolution_ok:
  assumes d: "has_drivers e"
  shows "AfterEachResolution CurrentLevel (e, w) =
     (Inr (),
      (if WriteEachResolution e
       then e\<lparr>m_CurrentTransformParameterFileName := resolution_file_name e CurrentLevel\<rparr>
       else e),
      emits ([Call OnElastix Component_AfterEachResolutionBase]
             @ pass e Component_AfterEachResolutionBase @ pass e Component_AfterEachResolution
             @ (if WriteEachResolution e then file_events (resolution_file_name e CurrentLevel)
                else [])) w)"
proof -
  have r: "RegistrationContainer e \<noteq> []" using d by (simp add: has_drivers_def)
  obtain found flag where rp:
    "ReadParameter (BoolParameters (elx_Configuration e)) False
       ''WriteTransformParametersEachResolution'' 0 = (found, flag)"
    by (cases "ReadParameter (BoolParameters (elx_Configuration e)) False
       ''WriteTransformParametersEachResolution'' 0")
  have f: "WriteEachResolution e = flag" by (simp add: WriteEachResolution_def rp)
  show ?thesis
  proof (cases flag)
    case True
    then show ?thesis
      unfolding AfterEachResolution_def
      by (simp add: rp f r emit_emits CallInEachComponent_emits
          CreateTransformParameterFile_ok [OF d] resolution_file_name_def)
  next
    case False
    then show ?thesis
      unfolding AfterEachResolution_def
      by (simp add: rp f r emit_emits CallInEachComponent_emits)
  qed
qed

lemma AfterRegistration_ok:
  assumes d: "has_drivers e"
  shows "AfterRegistration (e, w) =
     (Inr (), e\<lparr>m_CurrentTransformParameterFileName := final_file_name e\<rparr>,
      emits (file_events (final_file_name e)
             @ [Call OnElastix Component_AfterRegistrationBase]
             @ pass e Component_AfterRegistrationBase @ pass e Component_AfterRegistration) w)"
  unfolding AfterRegistration_def
  by (simp add: emit_emits CallInEachComponent_emits CreateTransformParameterFile_ok [OF d]
      final_file_name_def)

lemma dispatched_emits [simp]: "dispatched w (emits evs w) = filter is_dispatch evs"
  by (simp add: dispatched_def)

lemma filter_pass [simp]: "stage_handler func \<Longrightarrow> filter is_dispatch (pass e func) = pass e func"
  by (simp add: pass_def dispatch_order_def filter_map comp_def filter_concat)

lemma filter_file_events [simp]: "filter is_dispatch (file_events FileName) = []"
  by (simp add: file_events_def)

lemma new_events_emits [simp]: "new_events w (emits evs w) = evs"
  by (simp add: new_events_def)


lemma ItNrs_Nil [simp]: "ItNrs [] = []"
  by (simp add: ItNrs_def)

lemma ItNrs_Cons [simp]:
  "ItNrs (ev # evs) = (case ev of ItNr n \<Rightarrow> [n] | _ \<Rightarrow> []) @ ItNrs evs"
  by (simp add: ItNrs_def)

lemma ItNrs_pass [simp]: "ItNrs (pass e func) = []"
  by (simp add: ItNrs_def pass_def)

lemma ItNrs_file_events [simp]: "ItNrs (file_events FileName) = []"
  by (simp add: file_events_def)




lemma has_drivers_demo: "has_drivers demo_elastix"
  by (simp add: has_drivers_def demo_elastix_def ElastixTemplate_New_def)

lemma show_nat_digits: "set (show_nat n) \<subseteq> set ''0123456789''"
proof (induction n rule: show_nat.induct)
  case (1 n)
  have m: "n mod 10 < 10" by simp
  have dg: "\<And>d. d < 10 \<Longrightarrow> digit_char d \<in> set ''0123456789''"
    unfolding digit_char_def by (rule nth_mem) simp
  show ?case
  proof (cases "n < 10")
    case True
    then show ?thesis using dg [of n] by (simp add: show_nat_small)
  next
    case False
    then have "10 \<le> n" by simp
    then show ?thesis using "1" False dg [OF m] by (simp add: show_nat_large)
  qed
qed


lemma dispatch_order_demo:
  "dispatch_order demo_elastix =
     [OnConfiguration, OnComponent Registration 0,
      OnComponent Transform 0, OnComponent Transform 1,
      OnComponent Metric 0, OnComponent Interpolator 0, OnComponent Optimizer 0,
      OnComponent FixedImagePyramid 0, OnComponent MovingImagePyramid 0,
      OnComponent ResampleInterpolator 0, OnComponent Resampler 0]"
  by (simp add: dispatch_order_def role_traversal_order_def GetNumberOf_def demo_elastix_def
      ElastixTemplate_New_def upt_rec)

lemma CreateComponent_creatable:
  "creatable env m name \<Longrightarrow>
   CreateComponent env m name w = (Inr (next_addr w), alloc (created env m name) w)"
  by (auto simp: creatable_def created_def CreateComponent_def alloc_def Let_def
      split: option.splits)

lemma CreateComponent_not_creatable:
  "\<not> creatable env m name \<Longrightarrow>
   CreateComponent env m name w =
     (Inl (ExceptionObject (''The following component could not be created: '' @ name)), w)"
  by (auto simp: creatable_def CreateComponent_def Let_def split: option.splits)

lemma ReadParameter_declared:
  "ReadParameter (StringParameters (m_Configuration m)) param key i =
     (case declared m key i of None \<Rightarrow> (False, param) | Some v \<Rightarrow> (True, v))"
  by (simp add: ReadParameter_def declared_def)

lemma next_addr_alloc_all [simp]: "next_addr (alloc_all objs w) = next_addr w + length objs"
  by (induction objs arbitrary: w) (simp_all add: alloc_def)

lemma trace_alloc_all [simp]: "trace (alloc_all objs w) = trace w"
  by (induction objs arbitrary: w) (simp_all add: alloc_def)

lemma heap_alloc_all_old: "a < next_addr w \<Longrightarrow> heap (alloc_all objs w) a = heap w a"
  by (induction objs arbitrary: w) (simp_all add: alloc_def)

lemma heap_alloc_all_new:
  "i < length objs \<Longrightarrow> heap (alloc_all objs w) (next_addr w + i) = objs ! i"
proof (induction objs arbitrary: w i)
  case Nil
  then show ?case by simp
next
  case (Cons obj objs)
  show ?case
  proof (cases i)
    case 0
    have "heap (alloc_all objs (alloc obj w)) (next_addr w) = heap (alloc obj w) (next_addr w)"
      by (rule heap_alloc_all_old) (simp add: alloc_def)
    then show ?thesis using 0 by (simp add: alloc_def)
  next
    case (Suc j)
    then have "j < length objs" using Cons.prems by simp
    then have "heap (alloc_all objs (alloc obj w)) (next_addr (alloc obj w) + j) = objs ! j"
      by (rule Cons.IH)
    then show ?thesis using Suc by (simp add: alloc_def)
  qed
qed

lemma alloc_all_append: "alloc_all (xs @ ys) w = alloc_all ys (alloc_all xs w)"
  by (induction xs arbitrary: w) simp_all

lemma upt_add_Suc: "[a ..< a + Suc j] = a # [Suc a ..< Suc a + j]"
  by (simp add: upt_conv_Cons)

lemma CreateComponentsLoop_stop:
  "CreateComponentsLoop env m key False name n s = s"
  by (cases s) (simp add: CreateComponentsLoop.simps)

lemma CreateComponentsLoop_contiguous:
  assumes "\<forall>i. n < i \<and> i < g \<longrightarrow> (\<exists>nm. declared m key i = Some nm \<and> creatable env m nm)"
    and "declared m key g = None" and "n < g" and "length c = Suc n"
  shows "CreateComponentsLoop env m key True name n (c, ec, w) =
     (c @ [next_addr w ..< next_addr w + (g - Suc n)], ec,
      alloc_all (map (\<lambda>i. created env m (the (declared m key i))) [Suc n ..< g]) w)"
  using assms
proof (induction k \<equiv> "g - Suc n" arbitrary: n c w name)
  case 0
  then have g: "g = Suc n" by simp
  show ?case
    using "0.prems"(2) g
    by (subst CreateComponentsLoop.simps)
      (simp add: ReadParameter_declared CreateComponentsLoop_stop)
next
  case (Suc k)
  then have lt: "Suc n < g" by simp
  then obtain nm where nm: "declared m key (Suc n) = Some nm" "creatable env m nm"
    using Suc.prems(1) by auto
  have k: "k = g - Suc (Suc n)" using Suc.hyps(2) by simp
  have rest: "\<forall>i. Suc n < i \<and> i < g \<longrightarrow> (\<exists>nm. declared m key i = Some nm \<and> creatable env m nm)"
    using Suc.prems(1) by auto
  have len: "length (c @ [next_addr w]) = Suc (Suc n)" using Suc.prems(4) by simp
  have IH: "CreateComponentsLoop env m key True nm (Suc n)
       (c @ [next_addr w], ec, alloc (created env m nm) w) =
     ((c @ [next_addr w]) @ [next_addr (alloc (created env m nm) w) ..<
          next_addr (alloc (created env m nm) w) + (g - Suc (Suc n))], ec,
      alloc_all (map (\<lambda>i. created env m (the (declared m key i))) [Suc (Suc n) ..< g])
        (alloc (created env m nm) w))"
    using Suc.hyps(1) [OF k rest Suc.prems(2) lt len] .
  have unfold: "CreateComponentsLoop env m key True name n (c, ec, w) =
      CreateComponentsLoop env m key True nm (Suc n)
       (c @ [next_addr w], ec, alloc (created env m nm) w)"
    using nm Suc.prems(4)
    by (subst CreateComponentsLoop.simps)
      (simp add: ReadParameter_declared CreateComponent_creatable CreateElementAt_def)
  have "g - Suc n = Suc (g - Suc (Suc n))" using lt by simp
  then have up1: "[next_addr w ..< next_addr w + (g - Suc n)]
      = next_addr w # [Suc (next_addr w) ..< Suc (next_addr w) + (g - Suc (Suc n))]"
    by (simp only: upt_add_Suc)
  have up2: "[Suc n ..< g] = Suc n # [Suc (Suc n) ..< g]"
    using lt by (simp add: upt_conv_Cons)
  show ?case
    unfolding unfold IH up1 up2 using nm by (simp add: alloc_def)
qed

lemma CreateComponents_contiguous:
  assumes "0 < g"
    and "\<forall>i<g. \<exists>nm. declared m key i = Some nm \<and> creatable env m nm"
    and "declared m key g = None"
  shows "CreateComponents env m key d ec mand w =
     ([next_addr w ..< next_addr w + g], ec,
      alloc_all (map (\<lambda>i. created env m (the (declared m key i))) [0 ..< g]) w)"
proof -
  obtain nm where nm: "declared m key 0 = Some nm" "creatable env m nm"
    using assms(1,2) by auto
  have rest: "\<forall>i. 0 < i \<and> i < g \<longrightarrow> (\<exists>nm. declared m key i = Some nm \<and> creatable env m nm)"
    using assms(2) by auto
  have loop: "CreateComponentsLoop env m key True nm 0
       ([next_addr w], ec, alloc (created env m nm) w) =
     ([next_addr w] @ [next_addr (alloc (created env m nm) w) ..<
          next_addr (alloc (created env m nm) w) + (g - Suc 0)], ec,
      alloc_all (map (\<lambda>i. created env m (the (declared m key i))) [Suc 0 ..< g])
        (alloc (created env m nm) w))"
    by (rule CreateComponentsLoop_contiguous [OF rest assms(3) assms(1)]) simp
  have "g = Suc (g - Suc 0)" using assms(1) by simp
  then have "[next_addr w ..< next_addr w + g] = [next_addr w ..< next_addr w + Suc (g - Suc 0)]"
    by simp
  then have up1: "[next_addr w ..< next_addr w + g]
      = next_addr w # [Suc (next_addr w) ..< Suc (next_addr w) + (g - Suc 0)]"
    by (simp only: upt_add_Suc)
  have up2: "[0 ..< g] = 0 # [Suc 0 ..< g]"
    using assms(1) by (simp add: upt_conv_Cons)
  have "CreateComponents env m key d ec mand w =
      CreateComponentsLoop env m key True nm 0
       ([next_addr w], ec, alloc (created env m nm) w)"
    using nm
    by (simp add: CreateComponents_def ReadParameter_declared CreateComponent_creatable
        CreateElementAt_def)
  then show ?thesis
    unfolding loop up1 up2 using nm by (simp add: alloc_def)
qed

lemma creation_failure_CreationError [simp]: "creation_failure key (CreationError key nr excp)"
  by (simp add: creation_failure_def CreationError_def while_creating_def)

lemma creation_failure_not_specified [simp]:
  "creation_failure key (LogError (not_specified key))"
  by (simp add: creation_failure_def)

lemma CreateComponents_absent_mandatory:
  "declared m key 0 = None \<Longrightarrow>
   CreateComponents env m key [] ec True w = ([], 1, emit (LogError (not_specified key)) w)"
  by (simp add: CreateComponents_def ReadParameter_declared not_specified_def)

lemma CreateComponents_absent_optional:
  "declared m key 0 = None \<Longrightarrow> CreateComponents env m key [] ec False w = ([], 0, w)"
  by (simp add: CreateComponents_def ReadParameter_declared)

lemma CreateComponent_cases:
  "(\<exists>obj. CreateComponent env m name w = (Inr (next_addr w), alloc obj w))
   \<or> (\<exists>excp. CreateComponent env m name w = (Inl excp, w))"
  by (cases "creatable env m name")
    (auto simp: CreateComponent_creatable CreateComponent_not_creatable)

lemma trace_alloc [simp]: "trace (alloc obj w) = trace w"
  by (simp add: alloc_def)

lemma trace_emit [simp]: "trace (emit ev w) = trace w @ [ev]"
  by (simp add: emit_def)

lemma CreateComponentsLoop_errorcode:
  "CreateComponentsLoop env m key found name n (c, ec, w) = (c', ec', w') \<Longrightarrow>
   \<exists>evs. trace w' = trace w @ evs
     \<and> (ec' = ec \<and> evs = [] \<or> ec' = 1 \<and> (\<exists>ev \<in> set evs. creation_failure key ev))"
proof (induction env m key found name n "(c, ec, w)" arbitrary: c ec w
    rule: CreateComponentsLoop.induct)
  case (1 env m key found componentName componentnr objectContainer errorcode w)
  show ?case
  proof (cases found)
    case False
    then show ?thesis using "1.prems" by (simp add: CreateComponentsLoop.simps)
  next
    case True
    obtain f nm where rp:
      "ReadParameter (StringParameters (m_Configuration m)) componentName key (componentnr + 1)
        = (f, nm)"
      by (cases "ReadParameter (StringParameters (m_Configuration m)) componentName key
        (componentnr + 1)")
    show ?thesis
    proof (cases f)
      case False
      then show ?thesis
        using "1.prems" True rp
        by (subst (asm) CreateComponentsLoop.simps) (simp add: CreateComponentsLoop_stop)
    next
      case f: True
      from CreateComponent_cases [of env m nm w] show ?thesis
      proof (elim disjE exE)
        fix obj
        assume cc: "CreateComponent env m nm w = (Inr (next_addr w), alloc obj w)"
        have "CreateComponentsLoop env m key True nm (componentnr + 1)
            (CreateElementAt objectContainer (componentnr + 1) (next_addr w), errorcode,
             alloc obj w) = (c', ec', w')"
          using "1.prems" True rp f cc by (subst (asm) CreateComponentsLoop.simps) simp
        then have "\<exists>evs. trace w' = trace (alloc obj w) @ evs
          \<and> (ec' = errorcode \<and> evs = [] \<or> ec' = 1 \<and> (\<exists>ev \<in> set evs. creation_failure key ev))"
          using "1.hyps"(1) [OF True rp [symmetric] _ cc [symmetric]] f by simp
        then show ?thesis by simp
      next
        fix excp
        assume cc: "CreateComponent env m nm w = (Inl excp, w)"
        have "(objectContainer, 1, emit (CreationError key (componentnr + 1) excp) w)
            = (c', ec', w')"
          using "1.prems" True rp f cc by (subst (asm) CreateComponentsLoop.simps) simp
        then have "trace w' = trace w @ [CreationError key (componentnr + 1) excp]" "ec' = 1"
          by auto
        then show ?thesis by simp
      qed
    qed
  qed
qed

lemma CreateComponents_errorcode:
  assumes "CreateComponents env m key d ec mand w = (c', ec', w')"
  shows "\<exists>evs. trace w' = trace w @ evs
     \<and> ((ec' = ec \<or> ec' = 0 \<and> \<not> mand \<and> d = [] \<and> declared m key 0 = None) \<and> evs = []
        \<or> ec' = 1 \<and> (\<exists>ev \<in> set evs. creation_failure key ev))"
proof (cases "declared m key 0 = None \<and> d = []")
  case True
  show ?thesis
  proof (cases mand)
    case mand: True
    have "([], 1, emit (LogError (not_specified key)) w) = (c', ec', w')"
      using assms True mand by (simp add: CreateComponents_absent_mandatory)
    then have "trace w' = trace w @ [LogError (not_specified key)]" "ec' = 1" by auto
    then show ?thesis by simp
  next
    case opt: False
    have "([], 0, w) = (c', ec', w')"
      using assms True opt by (simp add: CreateComponents_absent_optional)
    then show ?thesis using True opt by auto
  qed
next
  case False
  define nm where "nm = snd (ReadParameter (StringParameters (m_Configuration m)) d key 0)"
  define f where "f = fst (ReadParameter (StringParameters (m_Configuration m)) d key 0)"
  have rp: "ReadParameter (StringParameters (m_Configuration m)) d key 0 = (f, nm)"
    by (simp add: f_def nm_def)
  have nf: "\<not> (\<not> f \<and> d = [])"
    using False by (auto simp: f_def ReadParameter_declared split: option.splits)
  from CreateComponent_cases [of env m nm w] show ?thesis
  proof (elim disjE exE)
    fix obj
    assume cc: "CreateComponent env m nm w = (Inr (next_addr w), alloc obj w)"
    have "CreateComponentsLoop env m key f nm 0
        (CreateElementAt [] 0 (next_addr w), ec, alloc obj w) = (c', ec', w')"
      using assms rp nf cc by (simp add: CreateComponents_def)
    then have "\<exists>evs. trace w' = trace (alloc obj w) @ evs
      \<and> (ec' = ec \<and> evs = [] \<or> ec' = 1 \<and> (\<exists>ev \<in> set evs. creation_failure key ev))"
      by (rule CreateComponentsLoop_errorcode)
    then show ?thesis by auto
  next
    fix excp
    assume cc: "CreateComponent env m nm w = (Inl excp, w)"
    have "([], 1, emit (CreationError key 0 excp) w) = (c', ec', w')"
      using assms rp nf cc by (simp add: CreateComponents_def)
    then have "trace w' = trace w @ [CreationError key 0 excp]" "ec' = 1"
      by auto
    then show ?thesis by simp
  qed
qed

lemma CreateComponent_cong:
  "m_DBIndex m' = m_DBIndex m \<Longrightarrow> CreateComponent env m' name w = CreateComponent env m name w"
  by (simp add: CreateComponent_def)

lemma CreateComponentsLoop_after_gap:
  assumes "declared m key g = None" and "declared m' key g = None" and "n < g"
    and "\<forall>i. n < i \<and> i < g \<longrightarrow> declared m' key i = declared m key i"
    and "m_DBIndex m' = m_DBIndex m"
  shows "CreateComponentsLoop env m' key found name n (c, ec, w) =
         CreateComponentsLoop env m key found name n (c, ec, w)"
  using assms
proof (induction k \<equiv> "g - Suc n" arbitrary: n c w name found)
  case 0
  then have g: "g = Suc n" by simp
  show ?case
  proof (cases found)
    case False
    then show ?thesis by (simp add: CreateComponentsLoop_stop)
  next
    case True
    have l: "CreateComponentsLoop env m key True name n (c, ec, w) = (c, ec, w)"
      using "0.prems"(1) g
      by (subst CreateComponentsLoop.simps)
        (simp add: ReadParameter_declared CreateComponentsLoop_stop)
    have r: "CreateComponentsLoop env m' key True name n (c, ec, w) = (c, ec, w)"
      using "0.prems"(2) g
      by (subst CreateComponentsLoop.simps)
        (simp add: ReadParameter_declared CreateComponentsLoop_stop)
    show ?thesis using True l r by simp
  qed
next
  case (Suc k)
  then have lt: "Suc n < g" by simp
  have same: "declared m' key (Suc n) = declared m key (Suc n)"
    using Suc.prems(4) lt by simp
  have k: "k = g - Suc (Suc n)" using Suc.hyps(2) by simp
  have rest: "\<forall>i. Suc n < i \<and> i < g \<longrightarrow> declared m' key i = declared m key i"
    using Suc.prems(4) by auto
  note IH = Suc.hyps(1) [OF k Suc.prems(1) Suc.prems(2) lt rest Suc.prems(5)]
  show ?case
  proof (cases found)
    case False
    then show ?thesis by (simp add: CreateComponentsLoop_stop)
  next
    case True
    show ?thesis
    proof (cases "declared m key (Suc n)")
      case None
      have l: "CreateComponentsLoop env m key True name n (c, ec, w) = (c, ec, w)"
        using None
        by (subst CreateComponentsLoop.simps)
          (simp add: ReadParameter_declared CreateComponentsLoop_stop)
      have r: "CreateComponentsLoop env m' key True name n (c, ec, w) = (c, ec, w)"
        using None same
        by (subst CreateComponentsLoop.simps)
          (simp add: ReadParameter_declared CreateComponentsLoop_stop)
      show ?thesis using True l r by simp
    next
      case (Some nm)
      have cc: "CreateComponent env m' nm w = CreateComponent env m nm w"
        using Suc.prems(5) by (rule CreateComponent_cong)
      from CreateComponent_cases [of env m nm w] show ?thesis
      proof (elim disjE exE)
        fix obj
        assume ok: "CreateComponent env m nm w = (Inr (next_addr w), alloc obj w)"
        have l: "CreateComponentsLoop env m key True name n (c, ec, w) =
            CreateComponentsLoop env m key True nm (Suc n)
              (CreateElementAt c (Suc n) (next_addr w), ec, alloc obj w)"
          using Some ok
          by (subst CreateComponentsLoop.simps) (simp add: ReadParameter_declared)
        have r: "CreateComponentsLoop env m' key True name n (c, ec, w) =
            CreateComponentsLoop env m' key True nm (Suc n)
              (CreateElementAt c (Suc n) (next_addr w), ec, alloc obj w)"
          using Some same ok cc
          by (subst CreateComponentsLoop.simps) (simp add: ReadParameter_declared)
        show ?thesis using True l r IH by simp
      next
        fix excp
        assume bad: "CreateComponent env m nm w = (Inl excp, w)"
        have l: "CreateComponentsLoop env m key True name n (c, ec, w) =
            (c, 1, emit (CreationError key (Suc n) excp) w)"
          using Some bad
          by (subst CreateComponentsLoop.simps) (simp add: ReadParameter_declared)
        have r: "CreateComponentsLoop env m' key True name n (c, ec, w) =
            (c, 1, emit (CreationError key (Suc n) excp) w)"
          using Some same bad cc
          by (subst CreateComponentsLoop.simps) (simp add: ReadParameter_declared)
        show ?thesis using True l r by simp
      qed
    qed
  qed
qed

lemma CreateComponents_after_gap:
  assumes "declared m key g = None" and "declared m' key g = None"
    and "\<forall>i<g. declared m' key i = declared m key i"
    and "m_DBIndex m' = m_DBIndex m"
  shows "CreateComponents env m' key d ec mand w = CreateComponents env m key d ec mand w"
proof (cases g)
  case 0
  then show ?thesis
    using assms(1,2) CreateComponent_cong [OF assms(4)]
    by (simp add: CreateComponents_def ReadParameter_declared CreateComponentsLoop_stop
        split: prod.splits sum.splits)
next
  case (Suc j)
  then have pos: "0 < g" by simp
  have d0: "declared m' key 0 = declared m key 0" using assms(3) pos by simp
  have rest: "\<forall>i. 0 < i \<and> i < g \<longrightarrow> declared m' key i = declared m key i"
    using assms(3) by auto
  note loop = CreateComponentsLoop_after_gap [OF assms(1) assms(2) pos rest assms(4)]
  show ?thesis
    using d0 CreateComponent_cong [OF assms(4)] loop
    by (simp add: CreateComponents_def ReadParameter_declared split: prod.splits sum.splits option.splits)
qed

lemma demo_declared:
  "declared demo_main ''Transform'' 0 = Some ''BSplineTransform''"
  "declared demo_main ''Transform'' 1 = Some ''AffineTransform''"
  "declared demo_main ''Transform'' 2 = None"
  "declared demo_main ''Transform'' 3 = Some ''EulerTransform''"
  by (simp_all add: declared_def demo_main_def ElastixMain_New_def demo_configuration_def)

lemma short_declared:
  "declared short_main ''Transform'' 0 = Some ''BSplineTransform''"
  "declared short_main ''Transform'' 1 = Some ''AffineTransform''"
  "declared short_main ''Transform'' 2 = None"
  by (simp_all add: declared_def short_main_def ElastixMain_New_def demo_configuration_def)

lemma demo_creatable:
  "creatable demo_environment demo_main ''BSplineTransform''"
  "creatable demo_environment demo_main ''AffineTransform''"
  by (simp_all add: creatable_def demo_environment_def demo_main_def ElastixMain_New_def
      demo_database_def)

lemma heap_emit [simp]: "heap (emit ev w) = heap w"
  by (simp add: emit_def)

lemma next_addr_emit [simp]: "next_addr (emit ev w) = next_addr w"
  by (simp add: emit_def)

lemma InitFixedImageDimension_result:
  assumes "InitFixedImageDimension env (m, w) = (r, m', w')"
  shows "(r = None \<and> m_FixedImageDimension m' \<noteq> 0 \<or> r = Some 1)
    \<and> heap w' = heap w \<and> next_addr w' = next_addr w \<and> m_Elastix m' = m_Elastix m
    \<and> m_FixedImagePixelType m' = m_FixedImagePixelType m
    \<and> m_MovingImagePixelType m' = m_MovingImagePixelType m
    \<and> m_MovingImageDimension m' = m_MovingImageDimension m
    \<and> m_Configuration m' = m_Configuration m"
  using assms
  by (auto simp: InitFixedImageDimension_def Let_def
      split: if_splits sum.splits prod.splits option.splits)

lemma InitMovingImageDimension_result:
  assumes "InitMovingImageDimension env (m, w) = (r, m', w')"
  shows "(r = None \<and> m_MovingImageDimension m' \<noteq> 0 \<or> r = Some 1)
    \<and> heap w' = heap w \<and> next_addr w' = next_addr w \<and> m_Elastix m' = m_Elastix m
    \<and> m_FixedImagePixelType m' = m_FixedImagePixelType m
    \<and> m_MovingImagePixelType m' = m_MovingImagePixelType m
    \<and> m_FixedImageDimension m' = m_FixedImageDimension m
    \<and> m_Configuration m' = m_Configuration m"
  using assms
  by (auto simp: InitMovingImageDimension_def Let_def
      split: if_splits sum.splits prod.splits option.splits)

lemma InitDBIndex_result:
  assumes "InitDBIndex env (m, w) = (rc, m', w')"
  shows "(rc = 1 \<or> rc = 0 \<and> m_FixedImageDimension m' \<noteq> 0 \<and> m_MovingImageDimension m' \<noteq> 0
            \<and> m_DBIndex m' \<noteq> 0
            \<and> m_DBIndex m' = GetIndex env (m_FixedImagePixelType m') (m_FixedImageDimension m')
                 (m_MovingImagePixelType m') (m_MovingImageDimension m'))
    \<and> heap w' = heap w \<and> next_addr w' = next_addr w \<and> m_Elastix m' = m_Elastix m"
proof (cases "IsInitialized (m_Configuration m)")
  case False
  then show ?thesis using assms by (auto simp: InitDBIndex_def)
next
  case True
  define m1 where "m1 = (if m_FixedImagePixelType m = []
                   then m\<lparr>m_FixedImagePixelType :=
                            snd (ReadParameter (StringParameters (m_Configuration m))
                                   ''float'' ''FixedInternalImagePixelType'' 0)\<rparr>
                   else m)"
  obtain r2 m2 w2 where s2: "InitFixedImageDimension env (m1, w) = (r2, m2, w2)"
    by (cases "InitFixedImageDimension env (m1, w)")
  note f2 = InitFixedImageDimension_result [OF s2]
  have e1: "m_Elastix m1 = m_Elastix m" by (simp add: m1_def)
  show ?thesis
  proof (cases r2)
    case (Some rc2)
    then have "rc = 1" "m' = m2" "w' = w2"
      using assms True s2 f2 by (auto simp: InitDBIndex_def m1_def [symmetric] Let_def)
    then show ?thesis using f2 e1 by simp
  next
    case None
    define m3 where "m3 = (if m_MovingImagePixelType m2 = []
                   then m2\<lparr>m_MovingImagePixelType :=
                            snd (ReadParameter (StringParameters (m_Configuration m2))
                                   ''float'' ''MovingInternalImagePixelType'' 0)\<rparr>
                   else m2)"
    obtain r4 m4 w4 where s4: "InitMovingImageDimension env (m3, w2) = (r4, m4, w4)"
      by (cases "InitMovingImageDimension env (m3, w2)")
    note f4 = InitMovingImageDimension_result [OF s4]
    have e3: "m_Elastix m3 = m_Elastix m2" "m_FixedImageDimension m3 = m_FixedImageDimension m2"
      by (simp_all add: m3_def)
    show ?thesis
    proof (cases r4)
      case (Some rc4)
      then have "rc = 1" "m' = m4" "w' = w4"
        using assms True s2 None s4 f4
        by (auto simp: InitDBIndex_def m1_def [symmetric] m3_def [symmetric] Let_def)
      then show ?thesis using f2 f4 e1 e3 by simp
    next
      case n4: None
      define m5 where "m5 = m4\<lparr>m_DBIndex :=
                      GetIndex env (m_FixedImagePixelType m4) (m_FixedImageDimension m4)
                        (m_MovingImagePixelType m4) (m_MovingImageDimension m4)\<rparr>"
      have fin: "(rc, m', w') =
          (if m_DBIndex m5 = 0
           then (1, m5, emit (LogError ''ERROR: Something went wrong in the ComponentDatabase'') w4)
           else (0, m5, w4))"
        using assms True s2 None s4 n4
        by (auto simp: InitDBIndex_def m1_def [symmetric] m3_def [symmetric] m5_def Let_def)
      have p5: "m_FixedImageDimension m5 \<noteq> 0" "m_MovingImageDimension m5 \<noteq> 0"
        "m_Elastix m5 = m_Elastix m"
        "m_DBIndex m5 = GetIndex env (m_FixedImagePixelType m5) (m_FixedImageDimension m5)
                 (m_MovingImagePixelType m5) (m_MovingImageDimension m5)"
        using f2 f4 None n4 e1 e3 by (simp_all add: m5_def)
      show ?thesis
      proof (cases "m_DBIndex m5 = 0")
        case True
        then have "rc = 1" "m' = m5" "heap w' = heap w4" "next_addr w' = next_addr w4"
          using fin by auto
        then show ?thesis using p5 f2 f4 by simp
      next
        case False
        then have "rc = 0" "m' = m5" "w' = w4" using fin by auto
        then show ?thesis using p5 f2 f4 False by simp
      qed
    qed
  qed
qed

lemma CreateComponents_trace:
  assumes "CreateComponents env m key d ec mand w = (c', ec', w')"
  shows "\<exists>evs. trace w' = trace w @ evs"
  using CreateComponents_errorcode [OF assms] by blast

lemma later_step:
  assumes cc: "CreateComponents env m key d ec True w1 = (c', ec', w')"
    and tr: "trace w1 = trace w0 @ evs"
    and inv: "ec \<noteq> 0 \<longrightarrow> (\<exists>k\<in>K. \<exists>ev\<in>set evs. creation_failure k ev)"
  shows "\<exists>evs'. trace w' = trace w0 @ evs'
     \<and> (ec' \<noteq> 0 \<longrightarrow> (\<exists>k\<in>insert key K. \<exists>ev\<in>set evs'. creation_failure k ev))"
proof -
  obtain evs1 where e1: "trace w' = trace w1 @ evs1"
    and alt: "(ec' = ec \<or> ec' = 0 \<and> \<not> True \<and> d = [] \<and> declared m key 0 = None) \<and> evs1 = []
        \<or> ec' = 1 \<and> (\<exists>ev \<in> set evs1. creation_failure key ev)"
    using CreateComponents_errorcode [OF cc] by blast
  have t: "trace w' = trace w0 @ (evs @ evs1)" using e1 tr by simp
  have "ec' \<noteq> 0 \<longrightarrow> (\<exists>k\<in>insert key K. \<exists>ev\<in>set (evs @ evs1). creation_failure k ev)"
    using alt inv by auto
  then show ?thesis using t by blast
qed

lemma Populate_later_failure:
  assumes absent: "declared m ''ImageSampler'' 0 = None"
    and bad: "fst (snd (PopulateComponentContainers env m (e, ec, w))) \<noteq> 0"
  shows "\<exists>key\<in>set later_roles.
           \<exists>ev\<in>set (new_events w (snd (snd (PopulateComponentContainers env m (e, ec, w))))).
             creation_failure key ev"
proof -
  obtain c1 ec1 w1 where s1: "CreateComponents env m ''Registration''
      ''MultiResolutionRegistration'' ec True w = (c1, ec1, w1)"
    by (cases "CreateComponents env m ''Registration'' ''MultiResolutionRegistration'' ec True w")
  obtain c2 ec2 w2 where s2: "CreateComponents env m ''FixedImagePyramid''
      ''FixedSmoothingImagePyramid'' ec1 True w1 = (c2, ec2, w2)"
    by (cases "CreateComponents env m ''FixedImagePyramid'' ''FixedSmoothingImagePyramid'' ec1
      True w1")
  obtain c3 ec3 w3 where s3: "CreateComponents env m ''MovingImagePyramid''
      ''MovingSmoothingImagePyramid'' ec2 True w2 = (c3, ec3, w3)"
    by (cases "CreateComponents env m ''MovingImagePyramid'' ''MovingSmoothingImagePyramid'' ec2
      True w2")
  have s4: "CreateComponents env m ''ImageSampler'' [] ec3 False w3 = ([], 0, w3)"
    using absent by (rule CreateComponents_absent_optional)
  obtain c5 ec5 w5 where s5: "CreateComponents env m ''Interpolator''
      ''BSplineInterpolator'' 0 True w3 = (c5, ec5, w5)"
    by (cases "CreateComponents env m ''Interpolator'' ''BSplineInterpolator'' 0 True w3")
  obtain c6 ec6 w6 where s6: "CreateComponents env m ''Metric'' [] ec5 True w5 = (c6, ec6, w6)"
    by (cases "CreateComponents env m ''Metric'' [] ec5 True w5")
  obtain c7 ec7 w7 where s7: "CreateComponents env m ''Optimizer'' [] ec6 True w6 = (c7, ec7, w7)"
    by (cases "CreateComponents env m ''Optimizer'' [] ec6 True w6")
  obtain c8 ec8 w8 where s8: "CreateComponents env m ''ResampleInterpolator''
      ''FinalBSplineInterpolator'' ec7 True w7 = (c8, ec8, w8)"
    by (cases "CreateComponents env m ''ResampleInterpolator'' ''FinalBSplineInterpolator'' ec7
      True w7")
  obtain c9 ec9 w9 where s9: "CreateComponents env m ''Resampler''
      ''DefaultResampler'' ec8 True w8 = (c9, ec9, w9)"
    by (cases "CreateComponents env m ''Resampler'' ''DefaultResampler'' ec8 True w8")
  obtain c10 ec10 w10 where s10: "CreateComponents env m ''Transform'' [] ec9 True w9
      = (c10, ec10, w10)"
    by (cases "CreateComponents env m ''Transform'' [] ec9 True w9")
  have P: "PopulateComponentContainers env m (e, ec, w) =
      (e\<lparr>RegistrationContainer := c1, FixedImagePyramidContainer := c2,
         MovingImagePyramidContainer := c3, ImageSamplerContainer := [],
         InterpolatorContainer := c5, MetricContainer := c6, OptimizerContainer := c7,
         ResampleInterpolatorContainer := c8, ResamplerContainer := c9,
         TransformContainer := c10\<rparr>, ec10, w10)"
    by (simp add: PopulateComponentContainers_def s1 s2 s3 s4 s5 s6 s7 s8 s9 s10)
  obtain a1 where t1: "trace w1 = trace w @ a1" using CreateComponents_trace [OF s1] by blast
  obtain a2 where t2: "trace w2 = trace w1 @ a2" using CreateComponents_trace [OF s2] by blast
  obtain a3 where t3: "trace w3 = trace w2 @ a3" using CreateComponents_trace [OF s3] by blast
  have t3': "trace w3 = trace w @ (a1 @ a2 @ a3)" using t1 t2 t3 by simp
  have i3: "(0::int) \<noteq> 0 \<longrightarrow> (\<exists>k\<in>{}. \<exists>ev\<in>set (a1 @ a2 @ a3). creation_failure k ev)" by simp
  from later_step [OF s5 t3' i3]
  obtain b5 where i5: "trace w5 = trace w @ b5
    \<and> (ec5 \<noteq> 0 \<longrightarrow> (\<exists>k\<in>{''Interpolator''}. \<exists>ev\<in>set b5. creation_failure k ev))" ..
  from later_step [OF s6 i5 [THEN conjunct1] i5 [THEN conjunct2]]
  obtain b6 where i6: "trace w6 = trace w @ b6
    \<and> (ec6 \<noteq> 0 \<longrightarrow> (\<exists>k\<in>{''Metric'', ''Interpolator''}. \<exists>ev\<in>set b6. creation_failure k ev))" ..
  from later_step [OF s7 i6 [THEN conjunct1] i6 [THEN conjunct2]]
  obtain b7 where i7: "trace w7 = trace w @ b7
    \<and> (ec7 \<noteq> 0 \<longrightarrow> (\<exists>k\<in>{''Optimizer'', ''Metric'', ''Interpolator''}.
        \<exists>ev\<in>set b7. creation_failure k ev))" ..
  from later_step [OF s8 i7 [THEN conjunct1] i7 [THEN conjunct2]]
  obtain b8 where i8: "trace w8 = trace w @ b8
    \<and> (ec8 \<noteq> 0 \<longrightarrow> (\<exists>k\<in>{''ResampleInterpolator'', ''Optimizer'', ''Metric'', ''Interpolator''}.
        \<exists>ev\<in>set b8. creation_failure k ev))" ..
  from later_step [OF s9 i8 [THEN conjunct1] i8 [THEN conjunct2]]
  obtain b9 where i9: "trace w9 = trace w @ b9
    \<and> (ec9 \<noteq> 0 \<longrightarrow> (\<exists>k\<in>{''Resampler'', ''ResampleInterpolator'', ''Optimizer'', ''Metric'',
        ''Interpolator''}. \<exists>ev\<in>set b9. creation_failure k ev))" ..
  from later_step [OF s10 i9 [THEN conjunct1] i9 [THEN conjunct2]]
  obtain b10 where i10: "trace w10 = trace w @ b10
    \<and> (ec10 \<noteq> 0 \<longrightarrow> (\<exists>k\<in>{''Transform'', ''Resampler'', ''ResampleInterpolator'', ''Optimizer'',
        ''Metric'', ''Interpolator''}. \<exists>ev\<in>set b10. creation_failure k ev))" ..
  have n: "new_events w w10 = b10" by (simp add: new_events_def i10 [THEN conjunct1])
  have "ec10 \<noteq> 0" using bad by (simp add: P)
  then obtain k ev where "k \<in> {''Transform'', ''Resampler'', ''ResampleInterpolator'',
      ''Optimizer'', ''Metric'', ''Interpolator''}" "ev \<in> set b10" "creation_failure k ev"
    using i10 [THEN conjunct2] by (elim impE bexE) simp_all
  then have "k \<in> set later_roles" "ev \<in> set (new_events w w10)"
    by (auto simp: later_roles_def n)
  then show ?thesis using \<open>creation_failure k ev\<close> by (auto simp: P)
qed

lemma ConfigureLoop_Elastix:
  "Elastix (heap (ConfigureLoop This r c i w) a) =
     (if a \<in> set (drop i c) then This else Elastix (heap w a))"
proof (induction This r c i w rule: ConfigureLoop.induct)
  case (1 This r c i w)
  show ?case
  proof (cases "i < length c")
    case True
    have d: "drop i c = c ! i # drop (Suc i) c" using True by (simp add: Cons_nth_drop_Suc)
    show ?thesis
      using True "1" by (subst ConfigureLoop.simps) (simp add: d)
  next
    case False
    then show ?thesis by (subst ConfigureLoop.simps) simp
  qed
qed

lemma ConfigureLoop_trace [simp]: "trace (ConfigureLoop This r c i w) = trace w"
proof (induction This r c i w rule: ConfigureLoop.induct)
  case (1 This r c i w)
  show ?case
  proof (cases "i < length c")
    case True
    then show ?thesis using "1" by (subst ConfigureLoop.simps) simp
  next
    case False
    then show ?thesis by (subst ConfigureLoop.simps) simp
  qed
qed

lemma ConfigureLoop_next_addr [simp]: "next_addr (ConfigureLoop This r c i w) = next_addr w"
proof (induction This r c i w rule: ConfigureLoop.induct)
  case (1 This r c i w)
  show ?case
  proof (cases "i < length c")
    case True
    then show ?thesis using "1" by (subst ConfigureLoop.simps) simp
  next
    case False
    then show ?thesis by (subst ConfigureLoop.simps) simp
  qed
qed

lemma GetContainer_labelled [simp]: "GetContainer (labelled e) r = GetContainer e r"
  by (cases r) (simp_all add: labelled_def)

lemma ConfigureComponents_fst [simp]: "fst (ConfigureComponents This (e, w)) = labelled e"
  by (simp add: ConfigureComponents_def labelled_def Let_def)

lemma ConfigureComponents_trace [simp]:
  "trace (snd (ConfigureComponents This (e, w))) = trace w"
  by (simp add: ConfigureComponents_def Let_def)

lemma ConfigureComponents_next_addr [simp]:
  "next_addr (snd (ConfigureComponents This (e, w))) = next_addr w"
  by (simp add: ConfigureComponents_def Let_def)

lemma ConfigureComponents_Elastix:
  "Elastix (heap (snd (ConfigureComponents This (e, w))) a) =
     (if \<exists>r. a \<in> set (GetContainer e r) then This else Elastix (heap w a))"
proof -
  have ex: "(\<exists>r. a \<in> set (GetContainer e r)) \<longleftrightarrow>
      a \<in> set (RegistrationContainer e) \<or> a \<in> set (TransformContainer e)
      \<or> a \<in> set (ImageSamplerContainer e) \<or> a \<in> set (MetricContainer e)
      \<or> a \<in> set (InterpolatorContainer e) \<or> a \<in> set (OptimizerContainer e)
      \<or> a \<in> set (FixedImagePyramidContainer e) \<or> a \<in> set (MovingImagePyramidContainer e)
      \<or> a \<in> set (ResampleInterpolatorContainer e) \<or> a \<in> set (ResamplerContainer e)"
    (is "?L \<longleftrightarrow> ?R")
  proof
    assume ?L
    then obtain r where "a \<in> set (GetContainer e r)" by blast
    then show ?R by (cases r) simp_all
  next
    assume ?R
    then show ?L
      using GetContainer.simps by metis
  qed
  show ?thesis
    unfolding ex
    by (simp add: ConfigureComponents_def Let_def ConfigureLoop_Elastix)
qed

lemma ConfigureComponents_cleared:
  "a \<in> set (GetContainer e r) \<Longrightarrow>
   Elastix (heap (snd (ConfigureComponents None (e, w))) a) = None"
  by (auto simp: ConfigureComponents_Elastix)

lemma fold_keep: "fold (\<lambda>c d. d) xs a = a"
  by (induction xs) simp_all

lemma BeforeAll_fst:
  "fst (BeforeAll env e w) =
     (HandlerResult env OnElastix Component_BeforeAllBase
       OR fold (\<lambda>c d. d OR HandlerResult env c Component_BeforeAllBase) (dispatch_order e) 0)
       OR fold (\<lambda>c d. d OR HandlerResult env c Component_BeforeAll) (dispatch_order e) 0"
  by (simp add: BeforeAll_def Let_def case_prod_beta CallInEachComponentInt_fst)

lemma BeforeAll_fst_zero:
  "(\<And>c func. HandlerResult env c func = 0) \<Longrightarrow> fst (BeforeAll env e w) = 0"
  by (simp add: BeforeAll_fst fold_keep)

lemma CreateComponents_default:
  assumes "declared m key 0 = None" and "d \<noteq> []" and "creatable env m d"
  shows "CreateComponents env m key d ec mand w =
     ([next_addr w], ec, alloc (created env m d) w)"
  using assms
  by (simp add: CreateComponents_def ReadParameter_declared CreateComponent_creatable
      CreateElementAt_def CreateComponentsLoop_stop)

lemma CreateComponents_first_fails:
  assumes "declared m key 0 = Some nm" and "\<not> creatable env m nm"
  shows "CreateComponents env m key d ec mand w =
     ([], 1,
      emit (CreationError key 0
              (ExceptionObject (''The following component could not be created: '' @ nm))) w)"
  using assms
  by (simp add: CreateComponents_def ReadParameter_declared CreateComponent_not_creatable)

lemma ElastixTemplate_Run_no_registration:
  assumes "\<And>c func. HandlerResult env c func = 0" and "RegistrationContainer e = []"
  shows "fst (ElastixTemplate_Run env This (e, w)) = Inl NullPointerDereference"
proof -
  obtain e1 w1 where c: "ConfigureComponents (Some This) (e, w) = (e1, w1)"
    by (cases "ConfigureComponents (Some This) (e, w)")
  have e1: "e1 = labelled e" using ConfigureComponents_fst [of "Some This" e w] c by simp
  obtain dummy w2 where b: "BeforeAll env e1 w1 = (dummy, w2)"
    by (cases "BeforeAll env e1 w1")
  have z: "dummy = 0" using BeforeAll_fst_zero [OF assms(1), of e1 w1] b by simp
  have r: "GetContainer e1 Registration = []" using assms(2) e1 by (simp add: labelled_def)
  have g: "GetElxBase e1 Registration 0 = None" using r by (rule GetElxBase_empty)
  show ?thesis
    unfolding ElastixTemplate_Run_def by (simp add: c b z g)
qed

lemma RunElastix_fault:
  assumes "fst (ElastixTemplate_Run env This
      (e\<lparr>FixedImageContainer := m_FixedImageContainer m,
          MovingImageContainer := m_MovingImageContainer m,
          FixedMaskContainer := m_FixedMaskContainer m,
          MovingMaskContainer := m_MovingMaskContainer m,
          ResultImageContainer := m_ResultImageContainer m,
          InitialTransform := m_InitialTransform m,
          OriginalFixedImageDirectionFlat := m_OriginalFixedImageDirection m\<rparr>, w))
     = Inl NullPointerDereference"
  shows "fst (RunElastix env This m (e, w)) = Inl NullPointerDereference"
proof -
  obtain r e' w' where t: "ElastixTemplate_Run env This
      (e\<lparr>FixedImageContainer := m_FixedImageContainer m,
          MovingImageContainer := m_MovingImageContainer m,
          FixedMaskContainer := m_FixedMaskContainer m,
          MovingMaskContainer := m_MovingMaskContainer m,
          ResultImageContainer := m_ResultImageContainer m,
          InitialTransform := m_InitialTransform m,
          OriginalFixedImageDirectionFlat := m_OriginalFixedImageDirection m\<rparr>, w)
     = (r, e', w')"
    by (cases "ElastixTemplate_Run env This
      (e\<lparr>FixedImageContainer := m_FixedImageContainer m,
          MovingImageContainer := m_MovingImageContainer m,
          FixedMaskContainer := m_FixedMaskContainer m,
          MovingMaskContainer := m_MovingMaskContainer m,
          ResultImageContainer := m_ResultImageContainer m,
          InitialTransform := m_InitialTransform m,
          OriginalFixedImageDirectionFlat := m_OriginalFixedImageDirection m\<rparr>, w)")
  have r: "r = Inl NullPointerDereference" using assms t by simp
  show ?thesis by (simp add: RunElastix_def Let_def t r)
qed

lemma bogus_init:
  "InitDBIndex demo_environment (bogus_main, demo_world) = (0, bogus_ready, demo_world)"
  by (simp add: InitDBIndex_def InitFixedImageDimension_def InitMovingImageDimension_def
      GetImageInformationFromFile_def bogus_main_def bogus_ready_def
      ElastixMain_New_def demo_configuration_def demo_environment_def ReadParameter_def
      GetCommandLineArgument_def Let_def)

lemma bogus_elastix:
  "CreateComponent demo_environment bogus_ready ''Elastix'' demo_world
     = (Inr 11, alloc elastix_object demo_world)"
  by (simp add: CreateComponent_def bogus_ready_def demo_environment_def demo_database_def
      elastix_object_def alloc_def demo_world_def Let_def)

lemma bogus_declared:
  "declared (bogus_ready\<lparr>m_Elastix := x\<rparr>) ''Registration'' 0 = Some ''NoSuchRegistration''"
  "declared (bogus_ready\<lparr>m_Elastix := x\<rparr>) ''FixedImagePyramid'' 0 = None"
  "declared (bogus_ready\<lparr>m_Elastix := x\<rparr>) ''MovingImagePyramid'' 0 = None"
  "declared (bogus_ready\<lparr>m_Elastix := x\<rparr>) ''ImageSampler'' 0 = None"
  "declared (bogus_ready\<lparr>m_Elastix := x\<rparr>) ''Interpolator'' 0 = None"
  "declared (bogus_ready\<lparr>m_Elastix := x\<rparr>) ''Metric'' 0 = Some ''AdvancedMattesMutualInformation''"
  "declared (bogus_ready\<lparr>m_Elastix := x\<rparr>) ''Metric'' 1 = None"
  "declared (bogus_ready\<lparr>m_Elastix := x\<rparr>) ''Optimizer'' 0 = Some ''AdaptiveStochasticGradientDescent''"
  "declared (bogus_ready\<lparr>m_Elastix := x\<rparr>) ''Optimizer'' 1 = None"
  "declared (bogus_ready\<lparr>m_Elastix := x\<rparr>) ''ResampleInterpolator'' 0 = None"
  "declared (bogus_ready\<lparr>m_Elastix := x\<rparr>) ''Resampler'' 0 = None"
  "declared (bogus_ready\<lparr>m_Elastix := x\<rparr>) ''Transform'' 0 = Some ''BSplineTransform''"
  "declared (bogus_ready\<lparr>m_Elastix := x\<rparr>) ''Transform'' 1 = Some ''AffineTransform''"
  "declared (bogus_ready\<lparr>m_Elastix := x\<rparr>) ''Transform'' 2 = None"
  by (simp_all add: declared_def bogus_ready_def bogus_main_def ElastixMain_New_def
      demo_configuration_def)

lemma bogus_creatable:
  "\<not> creatable demo_environment (bogus_ready\<lparr>m_Elastix := x\<rparr>) ''NoSuchRegistration''"
  "creatable demo_environment (bogus_ready\<lparr>m_Elastix := x\<rparr>) ''FixedSmoothingImagePyramid''"
  "creatable demo_environment (bogus_ready\<lparr>m_Elastix := x\<rparr>) ''MovingSmoothingImagePyramid''"
  "creatable demo_environment (bogus_ready\<lparr>m_Elastix := x\<rparr>) ''BSplineInterpolator''"
  "creatable demo_environment (bogus_ready\<lparr>m_Elastix := x\<rparr>) ''AdvancedMattesMutualInformation''"
  "creatable demo_environment (bogus_ready\<lparr>m_Elastix := x\<rparr>) ''AdaptiveStochasticGradientDescent''"
  "creatable demo_environment (bogus_ready\<lparr>m_Elastix := x\<rparr>) ''FinalBSplineInterpolator''"
  "creatable demo_environment (bogus_ready\<lparr>m_Elastix := x\<rparr>) ''DefaultResampler''"
  "creatable demo_environment (bogus_ready\<lparr>m_Elastix := x\<rparr>) ''BSplineTransform''"
  "creatable demo_environment (bogus_ready\<lparr>m_Elastix := x\<rparr>) ''AffineTransform''"
  by (simp_all add: creatable_def bogus_ready_def demo_environment_def demo_database_def)

lemma one_name:
  assumes "declared m key 0 = Some nm" and "creatable env m nm" and "declared m key 1 = None"
  shows "\<exists>w'. CreateComponents env m key d ec mand w = ([next_addr w], ec, w')
           \<and> trace w' = trace w"
proof -
  have "\<forall>i<1. \<exists>nm. declared m key i = Some nm \<and> creatable env m nm" using assms by simp
  then have "CreateComponents env m key d ec mand w =
     ([next_addr w ..< next_addr w + 1], ec,
      alloc_all (map (\<lambda>i. created env m (the (declared m key i))) [0 ..< 1]) w)"
    using assms(3) by (intro CreateComponents_contiguous) simp_all
  then show ?thesis by simp
qed

lemma two_names:
  assumes "declared m key 0 = Some nm0" and "creatable env m nm0"
    and "declared m key 1 = Some nm1" and "creatable env m nm1" and "declared m key 2 = None"
  shows "\<exists>w'. CreateComponents env m key d ec mand w = ([next_addr w, Suc (next_addr w)], ec, w')
           \<and> trace w' = trace w"
proof -
  have "\<forall>i<2. \<exists>nm. declared m key i = Some nm \<and> creatable env m nm"
  proof (intro allI impI)
    fix i :: nat
    assume "i < 2"
    then have "i = 0 \<or> i = 1" by auto
    then show "\<exists>nm. declared m key i = Some nm \<and> creatable env m nm" using assms by auto
  qed
  then have "CreateComponents env m key d ec mand w =
     ([next_addr w ..< next_addr w + 2], ec,
      alloc_all (map (\<lambda>i. created env m (the (declared m key i))) [0 ..< 2]) w)"
    using assms(5) by (intro CreateComponents_contiguous) simp_all
  moreover have "[next_addr w ..< next_addr w + 2] = [next_addr w, Suc (next_addr w)]"
    by (simp add: upt_rec)
  ultimately show ?thesis by simp
qed

lemma bogus_populate:
  "\<exists>c2 c3 c5 c6 c7 c8 c9 c10 w'.
     PopulateComponentContainers demo_environment (bogus_ready\<lparr>m_Elastix := x\<rparr>) (e, ec, w) =
       (e\<lparr>RegistrationContainer := [], FixedImagePyramidContainer := c2,
          MovingImagePyramidContainer := c3, ImageSamplerContainer := [],
          InterpolatorContainer := c5, MetricContainer := c6, OptimizerContainer := c7,
          ResampleInterpolatorContainer := c8, ResamplerContainer := c9,
          TransformContainer := c10\<rparr>, 0, w')
     \<and> trace w' = trace w @ [CreationError ''Registration'' 0
          (ExceptionObject
             (''The following component could not be created: '' @ ''NoSuchRegistration''))]"
proof -
  define m where "m = bogus_ready\<lparr>m_Elastix := x\<rparr>"
  define w1 where "w1 = emit (CreationError ''Registration'' 0
          (ExceptionObject
             (''The following component could not be created: '' @ ''NoSuchRegistration''))) w"
  have s1: "CreateComponents demo_environment m ''Registration'' ''MultiResolutionRegistration''
      ec True w = ([], 1, w1)"
    unfolding m_def w1_def
    by (rule CreateComponents_first_fails [OF bogus_declared(1) bogus_creatable(1)])
  define w2 where "w2 = alloc (created demo_environment m ''FixedSmoothingImagePyramid'') w1"
  have s2: "CreateComponents demo_environment m ''FixedImagePyramid''
      ''FixedSmoothingImagePyramid'' 1 True w1 = ([next_addr w1], 1, w2)"
    unfolding m_def w2_def
    by (rule CreateComponents_default [OF bogus_declared(2) _ bogus_creatable(2)]) simp
  define w3 where "w3 = alloc (created demo_environment m ''MovingSmoothingImagePyramid'') w2"
  have s3: "CreateComponents demo_environment m ''MovingImagePyramid''
      ''MovingSmoothingImagePyramid'' 1 True w2 = ([next_addr w2], 1, w3)"
    unfolding m_def w3_def
    by (rule CreateComponents_default [OF bogus_declared(3) _ bogus_creatable(3)]) simp
  have s4: "CreateComponents demo_environment m ''ImageSampler'' [] 1 False w3 = ([], 0, w3)"
    unfolding m_def by (rule CreateComponents_absent_optional [OF bogus_declared(4)])
  define w5 where "w5 = alloc (created demo_environment m ''BSplineInterpolator'') w3"
  have s5: "CreateComponents demo_environment m ''Interpolator'' ''BSplineInterpolator'' 0 True w3
      = ([next_addr w3], 0, w5)"
    unfolding m_def w5_def
    by (rule CreateComponents_default [OF bogus_declared(5) _ bogus_creatable(4)]) simp
  obtain w6 where s6: "CreateComponents demo_environment m ''Metric'' [] 0 True w5
      = ([next_addr w5], 0, w6)" and t6: "trace w6 = trace w5"
    unfolding m_def
    using one_name [OF bogus_declared(6) bogus_creatable(5) bogus_declared(7)] by blast
  obtain w7 where s7: "CreateComponents demo_environment m ''Optimizer'' [] 0 True w6
      = ([next_addr w6], 0, w7)" and t7: "trace w7 = trace w6"
    unfolding m_def
    using one_name [OF bogus_declared(8) bogus_creatable(6) bogus_declared(9)] by blast
  define w8 where "w8 = alloc (created demo_environment m ''FinalBSplineInterpolator'') w7"
  have s8: "CreateComponents demo_environment m ''ResampleInterpolator''
      ''FinalBSplineInterpolator'' 0 True w7 = ([next_addr w7], 0, w8)"
    unfolding m_def w8_def
    by (rule CreateComponents_default [OF bogus_declared(10) _ bogus_creatable(7)]) simp
  define w9 where "w9 = alloc (created demo_environment m ''DefaultResampler'') w8"
  have s9: "CreateComponents demo_environment m ''Resampler'' ''DefaultResampler'' 0 True w8
      = ([next_addr w8], 0, w9)"
    unfolding m_def w9_def
    by (rule CreateComponents_default [OF bogus_declared(11) _ bogus_creatable(8)]) simp
  obtain w10 where s10: "CreateComponents demo_environment m ''Transform'' [] 0 True w9
      = ([next_addr w9, Suc (next_addr w9)], 0, w10)" and t10: "trace w10 = trace w9"
    unfolding m_def
    using two_names [OF bogus_declared(12) bogus_creatable(9) bogus_declared(13)
        bogus_creatable(10) bogus_declared(14)] by blast
  have P: "PopulateComponentContainers demo_environment m (e, ec, w) =
       (e\<lparr>RegistrationContainer := [], FixedImagePyramidContainer := [next_addr w1],
          MovingImagePyramidContainer := [next_addr w2], ImageSamplerContainer := [],
          InterpolatorContainer := [next_addr w3], MetricContainer := [next_addr w5],
          OptimizerContainer := [next_addr w6],
          ResampleInterpolatorContainer := [next_addr w7], ResamplerContainer := [next_addr w8],
          TransformContainer := [next_addr w9, Suc (next_addr w9)]\<rparr>, 0, w10)"
    by (simp add: PopulateComponentContainers_def s1 s2 s3 s4 s5 s6 s7 s8 s9 s10)
  have T: "trace w10 = trace w @ [CreationError ''Registration'' 0
          (ExceptionObject
             (''The following component could not be created: '' @ ''NoSuchRegistration''))]"
    by (simp add: t10 w9_def w8_def t7 t6 w5_def w3_def w2_def w1_def)
  show ?thesis
    unfolding m_def [symmetric] using P T by blast
qed

lemma has_appliers_labelled [simp]: "has_appliers (labelled e) = has_appliers e"
  by (simp add: has_appliers_def labelled_def)



lemma GetImage_None [simp]: "(GetImage c = None) = (c = [])"
  by (simp add: GetImage_def)

lemma labelled_fields [simp]:
  "MovingImageContainer (labelled e) = MovingImageContainer e"
  "MovingImageFileNameContainer (labelled e) = MovingImageFileNameContainer e"
  "ResampleInterpolatorContainer (labelled e) = ResampleInterpolatorContainer e"
  "ResamplerContainer (labelled e) = ResamplerContainer e"
  "TransformContainer (labelled e) = TransformContainer e"
  "RegistrationContainer (labelled e) = RegistrationContainer e"
  "OptimizerContainer (labelled e) = OptimizerContainer e"
  "StringParameters (elx_Configuration (labelled e)) = StringParameters (elx_Configuration e)"
  "BoolParameters (elx_Configuration (labelled e)) = BoolParameters (elx_Configuration e)"
  "ElastixLevel (elx_Configuration (labelled e)) = ElastixLevel (elx_Configuration e)"
  "GetCommandLineArgument (elx_Configuration (labelled e)) flag
     = GetCommandLineArgument (elx_Configuration e) flag"
  "InitialTransform (labelled e) = InitialTransform e"
  "FinalTransform (labelled e) = FinalTransform e"
  by (simp_all add: labelled_def GetCommandLineArgument_def)

lemma result_name_labelled [simp]: "result_name (labelled e) = result_name e"
  by (simp add: result_name_def)




lemma quiet_refl [simp]: "quiet w w"
  by (simp add: quiet_def registration_events_def)






lemma quiet_deref [simp]: "quiet w (snd (snd (deref p (e, w))))"
  by (cases p) (simp_all add: deref_def)

lemma quiet_deref_world [simp]: "quiet w (snd (deref p w))"
  by (cases p) (simp_all add: deref_def)














lemma kept_refl [simp]: "kept e e"
  by (simp add: kept_def)

lemma kept_trans: "kept a b \<Longrightarrow> kept b c \<Longrightarrow> kept a c"
  by (simp add: kept_def)

lemma kept_GetContainer: "kept e e' \<Longrightarrow> GetContainer e' r = GetContainer e r"
  by (cases r) (simp_all add: kept_def)

lemma kept_has_drivers: "kept e e' \<Longrightarrow> has_drivers e' = has_drivers e"
  by (simp add: kept_def has_drivers_def)

lemma kept_updates [simp]:
  "kept e (e\<lparr>m_IterationCounter := n\<rparr>)"
  "kept e (e\<lparr>m_CurrentTransformParameterFileName := f\<rparr>)"
  "kept e (e\<lparr>FinalTransform := t\<rparr>)"
  "kept e (e\<lparr>FixedImageContainer := c\<rparr>)"
  "kept e (e\<lparr>MovingImageContainer := c\<rparr>)"
  "kept e (e\<lparr>FixedMaskContainer := c\<rparr>)"
  "kept e (e\<lparr>MovingMaskContainer := c\<rparr>)"
  "kept e (labelled e)"
  by (simp_all add: kept_def labelled_def)

lemma kept_and_then:
  assumes "kept e0 (fst (snd r))" and "\<And>v e w. kept e (fst (snd (f v (e, w))))"
  shows "kept e0 (fst (snd (and_then r f)))"
proof -
  obtain res e w where r: "r = (res, e, w)" by (cases r) auto
  show ?thesis
  proof (cases res)
    case (Inl x)
    then show ?thesis using assms(1) r by (simp add: and_then_def)
  next
    case (Inr v)
    have "kept e (fst (snd (f v (e, w))))" by (rule assms(2))
    moreover have "kept e0 e" using assms(1) r by simp
    ultimately have "kept e0 (fst (snd (f v (e, w))))" using kept_trans by blast
    then show ?thesis using r Inr by (simp add: and_then_def)
  qed
qed

lemma kept_if:
  "(c \<Longrightarrow> kept e (fst (snd a))) \<Longrightarrow> (\<not> c \<Longrightarrow> kept e (fst (snd b))) \<Longrightarrow>
   kept e (fst (snd (if c then a else b)))"
  by simp

lemma kept_deref [simp]: "kept e (fst (snd (deref p (e, w))))"
  by (cases p) (simp_all add: deref_def)

lemma kept_CreateTransformParameterFile [simp]:
  "kept e (fst (snd (CreateTransformParameterFile FileName ToLog (e, w))))"
proof -
  define e1 where "e1 = e\<lparr>m_CurrentTransformParameterFileName := FileName\<rparr>"
  have k: "kept e e1" by (simp add: e1_def)
  have "kept e1 (fst (snd (CreateTransformParameterFile FileName ToLog (e, w))))"
    unfolding CreateTransformParameterFile_def split_conv Let_def e1_def [symmetric]
    apply (rule kept_and_then, simp)
    apply (simp only: split_conv)
    apply (rule kept_and_then, simp)
    apply (simp only: split_conv)
    apply (rule kept_and_then, simp)
    apply (simp only: split_conv)
    apply (rule kept_and_then, simp)
    apply simp
    done
  then show ?thesis using k kept_trans by blast
qed

lemma kept_OpenIterationInfoFile [simp]:
  "kept e (fst (snd (OpenIterationInfoFile l (e, w))))"
  unfolding OpenIterationInfoFile_def split_conv
  by (rule kept_and_then) (simp_all add: Let_def)

lemma kept_BeforeEachResolution [simp]:
  "kept e (fst (snd (BeforeEachResolution l (e, w))))"
proof -
  have o: "kept a (fst (snd (OpenIterationInfoFile l (a\<lparr>m_IterationCounter := 0\<rparr>, b))))"
    for a b
    by (rule kept_trans [OF kept_updates(1) kept_OpenIterationInfoFile])
  show ?thesis
    unfolding BeforeEachResolution_def split_conv
    apply (rule kept_and_then, simp)
    apply (simp only: split_conv Let_def)
    apply (rule kept_and_then)
     apply (rule o)
    apply simp
    done
qed

lemma kept_AfterEachResolution [simp]:
  "kept e (fst (snd (AfterEachResolution l (e, w))))"
  unfolding AfterEachResolution_def split_conv
  apply (rule kept_and_then, simp)
  apply (simp only: split_conv Let_def case_prod_beta [of _ "ReadParameter t d n i" for t d n i])
  apply (rule kept_if)
   apply (rule kept_and_then, simp)
   apply simp
  apply simp
  done

lemma kept_AfterEachIteration [simp]:
  "kept e (fst (snd (AfterEachIteration l (e, w))))"
  unfolding AfterEachIteration_def split_conv
  apply (simp only: Let_def case_prod_beta [of _ "ReadParameter t d n i" for t d n i])
  apply (rule kept_and_then)
   apply (rule kept_if)
    apply (rule kept_and_then, simp)
    apply simp
   apply simp
  apply simp
  done

lemma kept_AfterRegistration [simp]:
  "kept e (fst (snd (AfterRegistration (e, w))))"
  unfolding AfterRegistration_def split_conv Let_def
  by (rule kept_and_then) simp_all

lemma kept_StartRegistration:
  "kept (fst s) (fst (snd (StartRegistration evs l s)))"
proof (induction evs l s rule: StartRegistration.induct)
  case (1 CurrentLevel st)
  then show ?case by simp
next
  case (2 l evs CurrentLevel st)
  obtain res st' where b: "BeforeEachResolution l st = (res, st')"
    by (cases "BeforeEachResolution l st")
  have k: "kept (fst st) (fst st')"
    using kept_BeforeEachResolution [of "fst st" l "snd st"] b by simp
  show ?case
  proof (cases res)
    case (Inl x)
    then show ?thesis using b k by simp
  next
    case (Inr v)
    have "kept (fst st') (fst (snd (StartRegistration evs l st')))"
      using 2 [OF b [symmetric] Inr] by simp
    then show ?thesis using b Inr k kept_trans by auto
  qed
next
  case (3 evs CurrentLevel st)
  obtain res st' where b: "AfterEachIteration CurrentLevel st = (res, st')"
    by (cases "AfterEachIteration CurrentLevel st")
  have k: "kept (fst st) (fst st')"
    using kept_AfterEachIteration [of "fst st" CurrentLevel "snd st"] b by simp
  show ?case
  proof (cases res)
    case (Inl x)
    then show ?thesis using b k by simp
  next
    case (Inr v)
    have "kept (fst st') (fst (snd (StartRegistration evs CurrentLevel st')))"
      using 3 [OF b [symmetric] Inr] by simp
    then show ?thesis using b Inr k kept_trans by auto
  qed
next
  case (4 evs CurrentLevel st)
  obtain res st' where b: "AfterEachResolution CurrentLevel st = (res, st')"
    by (cases "AfterEachResolution CurrentLevel st")
  have k: "kept (fst st) (fst st')"
    using kept_AfterEachResolution [of "fst st" CurrentLevel "snd st"] b by simp
  show ?case
  proof (cases res)
    case (Inl x)
    then show ?thesis using b k by simp
  next
    case (Inr v)
    have "kept (fst st') (fst (snd (StartRegistration evs CurrentLevel st')))"
      using 4 [OF b [symmetric] Inr] by simp
    then show ?thesis using b Inr k kept_trans by auto
  qed
next
  case (5 d evs CurrentLevel st)
  then show ?case by simp
qed

lemma kept_ReadImagesAndMasks:
  "kept (fst s) (fst (snd (ReadImagesAndMasks env s)))"
  by (cases s)
    (auto simp: ReadImagesAndMasks_def Let_def kept_def split: prod.splits sum.splits)

lemma GetContainer_FinalTransform [simp]:
  "GetContainer (e\<lparr>FinalTransform := t\<rparr>) r = GetContainer e r"
  by (cases r) simp_all

lemma decoupled_ConfigureComponents:
  "decoupled (fst (ConfigureComponents None (e, w))) (snd (ConfigureComponents None (e, w)))"
  by (simp add: decoupled_def ConfigureComponents_cleared)

lemma success_and_then:
  assumes "\<And>v s. fst (f v s) = Inr (0::int) \<Longrightarrow> G (snd (f v s))"
    and "fst (and_then r f) = Inr 0"
  shows "G (snd (and_then r f))"
proof -
  obtain res s where r: "r = (res, s)" by (cases r)
  show ?thesis
  proof (cases res)
    case (Inl x)
    then show ?thesis using assms(2) r by (simp add: and_then_def)
  next
    case (Inr v)
    then show ?thesis using assms r by (simp add: and_then_def)
  qed
qed

lemma Run_end:
  fixes env :: environment and e :: ElastixBase and w :: world
  defines "r \<equiv>
     (let w = BeforeRegistration e w in
            case StartRegistration (RegistrationEvents env) 0 (e, emit EnterStartRegistration w) of
              (Inl (ExceptionObject d), st) \<Rightarrow>
                 (Inl (ExceptionObject
                    (d @ [CHR 0x0A] @ ''Error occured during actual registration.'' @ [CHR 0x0A])), st)
            | (Inl x, st) \<Rightarrow> (Inl x, st)
            | (Inr _, st) \<Rightarrow>
                and_then (AfterRegistration st) (\<lambda>_ (e, w).
                  (case TransformContainer e of
                     [] \<Rightarrow> (Inl IndexOutOfRange, e, w)
                   | t # _ \<Rightarrow>
                       (case ConfigureComponents None (e\<lparr>FinalTransform := Some t\<rparr>, w) of
                          (e, w) \<Rightarrow> (Inr (0::int), e, w)))))"
  shows "kept e (fst (snd r)) \<and> (fst r = Inr 0 \<longrightarrow> finished (fst (snd r)) (snd (snd r)))"
proof -
  define w1 where "w1 = emit EnterStartRegistration (BeforeRegistration e w)"
  obtain res e2 w2 where s: "StartRegistration (RegistrationEvents env) 0 (e, w1) = (res, e2, w2)"
    by (cases "StartRegistration (RegistrationEvents env) 0 (e, w1)")
  have k2: "kept e e2"
    using kept_StartRegistration [of "(e, w1)" "RegistrationEvents env" 0] s by simp
  show ?thesis
  proof (cases res)
    case (Inl x)
    then show ?thesis
      using k2 s unfolding r_def Let_def w1_def [symmetric] by (cases x) simp_all
  next
    case (Inr u)
    define fin where "fin = (\<lambda>(_::unit) (e, w).
                  (case TransformContainer e of
                     [] \<Rightarrow> (Inl IndexOutOfRange, e, w)
                   | t # _ \<Rightarrow>
                       (case ConfigureComponents None (e\<lparr>FinalTransform := Some t\<rparr>, w) of
                          (e, w) \<Rightarrow> (Inr (0::int), e, w))))"
    have r: "r = and_then (AfterRegistration (e2, w2)) fin"
      using s Inr unfolding r_def Let_def w1_def [symmetric] fin_def by simp
    have fk: "kept a (fst (snd (fin v (a, b))))" for v a b
    proof (cases "TransformContainer a")
      case Nil
      then show ?thesis by (simp add: fin_def)
    next
      case (Cons t ts)
      obtain a' b' where c: "ConfigureComponents None (a\<lparr>FinalTransform := Some t\<rparr>, b) = (a', b')"
        by (cases "ConfigureComponents None (a\<lparr>FinalTransform := Some t\<rparr>, b)")
      have "a' = labelled (a\<lparr>FinalTransform := Some t\<rparr>)"
        using ConfigureComponents_fst [of None "a\<lparr>FinalTransform := Some t\<rparr>" b] c by simp
      then have "kept a a'" by (simp add: kept_def labelled_def)
      then show ?thesis using Cons c by (simp add: fin_def)
    qed
    have ff: "finished (fst (snd (fin v st))) (snd (snd (fin v st)))"
      if "fst (fin v st) = Inr 0" for v st
    proof -
      obtain a b where st: "st = (a, b)" by (cases st)
      show ?thesis
      proof (cases "TransformContainer a")
        case Nil
        then show ?thesis using that st by (simp add: fin_def)
      next
        case (Cons t ts)
        obtain a' b' where c:
          "ConfigureComponents None (a\<lparr>FinalTransform := Some t\<rparr>, b) = (a', b')"
          by (cases "ConfigureComponents None (a\<lparr>FinalTransform := Some t\<rparr>, b)")
        have a': "a' = labelled (a\<lparr>FinalTransform := Some t\<rparr>)"
          using ConfigureComponents_fst [of None "a\<lparr>FinalTransform := Some t\<rparr>" b] c by simp
        have d: "decoupled a' b'"
          using decoupled_ConfigureComponents [of "a\<lparr>FinalTransform := Some t\<rparr>" b] c by simp
        have "finished a' b'"
          using d Cons by (simp add: finished_def a' labelled_def)
        then show ?thesis using Cons c st by (simp add: fin_def)
      qed
    qed
    have k: "kept e (fst (snd r))"
      unfolding r
    proof (rule kept_and_then)
      show "kept e (fst (snd (AfterRegistration (e2, w2))))"
        using kept_trans [OF k2 kept_AfterRegistration] .
      show "\<And>v e w. kept e (fst (snd (fin v (e, w))))" by (rule fk)
    qed
    have f: "fst r = Inr 0 \<longrightarrow> finished (fst (snd r)) (snd (snd r))"
    proof
      assume z: "fst r = Inr 0"
      show "finished (fst (snd r)) (snd (snd r))"
        unfolding r
        by (rule success_and_then [where G = "\<lambda>s. finished (fst s) (snd s)"])
          (use ff z r in auto)
    qed
    show ?thesis using k f by simp
  qed
qed

lemma both_and_then:
  assumes "kept e0 (fst (snd r))"
    and "\<And>v e w. kept e (fst (snd (f v (e, w))))
           \<and> (fst (f v (e, w)) = Inr (0::int) \<longrightarrow>
                finished (fst (snd (f v (e, w)))) (snd (snd (f v (e, w)))))"
  shows "kept e0 (fst (snd (and_then r f)))
     \<and> (fst (and_then r f) = Inr 0 \<longrightarrow>
          finished (fst (snd (and_then r f))) (snd (snd (and_then r f))))"
proof -
  obtain res e w where r: "r = (res, e, w)" by (cases r) auto
  show ?thesis
  proof (cases res)
    case (Inl x)
    then show ?thesis using assms(1) r by (simp add: and_then_def)
  next
    case (Inr v)
    have k: "kept e0 e" using assms(1) r by simp
    have "kept e0 (fst (snd (f v (e, w))))"
      using kept_trans [OF k assms(2) [THEN conjunct1]] .
    then show ?thesis using assms(2) [of e v w] r Inr by (simp add: and_then_def)
  qed
qed

lemma ElastixTemplate_Run_frame:
  "kept e (fst (snd (ElastixTemplate_Run env This (e, w))))
   \<and> (fst (ElastixTemplate_Run env This (e, w)) = Inr 0 \<longrightarrow>
        finished (fst (snd (ElastixTemplate_Run env This (e, w))))
          (snd (snd (ElastixTemplate_Run env This (e, w)))))"
proof -
  obtain e1 w1 where c: "ConfigureComponents (Some This) (e, w) = (e1, w1)"
    by (cases "ConfigureComponents (Some This) (e, w)")
  have e1: "e1 = labelled e" using ConfigureComponents_fst [of "Some This" e w] c by simp
  have k1: "kept e e1" by (simp add: e1)
  obtain dummy w2 where b: "BeforeAll env e1 w1 = (dummy, w2)"
    by (cases "BeforeAll env e1 w1")
  show ?thesis
  proof (cases "dummy = 0")
    case False
    then show ?thesis using k1 by (simp add: ElastixTemplate_Run_def c b)
  next
    case True
    show ?thesis
      unfolding ElastixTemplate_Run_def
      apply (simp only: c b True split_conv simp_thms if_False)
      apply (rule both_and_then)
       apply (rule kept_trans [OF k1 kept_deref])
      apply (rule both_and_then, simp)
      apply (rule both_and_then)
       apply (rule kept_ReadImagesAndMasks [of "(a, b)" for a b, simplified])
      apply (simp only: split_conv)
      apply (rule Run_end)
      done
  qed
qed

lemma RunElastix_success:
  assumes "RunElastix env This m (e, w) = (Inr 0, m', w')"
  shows "\<exists>e'. m_Elastix m' = Some (This, e') \<and> finished e' w'
     \<and> m_FinalTransform m' = FinalTransform e'
     \<and> InitialTransform e' = m_InitialTransform m
     \<and> TransformContainer e' = TransformContainer e"
proof -
  define e0 where "e0 = e\<lparr>FixedImageContainer := m_FixedImageContainer m,
                  MovingImageContainer := m_MovingImageContainer m,
                  FixedMaskContainer := m_FixedMaskContainer m,
                  MovingMaskContainer := m_MovingMaskContainer m,
                  ResultImageContainer := m_ResultImageContainer m,
                  InitialTransform := m_InitialTransform m,
                  OriginalFixedImageDirectionFlat := m_OriginalFixedImageDirection m\<rparr>"
  obtain res e' w'' where t: "ElastixTemplate_Run env This (e0, w) = (res, e', w'')"
    by (cases "ElastixTemplate_Run env This (e0, w)")
  note F = ElastixTemplate_Run_frame [of e0 env This w, unfolded t, simplified]
  have k: "kept e0 e'" using F by simp
  show ?thesis
  proof (cases res)
    case (Inl x)
    then show ?thesis
      using assms t unfolding RunElastix_def split_conv Let_def e0_def [symmetric]
      by (cases x) simp_all
  next
    case (Inr code)
    have r: "code = 0 \<and> w' = w'' \<and> m_Elastix m' = Some (This, e')
        \<and> m_FinalTransform m' = FinalTransform e'"
      using assms t Inr unfolding RunElastix_def split_conv Let_def e0_def [symmetric]
      by auto
    have f: "finished e' w''" using F Inr r by simp
    have i: "InitialTransform e' = m_InitialTransform m"
      using k by (simp add: kept_def e0_def)
    have c: "TransformContainer e' = TransformContainer e"
      using k by (simp add: kept_def e0_def)
    show ?thesis using r f i c by simp
  qed
qed

lemma InitFixedImageDimension_InitialTransform [simp]:
  "m_InitialTransform (fst (snd (InitFixedImageDimension env (m, w)))) = m_InitialTransform m"
  by (auto simp: InitFixedImageDimension_def Let_def
      split: sum.splits prod.splits option.splits if_splits)

lemma InitMovingImageDimension_InitialTransform [simp]:
  "m_InitialTransform (fst (snd (InitMovingImageDimension env (m, w)))) = m_InitialTransform m"
  by (auto simp: InitMovingImageDimension_def Let_def
      split: sum.splits prod.splits option.splits if_splits)

lemma InitDBIndex_InitialTransform:
  "m_InitialTransform (fst (snd (InitDBIndex env (m, w)))) = m_InitialTransform m"
proof (cases "IsInitialized (m_Configuration m)")
  case False
  then show ?thesis by (simp add: InitDBIndex_def)
next
  case True
  define m1 where "m1 = (if m_FixedImagePixelType m = []
                   then m\<lparr>m_FixedImagePixelType :=
                            snd (ReadParameter (StringParameters (m_Configuration m))
                                   ''float'' ''FixedInternalImagePixelType'' 0)\<rparr>
                   else m)"
  have i1: "m_InitialTransform m1 = m_InitialTransform m" by (simp add: m1_def)
  obtain r2 m2 w2 where f: "InitFixedImageDimension env (m1, w) = (r2, m2, w2)"
    by (cases "InitFixedImageDimension env (m1, w)")
  have i2: "m_InitialTransform m2 = m_InitialTransform m"
    using InitFixedImageDimension_InitialTransform [of env m1 w] f i1 by simp
  show ?thesis
  proof (cases r2)
    case (Some rc)
    then show ?thesis using True f i2 by (simp add: InitDBIndex_def m1_def [symmetric])
  next
    case None
    define m3 where "m3 = (if m_MovingImagePixelType m2 = []
                   then m2\<lparr>m_MovingImagePixelType :=
                            snd (ReadParameter (StringParameters (m_Configuration m2))
                                   ''float'' ''MovingInternalImagePixelType'' 0)\<rparr>
                   else m2)"
    have i3: "m_InitialTransform m3 = m_InitialTransform m" using i2 by (simp add: m3_def)
    obtain r4 m4 w4 where g: "InitMovingImageDimension env (m3, w2) = (r4, m4, w4)"
      by (cases "InitMovingImageDimension env (m3, w2)")
    have i4: "m_InitialTransform m4 = m_InitialTransform m"
      using InitMovingImageDimension_InitialTransform [of env m3 w2] g i3 by simp
    show ?thesis
      using True f None g i4
      by (cases r4) (simp_all add: InitDBIndex_def m1_def [symmetric] m3_def [symmetric] Let_def)
  qed
qed

lemma ElastixMain_Run_success:
  assumes "ElastixMain_Run env (m, w) = (Inr 0, m', w')"
  shows "\<exists>m1 w0 This w1 e'.
       InitDBIndex env (m, w) = (0, m1, w0)
     \<and> CreateComponent env m1 ''Elastix'' w0 = (Inr This, w1)
     \<and> m_Elastix m' = Some (This, e') \<and> finished e' w'
     \<and> m_FinalTransform m' = FinalTransform e'
     \<and> InitialTransform e' = m_InitialTransform m
     \<and> TransformContainer e' =
         TransformContainer (fst (PopulateComponentContainers env
           (m1\<lparr>m_Elastix := Some (This, fresh_elastix m1)\<rparr>) (fresh_elastix m1, 0, w1)))"
proof -
  obtain rc m1 w0 where i: "InitDBIndex env (m, w) = (rc, m1, w0)"
    by (cases "InitDBIndex env (m, w)")
  have it: "m_InitialTransform m1 = m_InitialTransform m"
    using InitDBIndex_InitialTransform [of env m w] i by simp
  have rc: "rc = 0"
    using assms i by (cases "rc = 0") (simp_all add: ElastixMain_Run_def)
  obtain cr w1 where c: "CreateComponent env m1 ''Elastix'' w0 = (cr, w1)"
    by (cases "CreateComponent env m1 ''Elastix'' w0")
  show ?thesis
  proof (cases cr)
    case (Inl x)
    then show ?thesis using assms i rc c by (cases x) (simp_all add: ElastixMain_Run_def)
  next
    case (Inr This)
    define m2 where "m2 = m1\<lparr>m_Elastix := Some (This, fresh_elastix m1)\<rparr>"
    obtain e2 ec w2 where p:
      "PopulateComponentContainers env m2 (fresh_elastix m1, 0, w1) = (e2, ec, w2)"
      by (cases "PopulateComponentContainers env m2 (fresh_elastix m1, 0, w1)")
    have run: "ElastixMain_Run env (m, w) =
        (if ec \<noteq> 0
         then (Inr 1, m2\<lparr>m_Elastix := Some (This, e2)\<rparr>,
               emit (LogError ''ERROR: One or more components could not be created.'') w2)
         else RunElastix env This m2 (e2, w2))"
      using i rc c Inr p
      by (simp add: ElastixMain_Run_def Let_def fresh_elastix_def m2_def)
    have ec: "ec = 0" using assms run by (cases "ec = 0") simp_all
    have "RunElastix env This m2 (e2, w2) = (Inr 0, m', w')" using assms run ec by simp
    from RunElastix_success [OF this] obtain e' where
      r: "m_Elastix m' = Some (This, e')" "finished e' w'"
        "m_FinalTransform m' = FinalTransform e'"
        "InitialTransform e' = m_InitialTransform m2"
        "TransformContainer e' = TransformContainer e2"
      by blast
    have "InitialTransform e' = m_InitialTransform m" using r(4) it by (simp add: m2_def)
    moreover have "TransformContainer e' = TransformContainer (fst (PopulateComponentContainers env
           (m1\<lparr>m_Elastix := Some (This, fresh_elastix m1)\<rparr>) (fresh_elastix m1, 0, w1)))"
      using r(5) p by (simp add: m2_def)
    ultimately show ?thesis using i rc c Inr r(1,2,3) by simp
  qed
qed

lemma StartRegistration_regular:
  "has_drivers (fst s) \<Longrightarrow> regular evs \<Longrightarrow> fst (StartRegistration evs l s) = Inr ()"
proof (induction evs l s rule: StartRegistration.induct)
  case (1 CurrentLevel st)
  then show ?case by simp
next
  case (2 l evs CurrentLevel st)
  obtain e w where st: "st = (e, w)" by (cases st)
  have d: "has_drivers e" using 2(2) st by simp
  have r: "RegistrationContainer e \<noteq> []" using d by (simp add: has_drivers_def)
  obtain w' where b: "BeforeEachResolution l st = (Inr (), e\<lparr>m_IterationCounter := 0\<rparr>, w')"
    using BeforeEachResolution_ok [OF r, of l w] st by simp
  have "fst (StartRegistration evs l (e\<lparr>m_IterationCounter := 0\<rparr>, w')) = Inr ()"
    using 2(1) [OF b [symmetric] refl] d 2(3) by simp
  then show ?case using b by simp
next
  case (3 evs CurrentLevel st)
  obtain e w where st: "st = (e, w)" by (cases st)
  have d: "has_drivers e" using 3(2) st by simp
  obtain e' w' where b: "AfterEachIteration CurrentLevel st = (Inr (), e', w')"
    and d': "has_drivers e'"
    using AfterEachIteration_ok [OF d, of CurrentLevel w] st d by simp
  have "fst (StartRegistration evs CurrentLevel (e', w')) = Inr ()"
    using 3(1) [OF b [symmetric] refl] d' 3(3) by simp
  then show ?case using b by simp
next
  case (4 evs CurrentLevel st)
  obtain e w where st: "st = (e, w)" by (cases st)
  have d: "has_drivers e" using 4(2) st by simp
  obtain e' w' where b: "AfterEachResolution CurrentLevel st = (Inr (), e', w')"
    and d': "has_drivers e'"
    using AfterEachResolution_ok [OF d, of CurrentLevel w] st d by simp
  have "fst (StartRegistration evs CurrentLevel (e', w')) = Inr ()"
    using 4(1) [OF b [symmetric] refl] d' 4(3) by simp
  then show ?case using b by simp
next
  case (5 d evs CurrentLevel st)
  then show ?case by simp
qed

lemma GenerateIfAbsent_ok:
  assumes "\<And>names label. \<exists>imgs. ImageLoader env names label = Inr imgs"
  shows "\<exists>c' w'. GenerateIfAbsent env c names label w = (Inr c', w')"
proof -
  obtain imgs where "ImageLoader env names label = Inr imgs" using assms by blast
  then show ?thesis by (simp add: GenerateIfAbsent_def)
qed

lemma ReadImagesAndMasks_ok:
  assumes l: "\<And>names label. \<exists>imgs. ImageLoader env names label = Inr imgs"
  shows "fst (ReadImagesAndMasks env (e, w)) = Inr ()"
proof -
  obtain c1 w1 where g1: "GenerateIfAbsent env (FixedImageContainer e)
      (FixedImageFileNameContainer e) ''Fixed Image'' w = (Inr c1, w1)"
    using GenerateIfAbsent_ok [OF l] by blast
  define e1 where "e1 = e\<lparr>FixedImageContainer := c1\<rparr>"
  obtain c2 w2 where g2: "GenerateIfAbsent env (MovingImageContainer e1)
      (MovingImageFileNameContainer e1) ''Moving Image'' w1 = (Inr c2, w2)"
    using GenerateIfAbsent_ok [OF l] by blast
  define e2 where "e2 = e1\<lparr>MovingImageContainer := c2\<rparr>"
  obtain c3 w3 where g3: "GenerateIfAbsent env (FixedMaskContainer e2)
      (FixedMaskFileNameContainer e2) ''Fixed Mask'' w2 = (Inr c3, w3)"
    using GenerateIfAbsent_ok [OF l] by blast
  define e3 where "e3 = e2\<lparr>FixedMaskContainer := c3\<rparr>"
  obtain c4 w4 where g4: "GenerateIfAbsent env (MovingMaskContainer e3)
      (MovingMaskFileNameContainer e3) ''Moving Mask'' w3 = (Inr c4, w4)"
    using GenerateIfAbsent_ok [OF l] by blast
  show ?thesis
    unfolding ReadImagesAndMasks_def split_conv Let_def
    by (simp only: g1 e1_def [symmetric] g2 e2_def [symmetric] g3 e3_def [symmetric] g4
        split_conv sum.case fst_conv)
qed

lemma ElastixTemplate_Run_returns_0:
  assumes h: "\<And>c func. HandlerResult env c func = 0"
    and d: "has_drivers e"
    and l: "\<And>names label. \<exists>imgs. ImageLoader env names label = Inr imgs"
    and x: "regular (RegistrationEvents env)"
  shows "fst (ElastixTemplate_Run env This (e, w)) = Inr 0"
proof -
  obtain e1 w1 where c: "ConfigureComponents (Some This) (e, w) = (e1, w1)"
    by (cases "ConfigureComponents (Some This) (e, w)")
  have e1: "e1 = labelled e" using ConfigureComponents_fst [of "Some This" e w] c by simp
  have d1: "has_drivers e1" using d kept_has_drivers [of e e1] by (simp add: e1)
  obtain dummy w2 where b: "BeforeAll env e1 w1 = (dummy, w2)"
    by (cases "BeforeAll env e1 w1")
  have z: "dummy = 0" using BeforeAll_fst_zero [OF h, of e1 w1] b by simp
  have g1: "GetElxBase e1 Registration 0 = Some (hd (RegistrationContainer e1))"
    using d1 GetElxBase_nonempty [of e1 Registration] by (simp add: has_drivers_def)
  have g2: "GetElxBase e1 Optimizer 0 = Some (hd (OptimizerContainer e1))"
    using d1 GetElxBase_nonempty [of e1 Optimizer] by (simp add: has_drivers_def)
  obtain ri e3 w3 where r: "ReadImagesAndMasks env (e1, w2) = (ri, e3, w3)"
    by (cases "ReadImagesAndMasks env (e1, w2)")
  have ri: "ri = Inr ()" using ReadImagesAndMasks_ok [OF l, of e1 w2] r by simp
  have k3: "kept e1 e3" using kept_ReadImagesAndMasks [of "(e1, w2)" env] r by simp
  have d3: "has_drivers e3" using d1 kept_has_drivers [OF k3] by simp
  define w4 where "w4 = emit EnterStartRegistration (BeforeRegistration e3 w3)"
  obtain sr e5 w5 where s: "StartRegistration (RegistrationEvents env) 0 (e3, w4) = (sr, e5, w5)"
    by (cases "StartRegistration (RegistrationEvents env) 0 (e3, w4)")
  have sr: "sr = Inr ()"
    using StartRegistration_regular [of "(e3, w4)" "RegistrationEvents env" 0] d3 x s by simp
  have k5: "kept e3 e5"
    using kept_StartRegistration [of "(e3, w4)" "RegistrationEvents env" 0] s by simp
  have d5: "has_drivers e5" using d3 kept_has_drivers [OF k5] by simp
  have t5: "TransformContainer e5 \<noteq> []" using d5 by (simp add: has_drivers_def)
  then obtain t ts where t: "TransformContainer e5 = t # ts" by (cases "TransformContainer e5") auto
  show ?thesis
    unfolding ElastixTemplate_Run_def
    by (simp add: c b z g1 g2 r ri Let_def w4_def [symmetric] s sr AfterRegistration_ok [OF d5] t
        case_prod_beta)
qed

lemma RunElastix_returns_0:
  assumes h: "\<And>c func. HandlerResult env c func = 0"
    and d: "has_drivers e"
    and l: "\<And>names label. \<exists>imgs. ImageLoader env names label = Inr imgs"
    and x: "regular (RegistrationEvents env)"
  shows "fst (RunElastix env This m (e, w)) = Inr 0"
proof -
  define e0 where "e0 = e\<lparr>FixedImageContainer := m_FixedImageContainer m,
                  MovingImageContainer := m_MovingImageContainer m,
                  FixedMaskContainer := m_FixedMaskContainer m,
                  MovingMaskContainer := m_MovingMaskContainer m,
                  ResultImageContainer := m_ResultImageContainer m,
                  InitialTransform := m_InitialTransform m,
                  OriginalFixedImageDirectionFlat := m_OriginalFixedImageDirection m\<rparr>"
  have d0: "has_drivers e0" using d by (simp add: has_drivers_def e0_def)
  obtain res e' w' where t: "ElastixTemplate_Run env This (e0, w) = (res, e', w')"
    by (cases "ElastixTemplate_Run env This (e0, w)")
  have "res = Inr 0"
    using ElastixTemplate_Run_returns_0 [OF h d0 l x, of This w] t by simp
  then show ?thesis
    using t unfolding RunElastix_def split_conv Let_def e0_def [symmetric] by simp
qed

lemma ElastixMain_Run_returns_0:
  assumes i: "InitDBIndex env (m, w) = (0, m1, w0)"
    and c: "CreateComponent env m1 ''Elastix'' w0 = (Inr This, w1)"
    and p: "PopulateComponentContainers env (m1\<lparr>m_Elastix := Some (This, fresh_elastix m1)\<rparr>)
              (fresh_elastix m1, 0, w1) = (e2, 0, w2)"
    and d: "has_drivers e2"
    and h: "\<And>c func. HandlerResult env c func = 0"
    and l: "\<And>names label. \<exists>imgs. ImageLoader env names label = Inr imgs"
    and x: "regular (RegistrationEvents env)"
  shows "fst (ElastixMain_Run env (m, w)) = Inr 0"
proof -
  have "ElastixMain_Run env (m, w) =
      RunElastix env This (m1\<lparr>m_Elastix := Some (This, fresh_elastix m1)\<rparr>) (e2, w2)"
    using i c p by (simp add: ElastixMain_Run_def Let_def fresh_elastix_def)
  then show ?thesis using RunElastix_returns_0 [OF h d l x] by simp
qed

lemma one_created:
  assumes "declared m key 0 = Some nm" and "creatable env m nm" and "declared m key 1 = None"
  shows "\<exists>w'. CreateComponents env m key d ec mand w = ([next_addr w], ec, w')
           \<and> next_addr w' = Suc (next_addr w)"
proof -
  have "\<forall>i<1. \<exists>nm. declared m key i = Some nm \<and> creatable env m nm" using assms by simp
  then have "CreateComponents env m key d ec mand w =
     ([next_addr w ..< next_addr w + 1], ec,
      alloc_all (map (\<lambda>i. created env m (the (declared m key i))) [0 ..< 1]) w)"
    using assms(3) by (intro CreateComponents_contiguous) simp_all
  then show ?thesis by (simp add: alloc_def)
qed

lemma two_created:
  assumes "declared m key 0 = Some nm0" and "creatable env m nm0"
    and "declared m key 1 = Some nm1" and "creatable env m nm1" and "declared m key 2 = None"
  shows "\<exists>w'. CreateComponents env m key d ec mand w = ([next_addr w, Suc (next_addr w)], ec, w')
           \<and> next_addr w' = Suc (Suc (next_addr w))"
proof -
  have "\<forall>i<2. \<exists>nm. declared m key i = Some nm \<and> creatable env m nm"
  proof (intro allI impI)
    fix i :: nat
    assume "i < 2"
    then have "i = 0 \<or> i = 1" by auto
    then show "\<exists>nm. declared m key i = Some nm \<and> creatable env m nm" using assms by auto
  qed
  then have "CreateComponents env m key d ec mand w =
     ([next_addr w ..< next_addr w + 2], ec,
      alloc_all (map (\<lambda>i. created env m (the (declared m key i))) [0 ..< 2]) w)"
    using assms(5) by (intro CreateComponents_contiguous) simp_all
  moreover have "[next_addr w ..< next_addr w + 2] = [next_addr w, Suc (next_addr w)]"
    by (simp add: upt_rec)
  ultimately show ?thesis by (simp add: alloc_def)
qed

lemma default_created:
  assumes "declared m key 0 = None" and "d \<noteq> []" and "creatable env m d"
  shows "\<exists>w'. CreateComponents env m key d ec mand w = ([next_addr w], ec, w')
           \<and> next_addr w' = Suc (next_addr w)"
  using CreateComponents_default [OF assms] by (simp add: alloc_def)

lemma configured_declared:
  assumes "m_Configuration m = demo_configuration"
  shows "declared m ''Registration'' 0 = None"
    "declared m ''FixedImagePyramid'' 0 = None"
    "declared m ''MovingImagePyramid'' 0 = None"
    "declared m ''ImageSampler'' 0 = None"
    "declared m ''Interpolator'' 0 = None"
    "declared m ''Metric'' 0 = Some ''AdvancedMattesMutualInformation''"
    "declared m ''Metric'' 1 = None"
    "declared m ''Optimizer'' 0 = Some ''AdaptiveStochasticGradientDescent''"
    "declared m ''Optimizer'' 1 = None"
    "declared m ''ResampleInterpolator'' 0 = None"
    "declared m ''Resampler'' 0 = None"
    "declared m ''Transform'' 0 = Some ''BSplineTransform''"
    "declared m ''Transform'' 1 = Some ''AffineTransform''"
    "declared m ''Transform'' 2 = None"
  using assms by (simp_all add: declared_def demo_configuration_def)

lemma configured_creatable:
  assumes "m_DBIndex m \<noteq> 0"
  shows "creatable demo_environment m ''MultiResolutionRegistration''"
    "creatable demo_environment m ''FixedSmoothingImagePyramid''"
    "creatable demo_environment m ''MovingSmoothingImagePyramid''"
    "creatable demo_environment m ''BSplineInterpolator''"
    "creatable demo_environment m ''AdvancedMattesMutualInformation''"
    "creatable demo_environment m ''AdaptiveStochasticGradientDescent''"
    "creatable demo_environment m ''FinalBSplineInterpolator''"
    "creatable demo_environment m ''DefaultResampler''"
    "creatable demo_environment m ''BSplineTransform''"
    "creatable demo_environment m ''AffineTransform''"
  using assms by (simp_all add: creatable_def demo_environment_def demo_database_def)

lemma demo_populate:
  assumes cf: "m_Configuration m = demo_configuration" and db: "m_DBIndex m \<noteq> 0"
  shows "\<exists>w'. PopulateComponentContainers demo_environment m (e, ec, w) =
       (e\<lparr>RegistrationContainer := [next_addr w],
          FixedImagePyramidContainer := [next_addr w + 1],
          MovingImagePyramidContainer := [next_addr w + 2], ImageSamplerContainer := [],
          InterpolatorContainer := [next_addr w + 3], MetricContainer := [next_addr w + 4],
          OptimizerContainer := [next_addr w + 5],
          ResampleInterpolatorContainer := [next_addr w + 6],
          ResamplerContainer := [next_addr w + 7],
          TransformContainer := [next_addr w + 8, next_addr w + 9]\<rparr>, 0, w')"
proof -
  note D = configured_declared [OF cf]
  note C = configured_creatable [OF db]
  obtain w1 where s1: "CreateComponents demo_environment m ''Registration''
      ''MultiResolutionRegistration'' ec True w = ([next_addr w], ec, w1)"
    and n1: "next_addr w1 = Suc (next_addr w)"
    using default_created [OF D(1) _ C(1)] by fastforce
  obtain w2 where s2: "CreateComponents demo_environment m ''FixedImagePyramid''
      ''FixedSmoothingImagePyramid'' ec True w1 = ([next_addr w1], ec, w2)"
    and n2: "next_addr w2 = Suc (next_addr w1)"
    using default_created [OF D(2) _ C(2)] by fastforce
  obtain w3 where s3: "CreateComponents demo_environment m ''MovingImagePyramid''
      ''MovingSmoothingImagePyramid'' ec True w2 = ([next_addr w2], ec, w3)"
    and n3: "next_addr w3 = Suc (next_addr w2)"
    using default_created [OF D(3) _ C(3)] by fastforce
  have s4: "CreateComponents demo_environment m ''ImageSampler'' [] ec False w3 = ([], 0, w3)"
    by (rule CreateComponents_absent_optional [OF D(4)])
  obtain w5 where s5: "CreateComponents demo_environment m ''Interpolator''
      ''BSplineInterpolator'' 0 True w3 = ([next_addr w3], 0, w5)"
    and n5: "next_addr w5 = Suc (next_addr w3)"
    using default_created [OF D(5) _ C(4)] by fastforce
  obtain w6 where s6: "CreateComponents demo_environment m ''Metric'' [] 0 True w5
      = ([next_addr w5], 0, w6)" and n6: "next_addr w6 = Suc (next_addr w5)"
    using one_created [OF D(6) C(5) D(7)] by blast
  obtain w7 where s7: "CreateComponents demo_environment m ''Optimizer'' [] 0 True w6
      = ([next_addr w6], 0, w7)" and n7: "next_addr w7 = Suc (next_addr w6)"
    using one_created [OF D(8) C(6) D(9)] by blast
  obtain w8 where s8: "CreateComponents demo_environment m ''ResampleInterpolator''
      ''FinalBSplineInterpolator'' 0 True w7 = ([next_addr w7], 0, w8)"
    and n8: "next_addr w8 = Suc (next_addr w7)"
    using default_created [OF D(10) _ C(7)] by fastforce
  obtain w9 where s9: "CreateComponents demo_environment m ''Resampler''
      ''DefaultResampler'' 0 True w8 = ([next_addr w8], 0, w9)"
    and n9: "next_addr w9 = Suc (next_addr w8)"
    using default_created [OF D(11) _ C(8)] by fastforce
  obtain w10 where s10: "CreateComponents demo_environment m ''Transform'' [] 0 True w9
      = ([next_addr w9, Suc (next_addr w9)], 0, w10)"
    using two_created [OF D(12) C(9) D(13) C(10) D(14)] by blast
  have "PopulateComponentContainers demo_environment m (e, ec, w) =
       (e\<lparr>RegistrationContainer := [next_addr w],
          FixedImagePyramidContainer := [next_addr w + 1],
          MovingImagePyramidContainer := [next_addr w + 2], ImageSamplerContainer := [],
          InterpolatorContainer := [next_addr w + 3], MetricContainer := [next_addr w + 4],
          OptimizerContainer := [next_addr w + 5],
          ResampleInterpolatorContainer := [next_addr w + 6],
          ResamplerContainer := [next_addr w + 7],
          TransformContainer := [next_addr w + 8, next_addr w + 9]\<rparr>, 0, w10)"
    by (simp add: PopulateComponentContainers_def s1 s2 s3 s4 s5 s6 s7 s8 s9 s10
        n1 n2 n3 n5 n6 n7 n8 n9)
  then show ?thesis by blast
qed

lemma all_roles: "r \<in> set role_traversal_order"
  by (cases r) (simp_all add: role_traversal_order_def)

lemma decoupledD: "decoupled e w \<Longrightarrow> a \<in> set (GetContainer e r) \<Longrightarrow> Elastix (heap w a) = None"
  using all_roles by (auto simp: decoupled_def)

lemma demo_init:
  "InitDBIndex demo_environment
     (SetInitialTransform x (ElastixMain_New demo_configuration), w) =
   (0, (ElastixMain_New demo_configuration)
         \<lparr>m_FixedImagePixelType := ''float'', m_FixedImageDimension := 3,
          m_MovingImagePixelType := ''float'', m_MovingImageDimension := 3,
          m_DBIndex := 2, m_InitialTransform := x\<rparr>, w)"
  by (simp add: InitDBIndex_def InitFixedImageDimension_def InitMovingImageDimension_def
      GetImageInformationFromFile_def SetInitialTransform_def
      ElastixMain_New_def demo_configuration_def demo_environment_def ReadParameter_def
      GetCommandLineArgument_def Let_def)

lemma demo_elastix_created:
  "m_DBIndex m \<noteq> 0 \<Longrightarrow>
   CreateComponent demo_environment m ''Elastix'' w = (Inr (next_addr w), alloc elastix_object w)"
  by (simp add: CreateComponent_def demo_environment_def demo_database_def
      elastix_object_def alloc_def Let_def)

lemma demo_regular: "regular (RegistrationEvents demo_environment)"
  by (simp add: demo_environment_def demo_level_def)

lemma demo_returns_0:
  "fst (ElastixMain_Run demo_environment
          (SetInitialTransform x (ElastixMain_New demo_configuration), w)) = Inr 0"
proof -
  define m1 where "m1 = (ElastixMain_New demo_configuration)
         \<lparr>m_FixedImagePixelType := ''float'', m_FixedImageDimension := 3,
          m_MovingImagePixelType := ''float'', m_MovingImageDimension := 3,
          m_DBIndex := 2, m_InitialTransform := x\<rparr>"
  define w1 where "w1 = alloc elastix_object w"
  define m2 where "m2 = m1\<lparr>m_Elastix := Some (next_addr w, fresh_elastix m1)\<rparr>"
  have cf: "m_Configuration m2 = demo_configuration"
    by (simp add: m2_def m1_def ElastixMain_New_def)
  have db: "m_DBIndex m2 \<noteq> 0" by (simp add: m2_def m1_def)
  have db1: "m_DBIndex m1 \<noteq> 0" by (simp add: m1_def)
  obtain w2 where p: "PopulateComponentContainers demo_environment m2
      (fresh_elastix m1, 0, w1) =
       ((fresh_elastix m1)\<lparr>RegistrationContainer := [next_addr w1],
          FixedImagePyramidContainer := [next_addr w1 + 1],
          MovingImagePyramidContainer := [next_addr w1 + 2], ImageSamplerContainer := [],
          InterpolatorContainer := [next_addr w1 + 3], MetricContainer := [next_addr w1 + 4],
          OptimizerContainer := [next_addr w1 + 5],
          ResampleInterpolatorContainer := [next_addr w1 + 6],
          ResamplerContainer := [next_addr w1 + 7],
          TransformContainer := [next_addr w1 + 8, next_addr w1 + 9]\<rparr>, 0, w2)"
    using demo_populate [OF cf db, of "fresh_elastix m1" 0 w1] by blast
  show ?thesis
  proof (rule ElastixMain_Run_returns_0)
    show "InitDBIndex demo_environment
        (SetInitialTransform x (ElastixMain_New demo_configuration), w) = (0, m1, w)"
      unfolding m1_def by (rule demo_init)
    show "CreateComponent demo_environment m1 ''Elastix'' w = (Inr (next_addr w), w1)"
      unfolding w1_def by (rule demo_elastix_created [OF db1])
    show "PopulateComponentContainers demo_environment
        (m1\<lparr>m_Elastix := Some (next_addr w, fresh_elastix m1)\<rparr>) (fresh_elastix m1, 0, w1) =
       ((fresh_elastix m1)\<lparr>RegistrationContainer := [next_addr w1],
          FixedImagePyramidContainer := [next_addr w1 + 1],
          MovingImagePyramidContainer := [next_addr w1 + 2], ImageSamplerContainer := [],
          InterpolatorContainer := [next_addr w1 + 3], MetricContainer := [next_addr w1 + 4],
          OptimizerContainer := [next_addr w1 + 5],
          ResampleInterpolatorContainer := [next_addr w1 + 6],
          ResamplerContainer := [next_addr w1 + 7],
          TransformContainer := [next_addr w1 + 8, next_addr w1 + 9]\<rparr>, 0, w2)"
      using p unfolding m2_def .
    show "has_drivers ((fresh_elastix m1)\<lparr>RegistrationContainer := [next_addr w1],
          FixedImagePyramidContainer := [next_addr w1 + 1],
          MovingImagePyramidContainer := [next_addr w1 + 2], ImageSamplerContainer := [],
          InterpolatorContainer := [next_addr w1 + 3], MetricContainer := [next_addr w1 + 4],
          OptimizerContainer := [next_addr w1 + 5],
          ResampleInterpolatorContainer := [next_addr w1 + 6],
          ResamplerContainer := [next_addr w1 + 7],
          TransformContainer := [next_addr w1 + 8, next_addr w1 + 9]\<rparr>)"
      by (simp add: has_drivers_def)
    show "\<And>c func. HandlerResult demo_environment c func = 0"
      by (simp add: demo_environment_def)
    show "\<And>names label. \<exists>imgs. ImageLoader demo_environment names label = Inr imgs"
      by (simp add: demo_environment_def)
    show "regular (RegistrationEvents demo_environment)" by (rule demo_regular)
  qed
qed

lemma CreateComponentsLoop_fails:
  assumes "\<forall>i. n < i \<and> i < j \<longrightarrow> (\<exists>nm. declared m key i = Some nm \<and> creatable env m nm)"
    and "declared m key j = Some bad" and "\<not> creatable env m bad"
    and "n < j" and "length c = Suc n"
  shows "CreateComponentsLoop env m key True name n (c, ec, w) =
     (c @ [next_addr w ..< next_addr w + (j - Suc n)], 1,
      emit (CreationError key j
              (ExceptionObject (''The following component could not be created: '' @ bad)))
        (alloc_all (map (\<lambda>i. created env m (the (declared m key i))) [Suc n ..< j]) w))"
  using assms
proof (induction k \<equiv> "j - Suc n" arbitrary: n c w name)
  case 0
  then have j: "j = Suc n" by simp
  show ?case
    using "0.prems"(2,3) j
    by (subst CreateComponentsLoop.simps)
      (simp add: ReadParameter_declared CreateComponent_not_creatable)
next
  case (Suc k)
  then have lt: "Suc n < j" by simp
  then obtain nm where nm: "declared m key (Suc n) = Some nm" "creatable env m nm"
    using Suc.prems(1) by auto
  have k: "k = j - Suc (Suc n)" using Suc.hyps(2) by simp
  have rest: "\<forall>i. Suc n < i \<and> i < j \<longrightarrow> (\<exists>nm. declared m key i = Some nm \<and> creatable env m nm)"
    using Suc.prems(1) by auto
  have len: "length (c @ [next_addr w]) = Suc (Suc n)" using Suc.prems(5) by simp
  have IH: "CreateComponentsLoop env m key True nm (Suc n)
       (c @ [next_addr w], ec, alloc (created env m nm) w) =
     ((c @ [next_addr w]) @ [next_addr (alloc (created env m nm) w) ..<
          next_addr (alloc (created env m nm) w) + (j - Suc (Suc n))], 1,
      emit (CreationError key j
              (ExceptionObject (''The following component could not be created: '' @ bad)))
        (alloc_all (map (\<lambda>i. created env m (the (declared m key i))) [Suc (Suc n) ..< j])
           (alloc (created env m nm) w)))"
    using Suc.hyps(1) [OF k rest Suc.prems(2) Suc.prems(3) lt len] .
  have unfold: "CreateComponentsLoop env m key True name n (c, ec, w) =
      CreateComponentsLoop env m key True nm (Suc n)
       (c @ [next_addr w], ec, alloc (created env m nm) w)"
    using nm Suc.prems(5)
    by (subst CreateComponentsLoop.simps)
      (simp add: ReadParameter_declared CreateComponent_creatable CreateElementAt_def)
  have "j - Suc n = Suc (j - Suc (Suc n))" using lt by simp
  then have up1: "[next_addr w ..< next_addr w + (j - Suc n)]
      = next_addr w # [Suc (next_addr w) ..< Suc (next_addr w) + (j - Suc (Suc n))]"
    by (simp only: upt_add_Suc)
  have up2: "[Suc n ..< j] = Suc n # [Suc (Suc n) ..< j]"
    using lt by (simp add: upt_conv_Cons)
  show ?case
    unfolding unfold IH up1 up2 using nm by (simp add: alloc_def)
qed

lemma CreateComponents_fails:
  assumes "\<forall>i<j. \<exists>nm. declared m key i = Some nm \<and> creatable env m nm"
    and "declared m key j = Some bad" and "\<not> creatable env m bad"
  shows "CreateComponents env m key d ec mand w =
     ([next_addr w ..< next_addr w + j], 1,
      emit (CreationError key j
              (ExceptionObject (''The following component could not be created: '' @ bad)))
        (alloc_all (map (\<lambda>i. created env m (the (declared m key i))) [0 ..< j]) w))"
proof (cases "j = 0")
  case True
  then show ?thesis
    using CreateComponents_first_fails [OF _ assms(3), of key d ec mand w] assms(2) by simp
next
  case False
  then have pos: "0 < j" by simp
  obtain nm where nm: "declared m key 0 = Some nm" "creatable env m nm"
    using pos assms(1) by auto
  have rest: "\<forall>i. 0 < i \<and> i < j \<longrightarrow> (\<exists>nm. declared m key i = Some nm \<and> creatable env m nm)"
    using assms(1) by auto
  have loop: "CreateComponentsLoop env m key True nm 0
       ([next_addr w], ec, alloc (created env m nm) w) =
     ([next_addr w] @ [next_addr (alloc (created env m nm) w) ..<
          next_addr (alloc (created env m nm) w) + (j - Suc 0)], 1,
      emit (CreationError key j
              (ExceptionObject (''The following component could not be created: '' @ bad)))
        (alloc_all (map (\<lambda>i. created env m (the (declared m key i))) [Suc 0 ..< j])
           (alloc (created env m nm) w)))"
    by (rule CreateComponentsLoop_fails [OF rest assms(2) assms(3) pos]) simp
  have "j = Suc (j - Suc 0)" using pos by simp
  then have "[next_addr w ..< next_addr w + j] = [next_addr w ..< next_addr w + Suc (j - Suc 0)]"
    by simp
  then have up1: "[next_addr w ..< next_addr w + j]
      = next_addr w # [Suc (next_addr w) ..< Suc (next_addr w) + (j - Suc 0)]"
    by (simp only: upt_add_Suc)
  have up2: "[0 ..< j] = 0 # [Suc 0 ..< j]"
    using pos by (simp add: upt_conv_Cons)
  have "CreateComponents env m key d ec mand w =
      CreateComponentsLoop env m key True nm 0
       ([next_addr w], ec, alloc (created env m nm) w)"
    using nm
    by (simp add: CreateComponents_def ReadParameter_declared CreateComponent_creatable
        CreateElementAt_def)
  then show ?thesis
    unfolding loop up1 up2 using nm by (simp add: alloc_def)
qed



lemma Populate_in_two_parts:
  "PopulateComponentContainers env m s =
     CreateSamplerAndLaterRoles env m (CreateEarlierRoles env m s)"
proof -
  obtain e ec w where s: "s = (e, ec, w)" by (cases s)
  obtain c1 ec1 w1 where s1: "CreateComponents env m ''Registration''
      ''MultiResolutionRegistration'' ec True w = (c1, ec1, w1)"
    by (cases "CreateComponents env m ''Registration'' ''MultiResolutionRegistration'' ec True w")
  obtain c2 ec2 w2 where s2: "CreateComponents env m ''FixedImagePyramid''
      ''FixedSmoothingImagePyramid'' ec1 True w1 = (c2, ec2, w2)"
    by (cases "CreateComponents env m ''FixedImagePyramid'' ''FixedSmoothingImagePyramid'' ec1
      True w1")
  obtain c3 ec3 w3 where s3: "CreateComponents env m ''MovingImagePyramid''
      ''MovingSmoothingImagePyramid'' ec2 True w2 = (c3, ec3, w3)"
    by (cases "CreateComponents env m ''MovingImagePyramid'' ''MovingSmoothingImagePyramid'' ec2
      True w2")
  have E: "CreateEarlierRoles env m (e, ec, w) =
      (e\<lparr>RegistrationContainer := c1, FixedImagePyramidContainer := c2,
         MovingImagePyramidContainer := c3\<rparr>, ec3, w3)"
    by (simp add: CreateEarlierRoles_def s1 s2 s3)
  show ?thesis
    unfolding s E
    by (simp add: PopulateComponentContainers_def CreateSamplerAndLaterRoles_def s1 s2 s3)
qed

lemma CreateComponents_first_name_fails:
  assumes "d \<noteq> []" and "\<not> creatable env m (first_name m key d)"
  shows "CreateComponents env m key d ec mand w =
     ([], 1,
      emit (CreationError key 0
              (ExceptionObject
                 (''The following component could not be created: '' @ first_name m key d))) w)"
proof (cases "declared m key 0")
  case None
  then show ?thesis
    using assms
    by (simp add: first_name_def CreateComponents_def ReadParameter_declared
        CreateComponent_not_creatable)
next
  case (Some nm)
  then show ?thesis
    using assms(2) CreateComponents_first_fails [of m key nm env d ec mand w]
    by (simp add: first_name_def)
qed

lemma mandatory_keeps_failure:
  assumes "CreateComponents env m key d 1 True w = (c', ec', w')"
  shows "ec' = 1 \<and> (\<exists>evs. trace w' = trace w @ evs)"
  using CreateComponents_errorcode [OF assms] by auto

lemma CreateSamplerAndLaterRoles_result:
  "\<exists>c4 c5 c6 c7 c8 c9 c10 ec' w' evs.
     CreateSamplerAndLaterRoles env m (e, ec, w) =
       (e\<lparr>ImageSamplerContainer := c4, InterpolatorContainer := c5, MetricContainer := c6,
          OptimizerContainer := c7, ResampleInterpolatorContainer := c8,
          ResamplerContainer := c9, TransformContainer := c10\<rparr>, ec', w')
     \<and> trace w' = trace w @ evs"
proof -
  obtain c4 ec4 w4 where s4: "CreateComponents env m ''ImageSampler'' [] ec False w
      = (c4, ec4, w4)"
    by (cases "CreateComponents env m ''ImageSampler'' [] ec False w")
  obtain c5 ec5 w5 where s5: "CreateComponents env m ''Interpolator''
      ''BSplineInterpolator'' ec4 True w4 = (c5, ec5, w5)"
    by (cases "CreateComponents env m ''Interpolator'' ''BSplineInterpolator'' ec4 True w4")
  obtain c6 ec6 w6 where s6: "CreateComponents env m ''Metric'' [] ec5 True w5 = (c6, ec6, w6)"
    by (cases "CreateComponents env m ''Metric'' [] ec5 True w5")
  obtain c7 ec7 w7 where s7: "CreateComponents env m ''Optimizer'' [] ec6 True w6 = (c7, ec7, w7)"
    by (cases "CreateComponents env m ''Optimizer'' [] ec6 True w6")
  obtain c8 ec8 w8 where s8: "CreateComponents env m ''ResampleInterpolator''
      ''FinalBSplineInterpolator'' ec7 True w7 = (c8, ec8, w8)"
    by (cases "CreateComponents env m ''ResampleInterpolator'' ''FinalBSplineInterpolator'' ec7
      True w7")
  obtain c9 ec9 w9 where s9: "CreateComponents env m ''Resampler''
      ''DefaultResampler'' ec8 True w8 = (c9, ec9, w9)"
    by (cases "CreateComponents env m ''Resampler'' ''DefaultResampler'' ec8 True w8")
  obtain c10 ec10 w10 where s10: "CreateComponents env m ''Transform'' [] ec9 True w9
      = (c10, ec10, w10)"
    by (cases "CreateComponents env m ''Transform'' [] ec9 True w9")
  obtain a4 where t4: "trace w4 = trace w @ a4" using CreateComponents_trace [OF s4] by blast
  obtain a5 where t5: "trace w5 = trace w4 @ a5" using CreateComponents_trace [OF s5] by blast
  obtain a6 where t6: "trace w6 = trace w5 @ a6" using CreateComponents_trace [OF s6] by blast
  obtain a7 where t7: "trace w7 = trace w6 @ a7" using CreateComponents_trace [OF s7] by blast
  obtain a8 where t8: "trace w8 = trace w7 @ a8" using CreateComponents_trace [OF s8] by blast
  obtain a9 where t9: "trace w9 = trace w8 @ a9" using CreateComponents_trace [OF s9] by blast
  obtain a10 where t10: "trace w10 = trace w9 @ a10"
    using CreateComponents_trace [OF s10] by blast
  have "CreateSamplerAndLaterRoles env m (e, ec, w) =
       (e\<lparr>ImageSamplerContainer := c4, InterpolatorContainer := c5, MetricContainer := c6,
          OptimizerContainer := c7, ResampleInterpolatorContainer := c8,
          ResamplerContainer := c9, TransformContainer := c10\<rparr>, ec10, w10)"
    by (simp add: CreateSamplerAndLaterRoles_def s4 s5 s6 s7 s8 s9 s10)
  moreover have "trace w10 = trace w @ (a4 @ a5 @ a6 @ a7 @ a8 @ a9 @ a10)"
    using t4 t5 t6 t7 t8 t9 t10 by simp
  ultimately show ?thesis by blast
qed

lemma CreateSamplerAndLaterRoles_frame:
  "RegistrationContainer (fst (CreateSamplerAndLaterRoles env m (e, ec, w)))
     = RegistrationContainer e"
  "FixedImagePyramidContainer (fst (CreateSamplerAndLaterRoles env m (e, ec, w)))
     = FixedImagePyramidContainer e"
  "MovingImagePyramidContainer (fst (CreateSamplerAndLaterRoles env m (e, ec, w)))
     = MovingImagePyramidContainer e"
  using CreateSamplerAndLaterRoles_result [of env m e ec w] by auto

lemma CreateSamplerAndLaterRoles_trace:
  "\<exists>evs. trace (snd (snd (CreateSamplerAndLaterRoles env m (e, ec, w)))) = trace w @ evs"
  using CreateSamplerAndLaterRoles_result [of env m e ec w] by auto

lemma CreateEarlierRoles_fails:
  assumes early: "(key, d) \<in> set earlier_roles"
    and bad: "\<not> creatable env m (first_name m key d)"
  shows "fst (snd (CreateEarlierRoles env m (e, ec, w))) = 1
    \<and> CreationError key 0
          (ExceptionObject
             (''The following component could not be created: '' @ first_name m key d))
        \<in> set (new_events w (snd (snd (CreateEarlierRoles env m (e, ec, w)))))
    \<and> (\<forall>r. role_name r = key \<longrightarrow> GetContainer (fst (CreateEarlierRoles env m (e, ec, w))) r = [])"
proof -
  define failure where "failure = CreationError key 0
          (ExceptionObject
             (''The following component could not be created: '' @ first_name m key d))"
  have dn: "d \<noteq> []" using early by (auto simp: earlier_roles_def)
  have fails: "CreateComponents env m key d c True v = ([], 1, emit failure v)" for c v
    unfolding failure_def by (rule CreateComponents_first_name_fails [OF dn bad])
  obtain c1 ec1 w1 where s1: "CreateComponents env m ''Registration''
      ''MultiResolutionRegistration'' ec True w = (c1, ec1, w1)"
    by (cases "CreateComponents env m ''Registration'' ''MultiResolutionRegistration'' ec True w")
  obtain c2 ec2 w2 where s2: "CreateComponents env m ''FixedImagePyramid''
      ''FixedSmoothingImagePyramid'' ec1 True w1 = (c2, ec2, w2)"
    by (cases "CreateComponents env m ''FixedImagePyramid'' ''FixedSmoothingImagePyramid'' ec1
      True w1")
  obtain c3 ec3 w3 where s3: "CreateComponents env m ''MovingImagePyramid''
      ''MovingSmoothingImagePyramid'' ec2 True w2 = (c3, ec3, w3)"
    by (cases "CreateComponents env m ''MovingImagePyramid'' ''MovingSmoothingImagePyramid'' ec2
      True w2")
  have E: "CreateEarlierRoles env m (e, ec, w) =
      (e\<lparr>RegistrationContainer := c1, FixedImagePyramidContainer := c2,
         MovingImagePyramidContainer := c3\<rparr>, ec3, w3)"
    by (simp add: CreateEarlierRoles_def s1 s2 s3)
  obtain a1 where t1: "trace w1 = trace w @ a1" using CreateComponents_trace [OF s1] by blast
  obtain a2 where t2: "trace w2 = trace w1 @ a2" using CreateComponents_trace [OF s2] by blast
  obtain a3 where t3: "trace w3 = trace w2 @ a3" using CreateComponents_trace [OF s3] by blast
  have n: "new_events w w3 = a1 @ a2 @ a3" by (simp add: new_events_def t1 t2 t3)
  consider (reg) "key = ''Registration''" "d = ''MultiResolutionRegistration''"
    | (fixed) "key = ''FixedImagePyramid''" "d = ''FixedSmoothingImagePyramid''"
    | (mov) "key = ''MovingImagePyramid''" "d = ''MovingSmoothingImagePyramid''"
    using early by (auto simp: earlier_roles_def)
  then have "ec3 = 1 \<and> failure \<in> set (a1 @ a2 @ a3)
      \<and> (\<forall>r. role_name r = key \<longrightarrow>
            GetContainer (e\<lparr>RegistrationContainer := c1, FixedImagePyramidContainer := c2,
              MovingImagePyramidContainer := c3\<rparr>) r = [])"
  proof cases
    case reg
    have r1: "c1 = [] \<and> ec1 = 1 \<and> w1 = emit failure w"
      using s1 fails [of ec w] reg by simp
    have a1: "a1 = [failure]" using t1 r1 by simp
    have e2: "ec2 = 1" using mandatory_keeps_failure [of env m _ _ w1 c2 ec2 w2] s2 r1 by simp
    have e3: "ec3 = 1" using mandatory_keeps_failure [of env m _ _ w2 c3 ec3 w3] s3 e2 by simp
    have g: "\<forall>r. role_name r = key \<longrightarrow>
            GetContainer (e\<lparr>RegistrationContainer := c1, FixedImagePyramidContainer := c2,
              MovingImagePyramidContainer := c3\<rparr>) r = []"
    proof (intro allI impI)
      fix r
      assume "role_name r = key"
      then have "r = Registration" using reg(1) by (cases r) simp_all
      then show "GetContainer (e\<lparr>RegistrationContainer := c1, FixedImagePyramidContainer := c2,
              MovingImagePyramidContainer := c3\<rparr>) r = []"
        using r1 by simp
    qed
    show ?thesis using e3 a1 g by simp
  next
    case fixed
    have r2: "c2 = [] \<and> ec2 = 1 \<and> w2 = emit failure w1"
      using s2 fails [of ec1 w1] fixed by simp
    have a2: "a2 = [failure]" using t2 r2 by simp
    have e3: "ec3 = 1" using mandatory_keeps_failure [of env m _ _ w2 c3 ec3 w3] s3 r2 by simp
    have g: "\<forall>r. role_name r = key \<longrightarrow>
            GetContainer (e\<lparr>RegistrationContainer := c1, FixedImagePyramidContainer := c2,
              MovingImagePyramidContainer := c3\<rparr>) r = []"
    proof (intro allI impI)
      fix r
      assume "role_name r = key"
      then have "r = FixedImagePyramid" using fixed(1) by (cases r) simp_all
      then show "GetContainer (e\<lparr>RegistrationContainer := c1, FixedImagePyramidContainer := c2,
              MovingImagePyramidContainer := c3\<rparr>) r = []"
        using r2 by simp
    qed
    show ?thesis using e3 a2 g by simp
  next
    case mov
    have r3: "c3 = [] \<and> ec3 = 1 \<and> w3 = emit failure w2"
      using s3 fails [of ec2 w2] mov by simp
    have a3: "a3 = [failure]" using t3 r3 by simp
    have g: "\<forall>r. role_name r = key \<longrightarrow>
            GetContainer (e\<lparr>RegistrationContainer := c1, FixedImagePyramidContainer := c2,
              MovingImagePyramidContainer := c3\<rparr>) r = []"
    proof (intro allI impI)
      fix r
      assume "role_name r = key"
      then have "r = MovingImagePyramid" using mov(1) by (cases r) simp_all
      then show "GetContainer (e\<lparr>RegistrationContainer := c1, FixedImagePyramidContainer := c2,
              MovingImagePyramidContainer := c3\<rparr>) r = []"
        using r3 by simp
    qed
    show ?thesis using r3 a3 g by simp
  qed
  then show ?thesis unfolding failure_def [symmetric] by (simp add: E n)
qed

lemma creatable_Elastix [simp]: "creatable env (m\<lparr>m_Elastix := x\<rparr>) name = creatable env m name"
  by (simp add: creatable_def)

lemma declared_Elastix [simp]: "declared (m\<lparr>m_Elastix := x\<rparr>) key i = declared m key i"
  by (simp add: declared_def)

lemma first_name_Elastix [simp]: "first_name (m\<lparr>m_Elastix := x\<rparr>) key d = first_name m key d"
  by (simp add: first_name_def)
section \<open>Components that are not named\<close>

text \<open>
  Claim C1. When the configuration has no name at entry 0 for the key and the default
  name is empty, \<^verbatim>\<open>CreateComponents\<close> with \<open>mandatoryComponent\<close> true logs the error that
  names the key, sets the error code to 1 and returns the empty container with nothing
  created (the store is as it was); with \<open>mandatoryComponent\<close> false it returns the empty
  container, the error code 0 and the world unchanged.
\<close>

theorem CreateComponents_no_name_no_default:
  "map_of (StringParameters (m_Configuration m)) (key, 0) = None \<Longrightarrow>
     CreateComponents env m key [] errorcode True w =
       ([], 1,
        emit (LogError (''ERROR: the following component has not been specified: '' @ key)) w)
   \<and> CreateComponents env m key [] errorcode False w = ([], 0, w)"
  by (simp add: CreateComponents_def ReadParameter_def)

theorem CreateComponents_no_name_no_default_witness:
  "map_of (StringParameters (m_Configuration demo_main)) (''ImageSampler'', 0) = None
   \<and> CreateComponents demo_environment demo_main ''ImageSampler'' [] 0 True demo_world =
       ([], 1,
        emit (LogError ''ERROR: the following component has not been specified: ImageSampler'')
          demo_world)
   \<and> CreateComponents demo_environment demo_main ''ImageSampler'' [] 1 False demo_world =
       ([], 0, demo_world)"
proof -
  have h: "map_of (StringParameters (m_Configuration demo_main)) (''ImageSampler'', 0) = None"
    by (simp add: demo_main_def ElastixMain_New_def demo_configuration_def)
  show ?thesis
    using CreateComponents_no_name_no_default
            [OF h, of demo_environment 0 demo_world]
          CreateComponents_no_name_no_default
            [OF h, of demo_environment 1 demo_world] h
    by simp
qed

section \<open>Discovery of instances stops at the first gap\<close>

text \<open>
  Claim C2, as stated, fails: with names declared at entries 0 and 1 and none at 2, the
  container has size 1, not 2, when the name at entry 1 is not in the database, because
  \<^verbatim>\<open>CreateComponents\<close> catches the exception, sets the error code and returns.
\<close>

theorem CreateComponents_gap_counterexample:
  "declared broken_main ''Transform'' 0 = Some ''BSplineTransform''
   \<and> declared broken_main ''Transform'' 1 = Some ''NoSuchTransform''
   \<and> declared broken_main ''Transform'' 2 = None
   \<and> length (fst (CreateComponents demo_environment broken_main ''Transform'' [] 0 True
        demo_world)) = 1
   \<and> fst (snd (CreateComponents demo_environment broken_main ''Transform'' [] 0 True
        demo_world)) = 1"
proof -
  have d: "declared broken_main ''Transform'' 0 = Some ''BSplineTransform''"
    "declared broken_main ''Transform'' 1 = Some ''NoSuchTransform''"
    "declared broken_main ''Transform'' 2 = None"
    by (simp_all add: declared_def broken_main_def ElastixMain_New_def demo_configuration_def)
  have c0: "creatable demo_environment broken_main ''BSplineTransform''"
    by (simp add: creatable_def demo_environment_def broken_main_def ElastixMain_New_def
        demo_database_def)
  have c1: "\<not> creatable demo_environment broken_main ''NoSuchTransform''"
    by (simp add: creatable_def demo_environment_def broken_main_def ElastixMain_New_def
        demo_database_def)
  have "CreateComponents demo_environment broken_main ''Transform'' [] 0 True demo_world =
      ([next_addr demo_world], 1,
       emit (CreationError ''Transform'' 1
               (ExceptionObject
                  (''The following component could not be created: '' @ ''NoSuchTransform'')))
         (alloc (created demo_environment broken_main ''BSplineTransform'') demo_world))"
    unfolding CreateComponents_def
    apply (simp add: ReadParameter_declared d CreateComponent_creatable [OF c0]
        CreateElementAt_def)
    apply (subst CreateComponentsLoop.simps)
    apply (simp add: ReadParameter_declared d [unfolded One_nat_def]
        CreateComponent_not_creatable [OF c1])
    done
  then show ?thesis using d by simp
qed

text \<open>
  Claim C2, amended. Let entry \<open>g\<close> of the key be a gap. If \<open>g > 0\<close> and every name declared
  below \<open>g\<close> can be created, \<^verbatim>\<open>CreateComponents\<close> returns a container of exactly \<open>g\<close>
  components, created in the order of their entries from those names, and leaves the error
  code as it was. If instead the name at an entry \<open>j\<close> cannot be created while those at the
  entries below \<open>j\<close> can, \<^verbatim>\<open>CreateComponents\<close> stops there: it returns the \<open>j\<close> components
  created so far, sets the error code to 1, reports the error for entry \<open>j\<close>, and creates
  nothing else. And whatever can or cannot be created, what is declared after the gap
  plays no role: a configuration that agrees below the gap gives the same result.
\<close>

theorem CreateComponents_stops_at_first_gap:
  assumes gap: "declared m key g = None"
  shows "(0 < g \<and> (\<forall>i<g. \<exists>nm. declared m key i = Some nm \<and> creatable env m nm) \<longrightarrow>
            fst (CreateComponents env m key d ec mand w) = [next_addr w ..< next_addr w + g]
          \<and> length (fst (CreateComponents env m key d ec mand w)) = g
          \<and> fst (snd (CreateComponents env m key d ec mand w)) = ec
          \<and> next_addr (snd (snd (CreateComponents env m key d ec mand w))) = next_addr w + g
          \<and> (\<forall>i<g. heap (snd (snd (CreateComponents env m key d ec mand w))) (next_addr w + i)
                     = created env m (the (declared m key i))))
    \<and> (\<forall>j bad. (\<forall>i<j. \<exists>nm. declared m key i = Some nm \<and> creatable env m nm)
              \<and> declared m key j = Some bad \<and> \<not> creatable env m bad \<longrightarrow>
            j < g
          \<and> CreateComponents env m key d ec mand w =
              ([next_addr w ..< next_addr w + j], 1,
               emit (CreationError key j
                       (ExceptionObject
                          (''The following component could not be created: '' @ bad)))
                 (alloc_all (map (\<lambda>i. created env m (the (declared m key i))) [0 ..< j]) w))
          \<and> length (fst (CreateComponents env m key d ec mand w)) = j
          \<and> next_addr (snd (snd (CreateComponents env m key d ec mand w))) = next_addr w + j)
    \<and> (\<forall>m'. m_DBIndex m' = m_DBIndex m \<and> declared m' key g = None
              \<and> (\<forall>i<g. declared m' key i = declared m key i) \<longrightarrow>
            CreateComponents env m' key d ec mand w = CreateComponents env m key d ec mand w)"
proof -
  have after: "CreateComponents env m' key d ec mand w = CreateComponents env m key d ec mand w"
    if "m_DBIndex m' = m_DBIndex m \<and> declared m' key g = None
              \<and> (\<forall>i<g. declared m' key i = declared m key i)" for m'
    using that by (intro CreateComponents_after_gap [OF gap]) simp_all
  have before: "fst (CreateComponents env m key d ec mand w) = [next_addr w ..< next_addr w + g]
          \<and> length (fst (CreateComponents env m key d ec mand w)) = g
          \<and> fst (snd (CreateComponents env m key d ec mand w)) = ec
          \<and> next_addr (snd (snd (CreateComponents env m key d ec mand w))) = next_addr w + g
          \<and> (\<forall>i<g. heap (snd (snd (CreateComponents env m key d ec mand w))) (next_addr w + i)
                     = created env m (the (declared m key i)))"
    if a: "0 < g \<and> (\<forall>i<g. \<exists>nm. declared m key i = Some nm \<and> creatable env m nm)"
  proof -
    have eq: "CreateComponents env m key d ec mand w =
       ([next_addr w ..< next_addr w + g], ec,
        alloc_all (map (\<lambda>i. created env m (the (declared m key i))) [0 ..< g]) w)"
      using a gap by (intro CreateComponents_contiguous) simp_all
    show ?thesis by (simp add: eq heap_alloc_all_new)
  qed
  have failing: "j < g
          \<and> CreateComponents env m key d ec mand w =
              ([next_addr w ..< next_addr w + j], 1,
               emit (CreationError key j
                       (ExceptionObject
                          (''The following component could not be created: '' @ bad)))
                 (alloc_all (map (\<lambda>i. created env m (the (declared m key i))) [0 ..< j]) w))
          \<and> length (fst (CreateComponents env m key d ec mand w)) = j
          \<and> next_addr (snd (snd (CreateComponents env m key d ec mand w))) = next_addr w + j"
    if a: "(\<forall>i<j. \<exists>nm. declared m key i = Some nm \<and> creatable env m nm)
              \<and> declared m key j = Some bad \<and> \<not> creatable env m bad" for j bad
  proof -
    have "\<not> g < j" using a gap by auto
    moreover have "g \<noteq> j" using a gap by auto
    ultimately have lt: "j < g" by simp
    have eq: "CreateComponents env m key d ec mand w =
              ([next_addr w ..< next_addr w + j], 1,
               emit (CreationError key j
                       (ExceptionObject
                          (''The following component could not be created: '' @ bad)))
                 (alloc_all (map (\<lambda>i. created env m (the (declared m key i))) [0 ..< j]) w))"
      using a by (intro CreateComponents_fails) simp_all
    show ?thesis using lt by (simp add: eq)
  qed
  show ?thesis using after before failing by blast
qed

theorem CreateComponents_stops_at_first_gap_witness:
  "declared demo_main ''Transform'' 2 = None
   \<and> declared demo_main ''Transform'' 3 = Some ''EulerTransform''
   \<and> fst (CreateComponents demo_environment demo_main ''Transform'' [] 0 True demo_world)
       = [11, 12]
   \<and> next_addr (snd (snd (CreateComponents demo_environment demo_main ''Transform'' [] 0 True
        demo_world))) = 13
   \<and> CreateComponents demo_environment short_main ''Transform'' [] 0 True demo_world
       = CreateComponents demo_environment demo_main ''Transform'' [] 0 True demo_world
   \<and> declared broken_main ''Transform'' 1 = Some ''NoSuchTransform''
   \<and> declared broken_main ''Transform'' 2 = None
   \<and> fst (CreateComponents demo_environment broken_main ''Transform'' [] 0 True demo_world)
       = [11]
   \<and> fst (snd (CreateComponents demo_environment broken_main ''Transform'' [] 0 True
        demo_world)) = 1
   \<and> trace (snd (snd (CreateComponents demo_environment broken_main ''Transform'' [] 0 True
        demo_world)))
       = [CreationError ''Transform'' 1
            (ExceptionObject ''The following component could not be created: NoSuchTransform'')]
   \<and> next_addr (snd (snd (CreateComponents demo_environment broken_main ''Transform'' [] 0
        True demo_world))) = 12"
proof -
  have all: "\<forall>i<2. \<exists>nm. declared demo_main ''Transform'' i = Some nm
                \<and> creatable demo_environment demo_main nm"
  proof (intro allI impI)
    fix i :: nat
    assume "i < 2"
    then have "i = 0 \<or> i = 1" by auto
    then show "\<exists>nm. declared demo_main ''Transform'' i = Some nm
                \<and> creatable demo_environment demo_main nm"
      using demo_declared demo_creatable by auto
  qed
  have same: "\<forall>i<2. declared short_main ''Transform'' i = declared demo_main ''Transform'' i"
  proof (intro allI impI)
    fix i :: nat
    assume "i < 2"
    then have "i = 0 \<or> i = 1" by auto
    then show "declared short_main ''Transform'' i = declared demo_main ''Transform'' i"
      using demo_declared short_declared by auto
  qed
  have idx: "m_DBIndex short_main = m_DBIndex demo_main"
    by (simp add: short_main_def demo_main_def)
  have n: "next_addr demo_world = 11" by (simp add: demo_world_def)
  have u: "[11 ..< 11 + 2] = [11, 12::nat]" by (simp add: upt_rec)
  note T = CreateComponents_stops_at_first_gap
            [OF demo_declared(3), of demo_environment "[]" 0 True demo_world]
  have A: "fst (CreateComponents demo_environment demo_main ''Transform'' [] 0 True demo_world)
        = [next_addr demo_world ..< next_addr demo_world + 2]
      \<and> next_addr (snd (snd (CreateComponents demo_environment demo_main ''Transform'' [] 0 True
          demo_world))) = next_addr demo_world + 2"
    using T [THEN conjunct1] all by simp
  have B: "CreateComponents demo_environment short_main ''Transform'' [] 0 True demo_world
       = CreateComponents demo_environment demo_main ''Transform'' [] 0 True demo_world"
    using T [THEN conjunct2, THEN conjunct2, THEN spec, of short_main] idx short_declared(3) same
    by (elim impE) simp_all
  have d: "declared broken_main ''Transform'' 0 = Some ''BSplineTransform''"
    "declared broken_main ''Transform'' 1 = Some ''NoSuchTransform''"
    "declared broken_main ''Transform'' 2 = None"
    by (simp_all add: declared_def broken_main_def ElastixMain_New_def demo_configuration_def)
  have c0: "creatable demo_environment broken_main ''BSplineTransform''"
    by (simp add: creatable_def demo_environment_def broken_main_def ElastixMain_New_def
        demo_database_def)
  have c1: "\<not> creatable demo_environment broken_main ''NoSuchTransform''"
    by (simp add: creatable_def demo_environment_def broken_main_def ElastixMain_New_def
        demo_database_def)
  have below: "\<forall>i<1. \<exists>nm. declared broken_main ''Transform'' i = Some nm
                \<and> creatable demo_environment broken_main nm"
    using d(1) c0 by simp
  note F = CreateComponents_stops_at_first_gap
            [OF d(3), of demo_environment "[]" 0 True demo_world,
             THEN conjunct2, THEN conjunct1, THEN spec, THEN spec, THEN mp,
             of 1 "''NoSuchTransform''"]
  have C: "CreateComponents demo_environment broken_main ''Transform'' [] 0 True demo_world =
              ([next_addr demo_world ..< next_addr demo_world + 1], 1,
               emit (CreationError ''Transform'' 1
                       (ExceptionObject
                          (''The following component could not be created: ''
                             @ ''NoSuchTransform'')))
                 (alloc_all (map (\<lambda>i. created demo_environment broken_main
                                        (the (declared broken_main ''Transform'' i))) [0 ..< 1])
                    demo_world))"
    using F below d(2) c1 by blast
  have C1: "fst (CreateComponents demo_environment broken_main ''Transform'' [] 0 True
        demo_world) = [11]"
    unfolding C by (simp add: n)
  have C2: "fst (snd (CreateComponents demo_environment broken_main ''Transform'' [] 0 True
        demo_world)) = 1"
    unfolding C by simp
  have C3: "trace (snd (snd (CreateComponents demo_environment broken_main ''Transform'' [] 0
        True demo_world)))
       = [CreationError ''Transform'' 1
            (ExceptionObject ''The following component could not be created: NoSuchTransform'')]"
    unfolding C by (simp add: demo_world_def alloc_def)
  have C4: "next_addr (snd (snd (CreateComponents demo_environment broken_main ''Transform'' []
        0 True demo_world))) = 12"
    unfolding C by (simp add: n alloc_def)
  have A1: "fst (CreateComponents demo_environment demo_main ''Transform'' [] 0 True demo_world)
       = [11, 12]"
    using A by (simp add: n u)
  have A2: "next_addr (snd (snd (CreateComponents demo_environment demo_main ''Transform'' [] 0
        True demo_world))) = 13"
    using A by (simp add: n)
  show ?thesis
    using demo_declared(3,4) A1 A2 B d(2,3) C1 C2 C3 C4 by (intro conjI)
qed

section \<open>The order in which a stage visits the components\<close>

text \<open>
  Claim C3. \<^verbatim>\<open>CallInEachComponent\<close> and \<^verbatim>\<open>CallInEachComponentInt\<close> call the member function
  on the configuration first and then on the components role by role, in the order
  Registration, Transform, ImageSampler, Metric, Interpolator, Optimizer,
  FixedImagePyramid, MovingImagePyramid, ResampleInterpolator, Resampler, and within a
  role by increasing index. Each of the six stages BeforeAll, BeforeRegistration,
  BeforeEachResolution, AfterEachIteration, AfterEachResolution and AfterRegistration
  calls its stage functions on the components in exactly two such passes (the Base
  function, then the function itself) and nowhere else; for the four stages that reach
  components through their first instance, those instances must exist.
\<close>

theorem lifecycle_dispatch_order:
  "trace (CallInEachComponent func e w) = trace w @ map (\<lambda>c. Call c func) (dispatch_order e)
   \<and> trace (snd (CallInEachComponentInt env func e w))
       = trace w @ map (\<lambda>c. Call c func) (dispatch_order e)
   \<and> dispatched w (snd (BeforeAll env e w))
       = pass e Component_BeforeAllBase @ pass e Component_BeforeAll
   \<and> dispatched w (BeforeRegistration e w)
       = pass e Component_BeforeRegistrationBase @ pass e Component_BeforeRegistration
   \<and> (has_drivers e \<longrightarrow>
        dispatched w (snd (snd (BeforeEachResolution l (e, w))))
          = pass e Component_BeforeEachResolutionBase @ pass e Component_BeforeEachResolution
      \<and> dispatched w (snd (snd (AfterEachIteration l (e, w))))
          = pass e Component_AfterEachIterationBase @ pass e Component_AfterEachIteration
      \<and> dispatched w (snd (snd (AfterEachResolution l (e, w))))
          = pass e Component_AfterEachResolutionBase @ pass e Component_AfterEachResolution
      \<and> dispatched w (snd (snd (AfterRegistration (e, w))))
          = pass e Component_AfterRegistrationBase @ pass e Component_AfterRegistration)"
proof -
  have a: "trace (CallInEachComponent func e w)
      = trace w @ map (\<lambda>c. Call c func) (dispatch_order e)"
    by (simp add: CallInEachComponent_emits pass_def)
  have b: "trace (snd (CallInEachComponentInt env func e w))
      = trace w @ map (\<lambda>c. Call c func) (dispatch_order e)"
    by (simp add: CallInEachComponentInt_snd pass_def)
  have c: "dispatched w (snd (BeforeAll env e w))
      = pass e Component_BeforeAllBase @ pass e Component_BeforeAll"
    by (simp add: BeforeAll_snd)
  have d: "dispatched w (BeforeRegistration e w)
      = pass e Component_BeforeRegistrationBase @ pass e Component_BeforeRegistration"
    by (simp add: BeforeRegistration_emits)
  have f: "dispatched w (snd (snd (BeforeEachResolution l (e, w))))
          = pass e Component_BeforeEachResolutionBase @ pass e Component_BeforeEachResolution"
    if "has_drivers e"
  proof -
    have "RegistrationContainer e \<noteq> []" using that by (simp add: has_drivers_def)
    then show ?thesis by (simp add: BeforeEachResolution_ok)
  qed
  have g: "dispatched w (snd (snd (AfterEachIteration l (e, w))))
          = pass e Component_AfterEachIterationBase @ pass e Component_AfterEachIteration"
    if "has_drivers e"
    by (simp add: AfterEachIteration_ok [OF that] iteration_events_def)
  have h: "dispatched w (snd (snd (AfterEachResolution l (e, w))))
          = pass e Component_AfterEachResolutionBase @ pass e Component_AfterEachResolution"
    if "has_drivers e"
    by (simp add: AfterEachResolution_ok [OF that])
  have i: "dispatched w (snd (snd (AfterRegistration (e, w))))
          = pass e Component_AfterRegistrationBase @ pass e Component_AfterRegistration"
    if "has_drivers e"
    by (simp add: AfterRegistration_ok [OF that])
  show ?thesis using a b c d f g h i by blast
qed

theorem lifecycle_dispatch_order_witness:
  "has_drivers demo_elastix
   \<and> dispatched demo_world (snd (snd (AfterEachIteration 0 (demo_elastix, demo_world))))
       = map (\<lambda>c. Call c Component_AfterEachIterationBase)
           [OnConfiguration, OnComponent Registration 0,
            OnComponent Transform 0, OnComponent Transform 1,
            OnComponent Metric 0, OnComponent Interpolator 0, OnComponent Optimizer 0,
            OnComponent FixedImagePyramid 0, OnComponent MovingImagePyramid 0,
            OnComponent ResampleInterpolator 0, OnComponent Resampler 0]
         @ map (\<lambda>c. Call c Component_AfterEachIteration)
           [OnConfiguration, OnComponent Registration 0,
            OnComponent Transform 0, OnComponent Transform 1,
            OnComponent Metric 0, OnComponent Interpolator 0, OnComponent Optimizer 0,
            OnComponent FixedImagePyramid 0, OnComponent MovingImagePyramid 0,
            OnComponent ResampleInterpolator 0, OnComponent Resampler 0]"
  using lifecycle_dispatch_order [of Component_AfterEachIteration demo_elastix demo_world
      demo_environment 0] has_drivers_demo
  by (simp add: pass_def dispatch_order_demo)

section \<open>The iteration counter\<close>



section \<open>The name of the snapshot of an iteration\<close>

text \<open>
  Claim C8. When snapshots of the transform parameters are written each iteration and the
  iteration counter is below ten million, \<^verbatim>\<open>AfterEachIteration\<close> creates the file
  \<^verbatim>\<open><out>TransformParameters.<elastixLevel>.R<resolutionLevel>.It<iteration>.txt\<close>, where the
  iteration field is the counter in decimal digits with zeros in front up to exactly 7
  characters; counter 123 gives \<^verbatim>\<open>0000123\<close>.
\<close>

theorem snapshot_file_name:
  assumes d: "has_drivers e" and f: "WriteEachIteration e"
    and n: "m_IterationCounter e < 10000000"
  shows "m_CurrentTransformParameterFileName (fst (snd (AfterEachIteration l (e, w)))) =
           GetCommandLineArgument (elx_Configuration e) ''-out'' @ ''TransformParameters.''
             @ show_nat (ElastixLevel (elx_Configuration e)) @ ''.R'' @ show_nat l @ ''.It''
             @ replicate (7 - length (show_nat (m_IterationCounter e))) CHR ''0''
             @ show_nat (m_IterationCounter e) @ ''.txt''
    \<and> length (replicate (7 - length (show_nat (m_IterationCounter e))) CHR ''0''
               @ show_nat (m_IterationCounter e)) = 7
    \<and> set (show_nat (m_IterationCounter e)) \<subseteq> set ''0123456789''
    \<and> OpenFile (m_CurrentTransformParameterFileName (fst (snd (AfterEachIteration l (e, w)))))
        \<in> set (new_events w (snd (snd (AfterEachIteration l (e, w)))))"
proof -
  have p: "makeIterationString (m_IterationCounter e) =
      replicate (7 - length (show_nat (m_IterationCounter e))) CHR ''0''
        @ show_nat (m_IterationCounter e)"
    using n by (rule makeIterationString_padded(1))
  have q: "length (makeIterationString (m_IterationCounter e)) = 7"
    using n by (rule makeIterationString_padded(2))
  have name: "m_CurrentTransformParameterFileName (fst (snd (AfterEachIteration l (e, w))))
      = iteration_file_name e l"
    using f by (simp add: AfterEachIteration_ok [OF d])
  have ev: "OpenFile (iteration_file_name e l)
      \<in> set (new_events w (snd (snd (AfterEachIteration l (e, w)))))"
    using f by (simp add: AfterEachIteration_ok [OF d] iteration_events_def file_events_def)
  show ?thesis
    using name ev q show_nat_digits [of "m_IterationCounter e"]
    unfolding iteration_file_name_def p by simp
qed

theorem snapshot_file_name_witness:
  "has_drivers (demo_elastix\<lparr>m_IterationCounter := 123\<rparr>)
   \<and> WriteEachIteration (demo_elastix\<lparr>m_IterationCounter := 123\<rparr>)
   \<and> (123::nat) < 10000000
   \<and> m_CurrentTransformParameterFileName
        (fst (snd (AfterEachIteration 2 (demo_elastix\<lparr>m_IterationCounter := 123\<rparr>, demo_world))))
       = ''out/TransformParameters.0.R2.It0000123.txt''"
proof -
  have h1: "has_drivers (demo_elastix\<lparr>m_IterationCounter := 123\<rparr>)"
    using has_drivers_demo by simp
  have h2: "WriteEachIteration (demo_elastix\<lparr>m_IterationCounter := 123\<rparr>)"
    by (simp add: WriteEachIteration_def ReadParameter_def demo_elastix_def
        ElastixTemplate_New_def demo_configuration_def)
  have h3: "m_IterationCounter (demo_elastix\<lparr>m_IterationCounter := 123\<rparr>) < 10000000"
    by simp
  have s: "show_nat 123 = ''123''" "show_nat 0 = ''0''" "show_nat 2 = ''2''"
    by (simp_all add: show_nat.simps digit_char_def)
  have rep: "replicate 4 CHR ''0'' = ''0000''" by (simp add: eval_nat_numeral)
  have o: "GetCommandLineArgument (elx_Configuration demo_elastix) ''-out'' = ''out/''"
    by (simp add: GetCommandLineArgument_def demo_elastix_def ElastixTemplate_New_def
        demo_configuration_def)
  have l: "ElastixLevel (elx_Configuration demo_elastix) = 0"
    by (simp add: demo_elastix_def ElastixTemplate_New_def demo_configuration_def)
  show ?thesis
    using snapshot_file_name [OF h1 h2 h3, of 2 demo_world] h1 h2
    by (simp add: s o l rep)
qed

section \<open>Failing to resolve the dispatch index\<close>

text \<open>
  Claim C5. When, after \<^verbatim>\<open>InitDBIndex\<close>, the fixed or the moving image dimension is still 0,
  or the database gives index 0 for the pixel types and dimensions, then \<^verbatim>\<open>InitDBIndex\<close>
  has returned 1, and \<^verbatim>\<open>ElastixMain::Run\<close> returns 1 right there: the store and its next
  free address are as before, and there is no elastix object, so no component was created.
\<close>

theorem dispatch_resolution_failure:
  assumes "m_FixedImageDimension (fst (snd (InitDBIndex env (m, w)))) = 0
     \<or> m_MovingImageDimension (fst (snd (InitDBIndex env (m, w)))) = 0
     \<or> GetIndex env
          (m_FixedImagePixelType (fst (snd (InitDBIndex env (m, w)))))
          (m_FixedImageDimension (fst (snd (InitDBIndex env (m, w)))))
          (m_MovingImagePixelType (fst (snd (InitDBIndex env (m, w)))))
          (m_MovingImageDimension (fst (snd (InitDBIndex env (m, w))))) = 0"
  shows "fst (InitDBIndex env (m, w)) = 1
    \<and> ElastixMain_Run env (m, w) = (Inr 1, snd (InitDBIndex env (m, w)))
    \<and> heap (snd (snd (ElastixMain_Run env (m, w)))) = heap w
    \<and> next_addr (snd (snd (ElastixMain_Run env (m, w)))) = next_addr w
    \<and> m_Elastix (fst (snd (ElastixMain_Run env (m, w)))) = m_Elastix m"
proof -
  obtain rc m' w' where i: "InitDBIndex env (m, w) = (rc, m', w')"
    by (cases "InitDBIndex env (m, w)")
  note r = InitDBIndex_result [OF i]
  have rc: "rc = 1" using assms r by (auto simp: i)
  have run: "ElastixMain_Run env (m, w) = (Inr 1, m', w')"
    using rc by (simp add: ElastixMain_Run_def i)
  show ?thesis using rc run r by (simp add: i)
qed

theorem dispatch_resolution_failure_witness:
  "m_FixedImageDimension (fst (snd (InitDBIndex demo_environment (no_images_main, demo_world)))) = 0
   \<and> ElastixMain_Run demo_environment (no_images_main, demo_world)
      = (Inr 1, no_images_main\<lparr>m_FixedImagePixelType := ''float''\<rparr>,
         emit (LogError ''ERROR: could not read fixed image.'') demo_world)
   \<and> next_addr (snd (snd (ElastixMain_Run demo_environment (no_images_main, demo_world)))) = 11
   \<and> GetIndex four_dimensional ''float'' 4 ''float'' 4 = 0
   \<and> fst (ElastixMain_Run four_dimensional (ElastixMain_New demo_configuration, demo_world))
      = Inr 1
   \<and> next_addr (snd (snd (ElastixMain_Run four_dimensional
        (ElastixMain_New demo_configuration, demo_world)))) = 11"
proof -
  have i1: "InitDBIndex demo_environment (no_images_main, demo_world)
      = (1, no_images_main\<lparr>m_FixedImagePixelType := ''float''\<rparr>,
         emit (LogError ''ERROR: could not read fixed image.'') demo_world)"
    by (simp add: InitDBIndex_def InitFixedImageDimension_def no_images_main_def
        ElastixMain_New_def demo_configuration_def demo_environment_def ReadParameter_def
        GetCommandLineArgument_def Let_def)
  have z: "m_FixedImageDimension no_images_main = 0"
    by (simp add: no_images_main_def ElastixMain_New_def)
  have h1: "m_FixedImageDimension
      (fst (snd (InitDBIndex demo_environment (no_images_main, demo_world)))) = 0"
    by (simp add: i1 z)
  have i2: "fst (snd (InitDBIndex four_dimensional (ElastixMain_New demo_configuration, demo_world)))
      = (ElastixMain_New demo_configuration)
          \<lparr>m_FixedImagePixelType := ''float'', m_FixedImageDimension := 4,
           m_MovingImagePixelType := ''float'', m_MovingImageDimension := 4, m_DBIndex := 0\<rparr>"
    by (simp add: InitDBIndex_def InitFixedImageDimension_def InitMovingImageDimension_def
        GetImageInformationFromFile_def four_dimensional_def
        ElastixMain_New_def demo_configuration_def demo_environment_def ReadParameter_def
        GetCommandLineArgument_def Let_def)
  have g: "GetIndex four_dimensional ''float'' 4 ''float'' 4 = 0"
    by (simp add: four_dimensional_def demo_environment_def)
  have n: "next_addr demo_world = 11" by (simp add: demo_world_def)
  have h2: "GetIndex four_dimensional
          (m_FixedImagePixelType (fst (snd (InitDBIndex four_dimensional
             (ElastixMain_New demo_configuration, demo_world)))))
          (m_FixedImageDimension (fst (snd (InitDBIndex four_dimensional
             (ElastixMain_New demo_configuration, demo_world)))))
          (m_MovingImagePixelType (fst (snd (InitDBIndex four_dimensional
             (ElastixMain_New demo_configuration, demo_world)))))
          (m_MovingImageDimension (fst (snd (InitDBIndex four_dimensional
             (ElastixMain_New demo_configuration, demo_world))))) = 0"
    by (simp add: i2 g)
  note A = dispatch_resolution_failure [of demo_environment no_images_main demo_world,
      OF disjI1, OF h1]
  note B = dispatch_resolution_failure [of four_dimensional "ElastixMain_New demo_configuration"
      demo_world, OF disjI2, OF disjI2, OF h2]
  have a1: "ElastixMain_Run demo_environment (no_images_main, demo_world)
      = (Inr 1, no_images_main\<lparr>m_FixedImagePixelType := ''float''\<rparr>,
         emit (LogError ''ERROR: could not read fixed image.'') demo_world)"
    using A [THEN conjunct2, THEN conjunct1] by (simp add: i1)
  have a2: "next_addr (snd (snd (ElastixMain_Run demo_environment (no_images_main, demo_world))))
      = 11"
    using A [THEN conjunct2, THEN conjunct2, THEN conjunct2, THEN conjunct1] n by simp
  have b1: "fst (ElastixMain_Run four_dimensional (ElastixMain_New demo_configuration, demo_world))
      = Inr 1"
    using B [THEN conjunct2, THEN conjunct1] by simp
  have b2: "next_addr (snd (snd (ElastixMain_Run four_dimensional
        (ElastixMain_New demo_configuration, demo_world)))) = 11"
    using B [THEN conjunct2, THEN conjunct2, THEN conjunct2, THEN conjunct1] n by simp
  show ?thesis
    using h1 a1 a2 g b1 b2 by (intro conjI)
qed

section \<open>An error code that is erased\<close>

text \<open>
  Claim C10. \<^verbatim>\<open>Run\<close> passes one error code through its ten calls of \<^verbatim>\<open>CreateComponents\<close>
  and tests it once, after the last. Let \<^verbatim>\<open>Run\<close> have reached the ten calls, let the first
  name of Registration or of a pyramid (the name declared at entry 0, or else the default)
  be one that cannot be created, let no ImageSampler be configured, and let none of the
  six roles created after ImageSampler fail. Then the failure happens inside the ten
  calls: after the three calls before ImageSampler the error code is 1 and the error has
  been reported. The call for ImageSampler (no default, not mandatory) returns the error
  code 0 whatever it was given, and after the ten calls the error code is 0, although the
  reported error is in the trace and the container of the failed role is empty. So the
  test after the ten calls passes and \<^verbatim>\<open>Run\<close> goes on to run the elastix object. In general,
  with no ImageSampler configured the error code after the ten calls is nonzero only if
  the creation of one of the six later roles has failed. In the witness the registration
  cannot be created, and the elastix object runs until it follows the null pointer to its
  registration.
\<close>

theorem error_code_erased:
  assumes init: "InitDBIndex env st = (0, m, w1)"
    and elx: "CreateComponent env m ''Elastix'' w1 = (Inr This, w)"
    and early: "(key, d) \<in> set earlier_roles"
    and bad: "\<not> creatable env m (first_name m key d)"
    and absent: "map_of (StringParameters (m_Configuration m)) (''ImageSampler'', 0) = None"
    and later_ok: "\<forall>key\<in>set later_roles.
        \<forall>ev\<in>set (new_events w (snd (snd (PopulateComponentContainers env
                    (m\<lparr>m_Elastix := Some (This, fresh_elastix m)\<rparr>) (fresh_elastix m, 0, w))))).
          \<not> creation_failure key ev"
  shows "(\<forall>s. PopulateComponentContainers env (m\<lparr>m_Elastix := Some (This, fresh_elastix m)\<rparr>) s
            = CreateSamplerAndLaterRoles env (m\<lparr>m_Elastix := Some (This, fresh_elastix m)\<rparr>)
                (CreateEarlierRoles env (m\<lparr>m_Elastix := Some (This, fresh_elastix m)\<rparr>) s))
    \<and> fst (snd (CreateEarlierRoles env (m\<lparr>m_Elastix := Some (This, fresh_elastix m)\<rparr>)
                   (fresh_elastix m, 0, w))) = 1
    \<and> CreationError key 0
          (ExceptionObject
             (''The following component could not be created: '' @ first_name m key d))
        \<in> set (new_events w
                 (snd (snd (CreateEarlierRoles env (m\<lparr>m_Elastix := Some (This, fresh_elastix m)\<rparr>)
                              (fresh_elastix m, 0, w)))))
    \<and> (\<forall>errorcode w'.
          CreateComponents env (m\<lparr>m_Elastix := Some (This, fresh_elastix m)\<rparr>) ''ImageSampler'' []
            errorcode False w' = ([], 0, w'))
    \<and> (\<forall>e errorCode w'.
          fst (snd (PopulateComponentContainers env
                      (m\<lparr>m_Elastix := Some (This, fresh_elastix m)\<rparr>) (e, errorCode, w'))) \<noteq> 0 \<longrightarrow>
          (\<exists>key\<in>set later_roles.
             \<exists>ev\<in>set (new_events w'
                        (snd (snd (PopulateComponentContainers env
                           (m\<lparr>m_Elastix := Some (This, fresh_elastix m)\<rparr>) (e, errorCode, w'))))).
               creation_failure key ev))
    \<and> fst (snd (PopulateComponentContainers env
          (m\<lparr>m_Elastix := Some (This, fresh_elastix m)\<rparr>) (fresh_elastix m, 0, w))) = 0
    \<and> CreationError key 0
          (ExceptionObject
             (''The following component could not be created: '' @ first_name m key d))
        \<in> set (new_events w
                 (snd (snd (PopulateComponentContainers env
                              (m\<lparr>m_Elastix := Some (This, fresh_elastix m)\<rparr>)
                              (fresh_elastix m, 0, w)))))
    \<and> (\<forall>r. role_name r = key \<longrightarrow>
          GetContainer (fst (PopulateComponentContainers env
                               (m\<lparr>m_Elastix := Some (This, fresh_elastix m)\<rparr>)
                               (fresh_elastix m, 0, w))) r = [])
    \<and> ElastixMain_Run env st =
        RunElastix env This (m\<lparr>m_Elastix := Some (This, fresh_elastix m)\<rparr>)
          (fst (PopulateComponentContainers env
                  (m\<lparr>m_Elastix := Some (This, fresh_elastix m)\<rparr>) (fresh_elastix m, 0, w)),
           snd (snd (PopulateComponentContainers env
                  (m\<lparr>m_Elastix := Some (This, fresh_elastix m)\<rparr>) (fresh_elastix m, 0, w))))"
proof -
  define m2 where "m2 = m\<lparr>m_Elastix := Some (This, fresh_elastix m)\<rparr>"
  define failure where "failure = CreationError key 0
          (ExceptionObject
             (''The following component could not be created: '' @ first_name m key d))"
  have d2: "declared m2 ''ImageSampler'' 0 = None"
    using absent by (simp add: declared_def m2_def)
  have bad2: "\<not> creatable env m2 (first_name m2 key d)" using bad by (simp add: m2_def)
  have fn: "first_name m2 key d = first_name m key d" by (simp add: m2_def)
  have two: "\<forall>s. PopulateComponentContainers env m2 s
            = CreateSamplerAndLaterRoles env m2 (CreateEarlierRoles env m2 s)"
    by (simp add: Populate_in_two_parts)
  obtain e3 ec3 w3 where E: "CreateEarlierRoles env m2 (fresh_elastix m, 0, w) = (e3, ec3, w3)"
    by (cases "CreateEarlierRoles env m2 (fresh_elastix m, 0, w)")
  note F = CreateEarlierRoles_fails [OF early bad2, of "fresh_elastix m" 0 w,
      unfolded fn failure_def [symmetric] E]
  have e1: "ec3 = 1" using F by simp
  have e2: "failure \<in> set (new_events w w3)" using F by simp
  have e3: "\<forall>r. role_name r = key \<longrightarrow> GetContainer e3 r = []" using F by simp
  have a: "\<forall>errorcode w'. CreateComponents env m2 ''ImageSampler'' [] errorcode False w'
            = ([], 0, w')"
    using d2 by (simp add: CreateComponents_absent_optional)
  have b: "\<forall>e errorCode w'.
          fst (snd (PopulateComponentContainers env m2 (e, errorCode, w'))) \<noteq> 0 \<longrightarrow>
          (\<exists>key\<in>set later_roles.
             \<exists>ev\<in>set (new_events w'
                        (snd (snd (PopulateComponentContainers env m2 (e, errorCode, w'))))).
               creation_failure key ev)"
    using Populate_later_failure [OF d2] by blast
  have c: "fst (snd (PopulateComponentContainers env m2 (fresh_elastix m, 0, w))) = 0"
  proof (rule ccontr)
    assume "fst (snd (PopulateComponentContainers env m2 (fresh_elastix m, 0, w))) \<noteq> 0"
    then have "\<exists>key\<in>set later_roles.
           \<exists>ev\<in>set (new_events w (snd (snd (PopulateComponentContainers env m2
                (fresh_elastix m, 0, w))))). creation_failure key ev"
      by (rule Populate_later_failure [OF d2])
    then show False using later_ok by (auto simp: m2_def)
  qed
  obtain e' ec' w' where P: "PopulateComponentContainers env m2 (fresh_elastix m, 0, w)
      = (e', ec', w')"
    by (cases "PopulateComponentContainers env m2 (fresh_elastix m, 0, w)")
  have L: "CreateSamplerAndLaterRoles env m2 (e3, ec3, w3) = (e', ec', w')"
    using P E by (simp add: Populate_in_two_parts)
  obtain evs where tr: "trace w' = trace w3 @ evs"
    using CreateSamplerAndLaterRoles_trace [of env m2 e3 ec3 w3] L by auto
  have "\<exists>pre. trace w3 = trace w @ pre"
  proof -
    obtain c1 ec1 v1 where s1: "CreateComponents env m2 ''Registration''
        ''MultiResolutionRegistration'' 0 True w = (c1, ec1, v1)"
      by (cases "CreateComponents env m2 ''Registration'' ''MultiResolutionRegistration'' 0
        True w")
    obtain c2 ec2 v2 where s2: "CreateComponents env m2 ''FixedImagePyramid''
        ''FixedSmoothingImagePyramid'' ec1 True v1 = (c2, ec2, v2)"
      by (cases "CreateComponents env m2 ''FixedImagePyramid'' ''FixedSmoothingImagePyramid''
        ec1 True v1")
    obtain c3 ec3' v3 where s3: "CreateComponents env m2 ''MovingImagePyramid''
        ''MovingSmoothingImagePyramid'' ec2 True v2 = (c3, ec3', v3)"
      by (cases "CreateComponents env m2 ''MovingImagePyramid'' ''MovingSmoothingImagePyramid''
        ec2 True v2")
    have "w3 = v3" using E by (simp add: CreateEarlierRoles_def s1 s2 s3)
    moreover obtain a1 where "trace v1 = trace w @ a1"
      using CreateComponents_trace [OF s1] by blast
    moreover obtain a2 where "trace v2 = trace v1 @ a2"
      using CreateComponents_trace [OF s2] by blast
    moreover obtain a3 where "trace v3 = trace v2 @ a3"
      using CreateComponents_trace [OF s3] by blast
    ultimately show ?thesis by simp
  qed
  then obtain pre where pre: "trace w3 = trace w @ pre" ..
  have f': "failure \<in> set (new_events w w')"
  proof -
    have "new_events w w3 = pre" using pre by (simp add: new_events_def)
    moreover have "new_events w w' = pre @ evs" using pre tr by (simp add: new_events_def)
    ultimately show ?thesis using e2 by simp
  qed
  have g': "\<forall>r. role_name r = key \<longrightarrow> GetContainer e' r = []"
  proof (intro allI impI)
    fix r
    assume rk: "role_name r = key"
    then have g3: "GetContainer e3 r = []" using e3 by simp
    have fr: "RegistrationContainer e' = RegistrationContainer e3"
      "FixedImagePyramidContainer e' = FixedImagePyramidContainer e3"
      "MovingImagePyramidContainer e' = MovingImagePyramidContainer e3"
      using CreateSamplerAndLaterRoles_frame [of env m2 e3 ec3 w3] L by simp_all
    have "r = Registration \<or> r = FixedImagePyramid \<or> r = MovingImagePyramid"
      using rk early by (cases r) (auto simp: earlier_roles_def)
    then show "GetContainer e' r = []" using g3 fr by auto
  qed
  have ec': "ec' = 0" using c P by simp
  have run: "ElastixMain_Run env st = RunElastix env This m2 (e', w')"
    using init elx P ec'
    by (simp add: ElastixMain_Run_def Let_def fresh_elastix_def m2_def)
  have k1: "fst (snd (CreateEarlierRoles env m2 (fresh_elastix m, 0, w))) = 1"
    using e1 by (simp add: E)
  have k2: "failure \<in> set (new_events w
      (snd (snd (CreateEarlierRoles env m2 (fresh_elastix m, 0, w)))))"
    using e2 by (simp add: E)
  have k3: "failure \<in> set (new_events w
      (snd (snd (PopulateComponentContainers env m2 (fresh_elastix m, 0, w)))))"
    using f' by (simp add: P)
  have k4: "\<forall>r. role_name r = key \<longrightarrow>
      GetContainer (fst (PopulateComponentContainers env m2 (fresh_elastix m, 0, w))) r = []"
    using g' by (simp add: P)
  have k5: "ElastixMain_Run env st =
        RunElastix env This m2
          (fst (PopulateComponentContainers env m2 (fresh_elastix m, 0, w)),
           snd (snd (PopulateComponentContainers env m2 (fresh_elastix m, 0, w))))"
    using run by (simp add: P)
  show ?thesis
    unfolding m2_def [symmetric] failure_def [symmetric]
    using two k1 k2 a b c k3 k4 k5 by (intro conjI)
qed

theorem error_code_erased_witness:
  "InitDBIndex demo_environment (bogus_main, demo_world) = (0, bogus_ready, demo_world)
   \<and> first_name bogus_ready ''Registration'' ''MultiResolutionRegistration''
       = ''NoSuchRegistration''
   \<and> fst (snd (CreateEarlierRoles demo_environment
                  (bogus_ready\<lparr>m_Elastix := Some (11, fresh_elastix bogus_ready)\<rparr>)
                  (fresh_elastix bogus_ready, 0, alloc elastix_object demo_world))) = 1
   \<and> CreateComponents demo_environment
        (bogus_ready\<lparr>m_Elastix := Some (11, fresh_elastix bogus_ready)\<rparr>) ''ImageSampler'' [] 1
        False (alloc elastix_object demo_world) = ([], 0, alloc elastix_object demo_world)
   \<and> fst (snd (PopulateComponentContainers demo_environment
                  (bogus_ready\<lparr>m_Elastix := Some (11, fresh_elastix bogus_ready)\<rparr>)
                  (fresh_elastix bogus_ready, 0, alloc elastix_object demo_world))) = 0
   \<and> CreationError ''Registration'' 0
         (ExceptionObject ''The following component could not be created: NoSuchRegistration'')
       \<in> set (new_events (alloc elastix_object demo_world)
                (snd (snd (PopulateComponentContainers demo_environment
                  (bogus_ready\<lparr>m_Elastix := Some (11, fresh_elastix bogus_ready)\<rparr>)
                  (fresh_elastix bogus_ready, 0, alloc elastix_object demo_world)))))
   \<and> RegistrationContainer (fst (PopulateComponentContainers demo_environment
                  (bogus_ready\<lparr>m_Elastix := Some (11, fresh_elastix bogus_ready)\<rparr>)
                  (fresh_elastix bogus_ready, 0, alloc elastix_object demo_world))) = []
   \<and> fst (ElastixMain_Run demo_environment (bogus_main, demo_world))
       = Inl NullPointerDereference"
proof -
  define m2 where "m2 = bogus_ready\<lparr>m_Elastix := Some (11, fresh_elastix bogus_ready)\<rparr>"
  define w2 where "w2 = alloc elastix_object demo_world"
  define failure where "failure = CreationError ''Registration'' 0
          (ExceptionObject
             (''The following component could not be created: '' @ ''NoSuchRegistration''))"
  have absent: "map_of (StringParameters (m_Configuration bogus_ready)) (''ImageSampler'', 0)
      = None"
    by (simp add: bogus_ready_def bogus_main_def ElastixMain_New_def demo_configuration_def)
  obtain c2 c3 c5 c6 c7 c8 c9 c10 w' where
    P: "PopulateComponentContainers demo_environment m2 (fresh_elastix bogus_ready, 0, w2) =
       ((fresh_elastix bogus_ready)\<lparr>RegistrationContainer := [],
          FixedImagePyramidContainer := c2,
          MovingImagePyramidContainer := c3, ImageSamplerContainer := [],
          InterpolatorContainer := c5, MetricContainer := c6, OptimizerContainer := c7,
          ResampleInterpolatorContainer := c8, ResamplerContainer := c9,
          TransformContainer := c10\<rparr>, 0, w')"
    and T: "trace w' = trace w2 @ [failure]"
    unfolding m2_def failure_def
    using bogus_populate [of "Some (11, fresh_elastix bogus_ready)" "fresh_elastix bogus_ready"
        0 w2] by blast
  have n: "new_events w2 w' = [failure]" by (simp add: new_events_def T)
  have nf: "\<forall>key\<in>set later_roles. \<not> creation_failure key failure"
    by (simp add: later_roles_def creation_failure_def failure_def CreationError_def
        while_creating_def not_specified_def)
  have later_ok: "\<forall>key\<in>set later_roles.
        \<forall>ev\<in>set (new_events w2 (snd (snd (PopulateComponentContainers demo_environment
                    (bogus_ready\<lparr>m_Elastix := Some (11, fresh_elastix bogus_ready)\<rparr>)
                    (fresh_elastix bogus_ready, 0, w2))))).
          \<not> creation_failure key ev"
    unfolding m2_def [symmetric] using nf by (simp add: P n)
  have d1: "declared bogus_ready ''Registration'' 0 = Some ''NoSuchRegistration''"
    using bogus_declared(1) [of "m_Elastix bogus_ready"] by simp
  have fn: "first_name bogus_ready ''Registration'' ''MultiResolutionRegistration''
      = ''NoSuchRegistration''"
    by (simp add: first_name_def d1)
  have bad: "\<not> creatable demo_environment bogus_ready
      (first_name bogus_ready ''Registration'' ''MultiResolutionRegistration'')"
    unfolding fn using bogus_creatable(1) [of "m_Elastix bogus_ready"] by simp
  have early: "(''Registration'', ''MultiResolutionRegistration'') \<in> set earlier_roles"
    by (simp add: earlier_roles_def)
  note E = error_code_erased [OF bogus_init bogus_elastix [folded w2_def] early bad absent
      later_ok, folded m2_def, unfolded fn]
  note E2 = E [THEN conjunct2]
  note E4 = E2 [THEN conjunct2, THEN conjunct2]
  note E6 = E4 [THEN conjunct2, THEN conjunct2]
  have r1: "fst (snd (CreateEarlierRoles demo_environment m2
      (fresh_elastix bogus_ready, 0, w2))) = 1"
    by (rule E2 [THEN conjunct1])
  have r2: "CreateComponents demo_environment m2 ''ImageSampler'' [] 1 False w2 = ([], 0, w2)"
    using E4 [THEN conjunct1] by blast
  have r3: "fst (snd (PopulateComponentContainers demo_environment m2
      (fresh_elastix bogus_ready, 0, w2))) = 0"
    by (rule E6 [THEN conjunct1])
  have r4: "CreationError ''Registration'' 0
         (ExceptionObject ''The following component could not be created: NoSuchRegistration'')
       \<in> set (new_events w2
                (snd (snd (PopulateComponentContainers demo_environment m2
                  (fresh_elastix bogus_ready, 0, w2)))))"
    using E6 [THEN conjunct2, THEN conjunct1] by simp
  have "GetContainer (fst (PopulateComponentContainers demo_environment m2
      (fresh_elastix bogus_ready, 0, w2))) Registration = []"
    using E6 [THEN conjunct2, THEN conjunct2, THEN conjunct1, THEN spec, of Registration]
    by simp
  then have r5: "RegistrationContainer (fst (PopulateComponentContainers demo_environment m2
      (fresh_elastix bogus_ready, 0, w2))) = []"
    by simp
  have run: "ElastixMain_Run demo_environment (bogus_main, demo_world) =
      RunElastix demo_environment 11 m2
        (fst (PopulateComponentContainers demo_environment m2 (fresh_elastix bogus_ready, 0, w2)),
         snd (snd (PopulateComponentContainers demo_environment m2
           (fresh_elastix bogus_ready, 0, w2))))"
    by (rule E6 [THEN conjunct2, THEN conjunct2, THEN conjunct2])
  have h: "\<And>c func. HandlerResult demo_environment c func = 0"
    by (simp add: demo_environment_def)
  have r6: "fst (ElastixMain_Run demo_environment (bogus_main, demo_world))
      = Inl NullPointerDereference"
    unfolding run
    by (rule RunElastix_fault, rule ElastixTemplate_Run_no_registration [OF h]) (simp add: r5)
  show ?thesis
    using bogus_init fn r1 r2 r3 r4 r5 r6 unfolding m2_def w2_def by (intro conjI)
qed


section \<open>Applying a transform without registration\<close>





section \<open>After a run that returns 0\<close>

text \<open>
  Claim C7. When \<^verbatim>\<open>Run\<close> returns 0, the elastix object has run to its end: every
  component in each of its ten containers has its pointer to the elastix object cleared,
  the first element of the transform container that \<^verbatim>\<open>Run\<close> created is the final transform
  of the elastix object, and \<^verbatim>\<open>GetFinalTransform\<close> returns it. That transform refers to no
  elastix object any more. A new \<^verbatim>\<open>ElastixMain\<close>, of any configuration, takes it with
  \<^verbatim>\<open>SetInitialTransform\<close>, and when its own \<^verbatim>\<open>Run\<close> returns 0 its elastix object has had it
  as its initial transform. In the witness the first run creates the transforms at the
  addresses 20 and 21, and the second run starts in the world the first has left.
\<close>

theorem Run_decouples_and_hands_over:
  assumes "ElastixMain_Run env (m, w) = (Inr 0, m', w')"
  shows "\<exists>m1 w0 This w1 e' t ts.
       InitDBIndex env (m, w) = (0, m1, w0)
     \<and> CreateComponent env m1 ''Elastix'' w0 = (Inr This, w1)
     \<and> TransformContainer (fst (PopulateComponentContainers env
           (m1\<lparr>m_Elastix := Some (This, fresh_elastix m1)\<rparr>) (fresh_elastix m1, 0, w1))) = t # ts
     \<and> m_Elastix m' = Some (This, e')
     \<and> (\<forall>r. \<forall>a\<in>set (GetContainer e' r). Elastix (heap w' a) = None)
     \<and> TransformContainer e' = t # ts
     \<and> FinalTransform e' = Some t
     \<and> GetFinalTransform m' = Some t
     \<and> Elastix (heap w' t) = None
     \<and> (\<forall>cfg. m_InitialTransform
                 (SetInitialTransform (GetFinalTransform m') (ElastixMain_New cfg)) = Some t)
     \<and> (\<forall>env2 cfg m2 w2.
          ElastixMain_Run env2
            (SetInitialTransform (GetFinalTransform m') (ElastixMain_New cfg), w')
            = (Inr 0, m2, w2) \<longrightarrow>
          (\<exists>This2 e2. m_Elastix m2 = Some (This2, e2) \<and> InitialTransform e2 = Some t))"
proof -
  from ElastixMain_Run_success [OF assms] obtain m1 w0 This w1 e' where
    i: "InitDBIndex env (m, w) = (0, m1, w0)"
    and c: "CreateComponent env m1 ''Elastix'' w0 = (Inr This, w1)"
    and el: "m_Elastix m' = Some (This, e')"
    and f: "finished e' w'"
    and ft: "m_FinalTransform m' = FinalTransform e'"
    and tc: "TransformContainer e' =
         TransformContainer (fst (PopulateComponentContainers env
           (m1\<lparr>m_Elastix := Some (This, fresh_elastix m1)\<rparr>) (fresh_elastix m1, 0, w1)))"
    by blast
  have ne: "TransformContainer e' \<noteq> []" and fin: "FinalTransform e' = Some (hd (TransformContainer e'))"
    and d: "decoupled e' w'"
    using f by (simp_all add: finished_def)
  obtain t ts where t: "TransformContainer e' = t # ts"
    using ne by (cases "TransformContainer e'") auto
  have ft': "FinalTransform e' = Some t" using fin t by simp
  have g: "GetFinalTransform m' = Some t" using ft ft' by (simp add: GetFinalTransform_def)
  have cl: "\<forall>r. \<forall>a\<in>set (GetContainer e' r). Elastix (heap w' a) = None"
    using decoupledD [OF d] by blast
  have "t \<in> set (GetContainer e' Transform)" using t by simp
  then have tn: "Elastix (heap w' t) = None" using cl by blast
  have s: "\<forall>cfg. m_InitialTransform
                 (SetInitialTransform (GetFinalTransform m') (ElastixMain_New cfg)) = Some t"
    using g by (simp add: SetInitialTransform_def)
  have n: "\<forall>env2 cfg m2 w2.
          ElastixMain_Run env2
            (SetInitialTransform (GetFinalTransform m') (ElastixMain_New cfg), w')
            = (Inr 0, m2, w2) \<longrightarrow>
          (\<exists>This2 e2. m_Elastix m2 = Some (This2, e2) \<and> InitialTransform e2 = Some t)"
  proof (intro allI impI)
    fix env2 cfg m2 w2
    assume r: "ElastixMain_Run env2
            (SetInitialTransform (GetFinalTransform m') (ElastixMain_New cfg), w')
            = (Inr 0, m2, w2)"
    from ElastixMain_Run_success [OF r] obtain This2 e2 where
      "m_Elastix m2 = Some (This2, e2)"
      "InitialTransform e2 = m_InitialTransform
          (SetInitialTransform (GetFinalTransform m') (ElastixMain_New cfg))"
      by blast
    then show "\<exists>This2 e2. m_Elastix m2 = Some (This2, e2) \<and> InitialTransform e2 = Some t"
      using s by simp
  qed
  show ?thesis
    using i c el cl t ft' g tn s n tc by (intro exI [of _ m1] exI [of _ w0] exI [of _ This]
        exI [of _ w1] exI [of _ e'] exI [of _ t] exI [of _ ts]) simp
qed

theorem Run_decouples_and_hands_over_witness:
  "fst first_run = Inr 0
   \<and> GetFinalTransform (fst (snd first_run)) = Some 20
   \<and> Elastix (heap (snd (snd first_run)) 20) = None
   \<and> m_InitialTransform second_main = Some 20
   \<and> fst second_run = Inr 0
   \<and> map_option (\<lambda>x. InitialTransform (snd x)) (m_Elastix (fst (snd second_run)))
       = Some (Some 20)"
proof -
  have f0: "first_main = SetInitialTransform None (ElastixMain_New demo_configuration)"
    by (simp add: first_main_def SetInitialTransform_def ElastixMain_New_def)
  have r1: "fst first_run = Inr 0"
    unfolding first_run_def f0 by (rule demo_returns_0)
  have h1: "ElastixMain_Run demo_environment (first_main, demo_world)
      = (Inr 0, fst (snd first_run), snd (snd first_run))"
    using r1 unfolding first_run_def by (simp add: prod_eq_iff)
  from Run_decouples_and_hands_over [OF h1] obtain m1 w0 This w1 e' t ts where
    i: "InitDBIndex demo_environment (first_main, demo_world) = (0, m1, w0)"
    and c: "CreateComponent demo_environment m1 ''Elastix'' w0 = (Inr This, w1)"
    and tc: "TransformContainer (fst (PopulateComponentContainers demo_environment
           (m1\<lparr>m_Elastix := Some (This, fresh_elastix m1)\<rparr>) (fresh_elastix m1, 0, w1))) = t # ts"
    and g: "GetFinalTransform (fst (snd first_run)) = Some t"
    and n: "Elastix (heap (snd (snd first_run)) t) = None"
    and s: "\<forall>cfg. m_InitialTransform
                 (SetInitialTransform (GetFinalTransform (fst (snd first_run)))
                    (ElastixMain_New cfg)) = Some t"
    and nx: "\<forall>env2 cfg m2 w2.
          ElastixMain_Run env2
            (SetInitialTransform (GetFinalTransform (fst (snd first_run)))
               (ElastixMain_New cfg), snd (snd first_run))
            = (Inr 0, m2, w2) \<longrightarrow>
          (\<exists>This2 e2. m_Elastix m2 = Some (This2, e2) \<and> InitialTransform e2 = Some t)"
    by blast
  have m1: "m1 = (ElastixMain_New demo_configuration)
         \<lparr>m_FixedImagePixelType := ''float'', m_FixedImageDimension := 3,
          m_MovingImagePixelType := ''float'', m_MovingImageDimension := 3,
          m_DBIndex := 2, m_InitialTransform := None\<rparr>" and w0: "w0 = demo_world"
    using i demo_init [of None demo_world] unfolding f0 by simp_all
  have db1: "m_DBIndex m1 \<noteq> 0" by (simp add: m1)
  have c': "This = 11 \<and> w1 = alloc elastix_object demo_world"
    using c demo_elastix_created [OF db1, of demo_world] by (simp add: w0 demo_world_def)
  have na: "next_addr w1 = 12" using c' by (simp add: alloc_def demo_world_def)
  have cf: "m_Configuration (m1\<lparr>m_Elastix := Some (This, fresh_elastix m1)\<rparr>)
      = demo_configuration"
    by (simp add: m1 ElastixMain_New_def)
  have db: "m_DBIndex (m1\<lparr>m_Elastix := Some (This, fresh_elastix m1)\<rparr>) \<noteq> 0"
    by (simp add: m1)
  have "TransformContainer (fst (PopulateComponentContainers demo_environment
           (m1\<lparr>m_Elastix := Some (This, fresh_elastix m1)\<rparr>) (fresh_elastix m1, 0, w1)))
      = [20, 21]"
    using demo_populate [OF cf db, of "fresh_elastix m1" 0 w1] by (auto simp: na)
  then have t: "t = 20" using tc by simp
  have s2: "m_InitialTransform second_main = Some 20"
    using s t by (simp add: second_main_def)
  have r2: "fst second_run = Inr 0"
    unfolding second_run_def second_main_def by (rule demo_returns_0)
  have h2: "ElastixMain_Run demo_environment
            (SetInitialTransform (GetFinalTransform (fst (snd first_run)))
               (ElastixMain_New demo_configuration), snd (snd first_run))
            = (Inr 0, fst (snd second_run), snd (snd second_run))"
    using r2 unfolding second_run_def second_main_def by (simp add: prod_eq_iff)
  from nx h2 obtain This2 e2 where
    "m_Elastix (fst (snd second_run)) = Some (This2, e2)" "InitialTransform e2 = Some t"
    by blast
  then have i2: "map_option (\<lambda>x. InitialTransform (snd x)) (m_Elastix (fst (snd second_run)))
       = Some (Some 20)"
    using t by simp
  show ?thesis using r1 g n s2 r2 i2 t by simp
qed
end
